theory Spec2Isabelle
  imports
    Main
    "HOL-Library.FSet"
    "HOL-Library.Word"
    "HOL-Library.Multiset"
    "HOL-Library.List_Lexorder"
    "HOL-Library.Product_Lexorder"
    "HOL-Library.Option_ord"
begin

section \<open>Python values, exceptions\<close>

text \<open>
  The labels that reach an element key are hashable Python values: integers, strings,
  tuples of such, and element keys themselves (a child node wraps the keys of its parent,
  which for a grandchild are already element keys). An element key used as a label is
  represented by its frozenset (\<open>PKey\<close>). A \<open>pyval\<close> is the value of an object, not the
  object: what Python's \<open>==\<close> gives on two objects is \<open>py_eq\<close> below, which for element
  keys is not the equality of their values.
\<close>

datatype pyval =
    PInt int
  | PStr string
  | PTuple "pyval list"
  | PKey "pyval fset"

text \<open>
  Every exception the modelled code can raise. \<open>MemoryFault\<close> stands for what is
  undefined behaviour in the compiled code: a read through a NULL pointer or outside a
  C array.
\<close>

datatype error =
    ValueError string
  | TypeError string
  | IndexError
  | KeyError
  | OverflowError string
  | RuntimeError string
  | NotImplementedError
  | AttributeError
  | MemoryFault

text \<open>
  Subscripting a tuple, list or string with a Python integer: an index from \<open>-len\<close>
  up to \<open>-1\<close> addresses the sequence from its end, and anything outside
  \<open>-len ..< len\<close> raises IndexError.
\<close>

definition py_getitem :: "'a list \<Rightarrow> int \<Rightarrow> error + 'a" where
  "py_getitem xs i =
     (if 0 \<le> i \<and> i < int (length xs) then Inr (xs ! nat i)
      else if i < 0 \<and> - int (length xs) \<le> i then Inr (xs ! nat (int (length xs) + i))
      else Inl IndexError)"

text \<open>A read of \<open>p[i]\<close> through a C pointer that may be NULL, into an array of known length.\<close>

definition c_read :: "'a list option \<Rightarrow> nat \<Rightarrow> error + 'a" where
  "c_read p i =
     (case p of
        None \<Rightarrow> Inl MemoryFault
      | Some xs \<Rightarrow> if i < length xs then Inr (xs ! i) else Inl MemoryFault)"

text \<open>\<open>tuple(f(x) for x in xs)\<close> where \<open>f\<close> may raise: the first exception ends the loop.\<close>

fun mapM :: "('a \<Rightarrow> error + 'b) \<Rightarrow> 'a list \<Rightarrow> error + 'b list" where
  "mapM f [] = Inr []"
| "mapM f (x # xs) =
     (case f x of
        Inl e \<Rightarrow> Inl e
      | Inr y \<Rightarrow> (case mapM f xs of Inl e \<Rightarrow> Inl e | Inr ys \<Rightarrow> Inr (y # ys)))"

section \<open>Element keys\<close>

text \<open>
  \<^verbatim>\<open>
  cdef class ElementKey:
      cdef frozenset _key
      cdef bint _composition
      def __init__(self, keys, composition=False):
          if composition:
              sign1, key1, sign2, key2 = keys
              self._key = frozenset([(sign1, key1), (sign2, key2)])
              self._composition = True
          else:
              self._key = frozenset((keys,))
              self._composition = False
  \<close>
\<close>

record ElementKey =
  self_key :: "pyval fset"
  self_composition :: bool

text \<open>
  The unpacking \<open>sign1, key1, sign2, key2 = keys\<close>: a sequence of exactly four items
  (a string of four characters unpacks into its characters), ValueError for another
  length, TypeError for a value that is not iterable.
\<close>

fun unpack4 :: "pyval \<Rightarrow> error + (pyval \<times> pyval \<times> pyval \<times> pyval)" where
  "unpack4 (PTuple [a, b, c, d]) = Inr (a, b, c, d)"
| "unpack4 (PTuple _) = Inl (ValueError ''unpack'')"
| "unpack4 (PStr [a, b, c, d]) = Inr (PStr [a], PStr [b], PStr [c], PStr [d])"
| "unpack4 (PStr _) = Inl (ValueError ''unpack'')"
| "unpack4 (PKey _) = Inl (TypeError ''cannot unpack non-iterable'')"
| "unpack4 (PInt _) = Inl (TypeError ''cannot unpack non-iterable'')"

definition ElementKey_init :: "pyval \<Rightarrow> bool \<Rightarrow> error + ElementKey" where
  "ElementKey_init keys is_composition =
     (if is_composition then
        (case unpack4 keys of
           Inl e \<Rightarrow> Inl e
         | Inr (sign1, key1, sign2, key2) \<Rightarrow>
             Inr \<lparr>self_key = {|PTuple [sign1, key1], PTuple [sign2, key2]|},
                  self_composition = True\<rparr>)
      else Inr \<lparr>self_key = {|keys|}, self_composition = False\<rparr>)"

text \<open>
  \<^verbatim>\<open>
      def __hash__(self):
          return hash(self._key)
      def __eq__(self, other):
          if isinstance(other, ElementKey):
              return self._key == other._key
          return False
  \<close>
  The builtin hash of a frozenset is a parameter \<open>h\<close>. The other operand of \<open>==\<close> is
  an element key (\<open>Inl\<close>) or any other value (\<open>Inr\<close>). In \<open>__eq__\<close> the operand \<open>other\<close>
  has no declared type, so \<open>other._key\<close> is a lookup of a Python attribute; \<open>_key\<close> is
  declared \<open>cdef frozenset _key\<close>, neither \<open>public\<close> nor \<open>readonly\<close>, and is no Python
  attribute of an element key (the property is called \<open>key\<close>): the lookup raises
  AttributeError, whatever the two keys hold, also when \<open>other\<close> is \<open>self\<close>.
\<close>

definition ElementKey_hash :: "(pyval fset \<Rightarrow> int) \<Rightarrow> ElementKey \<Rightarrow> int" where
  "ElementKey_hash h self = h (self_key self)"

definition ElementKey_eq :: "ElementKey \<Rightarrow> ElementKey + pyval \<Rightarrow> error + bool" where
  "ElementKey_eq self other =
     (case other of Inl k \<Rightarrow> Inl AttributeError | Inr _ \<Rightarrow> Inr False)"

text \<open>An element key as a Python value (a label of a node further down the tree).\<close>

definition as_pyval :: "ElementKey \<Rightarrow> pyval" where
  "as_pyval k = PKey (self_key k)"

section \<open>The external library's data\<close>

text \<open>
  The sparse matrix of the external library, as the code reads and writes it: row
  \<open>r\<close> occupies the entries \<open>rowSlice[r] ..< rowSlice[r + 1]\<close> of \<open>entryColumns\<close>
  and \<open>entryValues\<close>; the values are C \<open>char\<close>s.
\<close>

record CMR_CHRMAT =
  numRows :: nat
  numColumns :: nat
  numNonzeros :: nat
  rowSlice :: "nat list"
  entryColumns :: "nat list"
  entryValues :: "8 word list"

text \<open>
  The decomposition handle of the later revision (\<open>CMR_MATROID_DEC\<close>), by what the
  accessors \<open>CMRmatroiddecType\<close>, \<open>...NumRows\<close>, \<open>...NumColumns\<close>, \<open>...GetMatrix\<close>,
  \<open>...RowsParent\<close>, \<open>...ColumnsParent\<close>, \<open>...Child\<close>/\<open>...NumChildren\<close>,
  \<open>...ThreeSumConcentratedRank\<close> and \<open>...ThreeSumDistributedRanks\<close> return. A pointer
  that may be NULL is an option. Elements (\<open>CMR_ELEMENT\<close>) are C ints.
\<close>

datatype CMR_MATROID_DEC = CMR_MATROID_DEC
  (CMRmatroiddecType: int)
  (CMRmatroiddecNumRows: nat)
  (CMRmatroiddecNumColumns: nat)
  (CMRmatroiddecGetMatrix: "CMR_CHRMAT option")
  (CMRmatroiddecRowsParent: "int list option")
  (CMRmatroiddecColumnsParent: "int list option")
  (CMRmatroiddecChildren: "CMR_MATROID_DEC option list")
  (CMRmatroiddecThreeSumConcentratedRank: bool)
  (CMRmatroiddecThreeSumDistributedRanks: bool)

definition CMRmatroiddecNumChildren :: "CMR_MATROID_DEC \<Rightarrow> nat" where
  "CMRmatroiddecNumChildren d = length (CMRmatroiddecChildren d)"

definition CMRmatroiddecChild :: "CMR_MATROID_DEC \<Rightarrow> nat \<Rightarrow> CMR_MATROID_DEC option" where
  "CMRmatroiddecChild d i =
     (if i < length (CMRmatroiddecChildren d) then CMRmatroiddecChildren d ! i else None)"

section \<open>Decomposition nodes\<close>

text \<open>The Python classes a node can be an instance of.\<close>

datatype node_class =
    OneSumNode | TwoSumNode | ThreeSumNode
  | PlanarNode | GraphicNode | CographicNode
  | SpecialLeafNode | SeriesParallelReductionNode
  | PivotsNode | SubmatrixNode
  | ThreeConnectedIrregularNode | UnknownNode

text \<open>
  A node holds its handle, the owner of the handle (\<open>_root\<close>: \<open>None\<close> when the node
  owns it itself; an owner is identified by the handle it owns) and its keys.
\<close>

record DecompositionNode =
  self_class :: node_class
  self_dec :: CMR_MATROID_DEC
  self_root :: "CMR_MATROID_DEC option"
  self_row_keys :: "pyval list option"
  self_column_keys :: "pyval list option"

definition nrows :: "DecompositionNode \<Rightarrow> nat" where
  "nrows self = CMRmatroiddecNumRows (self_dec self)"

definition ncols :: "DecompositionNode \<Rightarrow> nat" where
  "ncols self = CMRmatroiddecNumColumns (self_dec self)"

definition nchildren :: "DecompositionNode \<Rightarrow> nat" where
  "nchildren self = CMRmatroiddecNumChildren (self_dec self)"

definition row_keys :: "DecompositionNode \<Rightarrow> pyval list option" where
  "row_keys self = self_row_keys self"

definition column_keys :: "DecompositionNode \<Rightarrow> pyval list option" where
  "column_keys self = self_column_keys self"

text \<open>\<open>self._root or self\<close>: the owner of the handle.\<close>

definition root_or_self :: "DecompositionNode \<Rightarrow> CMR_MATROID_DEC" where
  "root_or_self self = (case self_root self of None \<Rightarrow> self_dec self | Some r \<Rightarrow> r)"

text \<open>
  The comparison \<open>self._row_keys != row_keys\<close> is Python's, on two objects. The node
  record keeps the values of the items of its keys; what the comparison depends on
  beyond these values is given by a \<open>key_objects\<close>: whether the stored keys and the new
  keys are tuples or lists, and at which places the two hold one and the same object. A
  place is a path: \<open>[i]\<close> is item \<open>i\<close> of the keys, \<open>[i, j]\<close> is item \<open>j\<close> of the tuple that
  is item \<open>i\<close>, and so on.
\<close>

record key_objects =
  stored_list :: bool
  new_list :: bool
  same_object :: "nat list \<Rightarrow> bool"

text \<open>
  The items of two sequences are compared in turn, each pair by \<open>x is y or x == y\<close>: an
  object is equal to itself without \<open>__eq__\<close> being called. The first pair that is not
  equal decides; when one sequence ends first, the lengths decide. \<open>x == y\<close> on two
  objects is by value for two integers and for two strings, item by item for two tuples,
  AttributeError for two element keys (\<open>ElementKey_eq\<close>), and \<open>False\<close> for objects of two
  different kinds (\<open>ElementKey.__eq__\<close> returns \<open>False\<close> for an operand that is no
  element key, from either side).
\<close>

fun py_eq :: "(nat list \<Rightarrow> bool) \<Rightarrow> nat list \<Rightarrow> pyval \<Rightarrow> pyval \<Rightarrow> error + bool"
  and py_eq_items ::
    "(nat list \<Rightarrow> bool) \<Rightarrow> nat list \<Rightarrow> nat \<Rightarrow> pyval list \<Rightarrow> pyval list \<Rightarrow> error + bool"
  where
  "py_eq same p v w =
     (if same p then Inr True
      else
        (case (v, w) of
           (PInt a, PInt b) \<Rightarrow> Inr (a = b)
         | (PStr a, PStr b) \<Rightarrow> Inr (a = b)
         | (PTuple xs, PTuple ys) \<Rightarrow> py_eq_items same p 0 xs ys
         | (PKey a, PKey b) \<Rightarrow> Inl AttributeError
         | _ \<Rightarrow> Inr False))"
| "py_eq_items same p i (x # xs) (y # ys) =
     (case py_eq same (p @ [i]) x y of
        Inl e \<Rightarrow> Inl e
      | Inr b \<Rightarrow> if b then py_eq_items same p (Suc i) xs ys else Inr False)"
| "py_eq_items same p i xs ys = Inr (length xs = length ys)"

text \<open>
  \<open>stored != new_keys\<close> for stored keys that are a tuple or a list, and new keys that are
  \<open>None\<close>, a tuple or a list. A tuple or list differs from \<open>None\<close>, and a tuple from a
  list (neither side compares itself with the other kind, and the two are not one
  object). Two lists of different lengths differ before any item is looked at; two
  tuples are compared item by item first.
\<close>

definition keys_ne :: "key_objects \<Rightarrow> pyval list \<Rightarrow> pyval list option \<Rightarrow> error + bool" where
  "keys_ne h stored new_keys =
     (case new_keys of
        None \<Rightarrow> Inr True
      | Some ks \<Rightarrow>
          if stored_list h \<noteq> new_list h then Inr True
          else if stored_list h \<and> length stored \<noteq> length ks then Inr True
          else
            (case py_eq_items (same_object h) [] 0 stored ks of
               Inl e \<Rightarrow> Inl e
             | Inr b \<Rightarrow> Inr (\<not> b)))"

text \<open>
  \<^verbatim>\<open>
  cdef _set_row_keys(self, row_keys):
      if self._row_keys is not None and self._row_keys != row_keys:
          raise ValueError(f"inconsistent row keys: should be {self._row_keys} ...")
      if row_keys is not None and self.nrows() != len(row_keys):
          raise ValueError(f"inconsistent row keys: should be of cardinality ...")
      self._row_keys = row_keys
  \<close>
  and the same for the columns. The new keys are \<open>None\<close>, a tuple or a list.
\<close>

definition set_row_keys ::
  "key_objects \<Rightarrow> DecompositionNode \<Rightarrow> pyval list option \<Rightarrow> error + DecompositionNode" where
  "set_row_keys h self new_keys =
     (case (case self_row_keys self of
              None \<Rightarrow> Inr False
            | Some stored \<Rightarrow> keys_ne h stored new_keys) of
        Inl e \<Rightarrow> Inl e
      | Inr differ \<Rightarrow>
          if differ then Inl (ValueError ''inconsistent row keys'')
          else
            (case new_keys of
               None \<Rightarrow> Inr (self\<lparr>self_row_keys := None\<rparr>)
             | Some ks \<Rightarrow>
                 if nrows self \<noteq> length ks
                 then Inl (ValueError ''inconsistent row keys: cardinality'')
                 else Inr (self\<lparr>self_row_keys := Some ks\<rparr>)))"

definition set_column_keys ::
  "key_objects \<Rightarrow> DecompositionNode \<Rightarrow> pyval list option \<Rightarrow> error + DecompositionNode" where
  "set_column_keys h self new_keys =
     (case (case self_column_keys self of
              None \<Rightarrow> Inr False
            | Some stored \<Rightarrow> keys_ne h stored new_keys) of
        Inl e \<Rightarrow> Inl e
      | Inr differ \<Rightarrow>
          if differ then Inl (ValueError ''inconsistent column keys'')
          else
            (case new_keys of
               None \<Rightarrow> Inr (self\<lparr>self_column_keys := None\<rparr>)
             | Some ks \<Rightarrow>
                 if ncols self \<noteq> length ks
                 then Inl (ValueError ''inconsistent column keys: cardinality'')
                 else Inr (self\<lparr>self_column_keys := Some ks\<rparr>)))"

text \<open>
  Keys given as a new tuple, none of whose items is an object that the node holds: the
  keys that \<open>tuple(...)\<close> builds for a child.
\<close>

definition new_tuple :: key_objects where
  "new_tuple = \<lparr>stored_list = False, new_list = False, same_object = (\<lambda>p. False)\<rparr>"



text \<open>
  \<^verbatim>\<open>
  def matrix(self):
      cdef CMR_CHRMAT *mat = CMRmatroiddecGetMatrix(self._dec)
      if mat == NULL:
          return None
      ms = MatrixSpace(ZZ, mat.numRows, mat.numColumns, sparse=True)
      result = Matrix_cmr_chr_sparse.__new__(Matrix_cmr_chr_sparse, ms)
      result._mat = mat
      result._root = self._root or self
      return result
  \<close>
\<close>

record Matrix_cmr_chr_sparse =
  parent_nrows :: nat
  parent_ncols :: nat
  matrix_mat :: CMR_CHRMAT
  matrix_root :: "CMR_MATROID_DEC option"

definition matrix :: "DecompositionNode \<Rightarrow> Matrix_cmr_chr_sparse option" where
  "matrix self =
     (case CMRmatroiddecGetMatrix (self_dec self) of
        None \<Rightarrow> None
      | Some mat \<Rightarrow>
          Some \<lparr>parent_nrows = numRows mat, parent_ncols = numColumns mat,
                matrix_mat = mat, matrix_root = Some (root_or_self self)\<rparr>)"


section \<open>Classification of handles (later revision)\<close>

text \<open>
  The values of the enumeration \<open>CMR_MATROID_DEC_TYPE\<close> are declared by the external
  library; the classifier takes them as a parameter.
\<close>

record dec_types =
  TYPE_ONE_SUM :: int
  TYPE_TWO_SUM :: int
  TYPE_THREE_SUM :: int
  TYPE_GRAPH :: int
  TYPE_COGRAPH :: int
  TYPE_SERIES_PARALLEL :: int
  TYPE_PIVOTS :: int
  TYPE_SUBMATRIX :: int
  TYPE_IRREGULAR :: int
  TYPE_UNKNOWN :: int

text \<open>
  \<^verbatim>\<open>
  cdef _class(CMR_MATROID_DEC *dec):
      cdef CMR_MATROID_DEC_TYPE typ = CMRmatroiddecType(dec)
      if typ == CMR_MATROID_DEC_TYPE_ONE_SUM:
          return OneSumNode
      if typ == CMR_MATROID_DEC_TYPE_TWO_SUM:
          return TwoSumNode
      if typ == CMR_MATROID_DEC_TYPE_THREE_SUM:
          return ThreeSumNode
      if typ == CMR_MATROID_DEC_TYPE_GRAPH:
          if typ == CMR_MATROID_DEC_TYPE_COGRAPH:
              return PlanarNode
          return GraphicNode
      if typ == CMR_MATROID_DEC_TYPE_COGRAPH:
          return CographicNode
      if typ < -1:
          return SpecialLeafNode
      if typ == CMR_MATROID_DEC_TYPE_SERIES_PARALLEL:
          return SeriesParallelReductionNode
      if typ == CMR_MATROID_DEC_TYPE_PIVOTS:
          return PivotsNode
      if typ == CMR_MATROID_DEC_TYPE_SUBMATRIX:
          return SubmatrixNode
      if typ == CMR_MATROID_DEC_TYPE_IRREGULAR:
          return ThreeConnectedIrregularNode
      if typ == CMR_MATROID_DEC_TYPE_UNKNOWN:
          return UnknownNode
      assert NotImplementedError
  \<close>
  The last statement asserts a class object, which is true: it never fails, and the
  function returns Python's \<open>None\<close>.
\<close>

definition dec_class :: "dec_types \<Rightarrow> CMR_MATROID_DEC \<Rightarrow> node_class option" where
  "dec_class T d =
     (let typ = CMRmatroiddecType d in
      if typ = TYPE_ONE_SUM T then Some OneSumNode
      else if typ = TYPE_TWO_SUM T then Some TwoSumNode
      else if typ = TYPE_THREE_SUM T then Some ThreeSumNode
      else if typ = TYPE_GRAPH T then
        (if typ = TYPE_COGRAPH T then Some PlanarNode else Some GraphicNode)
      else if typ = TYPE_COGRAPH T then Some CographicNode
      else if typ < - 1 then Some SpecialLeafNode
      else if typ = TYPE_SERIES_PARALLEL T then Some SeriesParallelReductionNode
      else if typ = TYPE_PIVOTS T then Some PivotsNode
      else if typ = TYPE_SUBMATRIX T then Some SubmatrixNode
      else if typ = TYPE_IRREGULAR T then Some ThreeConnectedIrregularNode
      else if typ = TYPE_UNKNOWN T then Some UnknownNode
      else None)"

text \<open>
  \<^verbatim>\<open>
  cdef create_DecompositionNode(CMR_MATROID_DEC *dec, root=None, row_keys=None, column_keys=None):
      if dec == NULL:
          return None
      cdef DecompositionNode result = <DecompositionNode> _class(dec)()
      result._set_dec(dec, root)
      if row_keys is not None:
          result._set_row_keys(row_keys)
      if column_keys is not None:
          result._set_column_keys(column_keys)
      return result
  \<close>
  Calling the \<open>None\<close> that \<open>_class\<close> returns for an unmatched type raises TypeError.
  The node is new and holds no keys, so the keys given are compared with nothing.
\<close>

definition create_DecompositionNode ::
  "dec_types \<Rightarrow> CMR_MATROID_DEC option \<Rightarrow> CMR_MATROID_DEC option \<Rightarrow>
   pyval list option \<Rightarrow> pyval list option \<Rightarrow> error + DecompositionNode option" where
  "create_DecompositionNode T dec_ptr root_arg rkeys ckeys =
     (case dec_ptr of
        None \<Rightarrow> Inr None
      | Some d \<Rightarrow>
          (case dec_class T d of
             None \<Rightarrow> Inl (TypeError ''NoneType object is not callable'')
           | Some c \<Rightarrow>
               (let result = \<lparr>self_class = c, self_dec = d, self_root = root_arg,
                               self_row_keys = None, self_column_keys = None\<rparr> in
                case (if rkeys \<noteq> None then set_row_keys new_tuple result rkeys
                      else Inr result) of
                  Inl e \<Rightarrow> Inl e
                | Inr result1 \<Rightarrow>
                    (case (if ckeys \<noteq> None then set_column_keys new_tuple result1 ckeys
                           else Inr result1) of
                       Inl e \<Rightarrow> Inl e
                     | Inr result2 \<Rightarrow> Inr (Some result2)))))"

section \<open>Children of a node (later revision)\<close>

text \<open>
  The element encoding of the external library (\<open>CMR_ELEMENT\<close>, a C int): 0 is no
  element, a negative element \<open>-1 - r\<close> is row \<open>r\<close>, a positive element \<open>1 + c\<close>
  is column \<open>c\<close>. The two index functions return \<open>size_t\<close>: on an element of the
  other kind the difference is negative and converts modulo \<open>2 ^ 64\<close>.
\<close>

definition CMRelementIsValid :: "int \<Rightarrow> bool" where
  "CMRelementIsValid element = (element \<noteq> 0)"

definition CMRelementIsRow :: "int \<Rightarrow> bool" where
  "CMRelementIsRow element = (element < 0)"

definition CMRelementToRowIndex :: "int \<Rightarrow> nat" where
  "CMRelementToRowIndex element = nat ((- 1 - element) mod 2 ^ 64)"

definition CMRelementToColumnIndex :: "int \<Rightarrow> nat" where
  "CMRelementToColumnIndex element = nat ((element - 1) mod 2 ^ 64)"

text \<open>
  \<^verbatim>\<open>
  cdef _CMRelement_to_key(self, CMR_ELEMENT element):
      if not CMRelementIsValid(element):
          raise ValueError('CMRelement index not valid. Extra row or column is detected.')
      if self.row_keys() is None or self.column_keys() is None:
          raise ValueError('row_keys and column_keys are required')
      if CMRelementIsRow(element):
          return ElementKey(self.row_keys()[CMRelementToRowIndex(element)])
      else:
          return ElementKey(self.column_keys()[CMRelementToColumnIndex(element)])
  \<close>
\<close>

definition CMRelement_to_key :: "DecompositionNode \<Rightarrow> int \<Rightarrow> error + ElementKey" where
  "CMRelement_to_key self element =
     (if \<not> CMRelementIsValid element then Inl (ValueError ''CMRelement index not valid'')
      else
        (case (row_keys self, column_keys self) of
           (Some rk, Some ck) \<Rightarrow>
             (if CMRelementIsRow element then
                (case py_getitem rk (int (CMRelementToRowIndex element)) of
                   Inl e \<Rightarrow> Inl e
                 | Inr label \<Rightarrow> ElementKey_init label False)
              else
                (case py_getitem ck (int (CMRelementToColumnIndex element)) of
                   Inl e \<Rightarrow> Inl e
                 | Inr label \<Rightarrow> ElementKey_init label False))
         | _ \<Rightarrow> Inl (ValueError ''row_keys and column_keys are required'')))"

text \<open>
  \<open>tuple(self._CMRelement_to_key(parent[i]) for i in range(lo, hi))\<close>, the keys as
  Python values.
\<close>

definition keys_of_elements ::
  "DecompositionNode \<Rightarrow> int list option \<Rightarrow> nat \<Rightarrow> nat \<Rightarrow> error + pyval list" where
  "keys_of_elements self parent lo hi =
     mapM (\<lambda>i. case c_read parent i of
                  Inl e \<Rightarrow> Inl e
                | Inr element \<Rightarrow>
                    (case CMRelement_to_key self element of
                       Inl e \<Rightarrow> Inl e
                     | Inr k \<Rightarrow> Inr (as_pyval k)))
          [lo..<hi]"

text \<open>
  \<^verbatim>\<open>
  def _create_child_node(self, index):
      row_keys = self.row_keys()
      column_keys = self.column_keys()
      cdef CMR_MATROID_DEC *child_dec = CMRmatroiddecChild(self._dec, index)
      cdef CMR_ELEMENT *parent_rows = CMRmatroiddecRowsParent(child_dec)
      cdef CMR_ELEMENT *parent_columns = CMRmatroiddecColumnsParent(child_dec)
      if row_keys is not None and column_keys is not None:
          child_row_keys = tuple(self._CMRelement_to_key(parent_rows[i])
                                 for i in range(CMRmatroiddecNumRows(child_dec)))
          child_column_keys = tuple(self._CMRelement_to_key(parent_columns[i])
                                    for i in range(CMRmatroiddecNumColumns(child_dec)))
          child = create_DecompositionNode(child_dec, root=self._root or self,
                                           row_keys=child_row_keys,
                                           column_keys=child_column_keys)
      else:
          child = create_DecompositionNode(child_dec, root=self._root or self)
      return child
  \<close>
  The accessors dereference \<open>child_dec\<close>: a NULL child is a fault.
\<close>

definition create_child_node ::
  "dec_types \<Rightarrow> DecompositionNode \<Rightarrow> nat \<Rightarrow> error + DecompositionNode option" where
  "create_child_node T self index =
     (case CMRmatroiddecChild (self_dec self) index of
        None \<Rightarrow> Inl MemoryFault
      | Some child_dec \<Rightarrow>
          (if row_keys self \<noteq> None \<and> column_keys self \<noteq> None then
             (case keys_of_elements self (CMRmatroiddecRowsParent child_dec) 0
                     (CMRmatroiddecNumRows child_dec) of
                Inl e \<Rightarrow> Inl e
              | Inr child_row_keys \<Rightarrow>
                  (case keys_of_elements self (CMRmatroiddecColumnsParent child_dec) 0
                          (CMRmatroiddecNumColumns child_dec) of
                     Inl e \<Rightarrow> Inl e
                   | Inr child_column_keys \<Rightarrow>
                       create_DecompositionNode T (Some child_dec) (Some (root_or_self self))
                         (Some child_row_keys) (Some child_column_keys)))
           else create_DecompositionNode T (Some child_dec) (Some (root_or_self self))
                  None None))"

text \<open>
  \<^verbatim>\<open>
  def _children(self):
      return tuple(self._create_child_node(index)
                   for index in range(self.nchildren()))
  \<close>
\<close>

definition DecompositionNode_children ::
  "dec_types \<Rightarrow> DecompositionNode \<Rightarrow> error + DecompositionNode option list" where
  "DecompositionNode_children T self =
     mapM (create_child_node T self) [0..<nchildren self]"

section \<open>Entries of a sparse matrix\<close>

text \<open>
  \<open>CMRchrmatFindEntry(matrix, row, column, &index)\<close> of the external library, by its
  contract: the index of the entry of that row in that column, \<open>SIZE_MAX\<close> (here
  \<open>None\<close>) when the row has no entry there. A NULL matrix and a row outside the
  matrix are faults.
\<close>

definition CMRchrmatFindEntry :: "CMR_CHRMAT option \<Rightarrow> nat \<Rightarrow> nat \<Rightarrow> error + nat option" where
  "CMRchrmatFindEntry m row column =
     (case m of
        None \<Rightarrow> Inl MemoryFault
      | Some mat \<Rightarrow>
          (if row + 1 < length (rowSlice mat) then
             (let lower = rowSlice mat ! row; upper = rowSlice mat ! (row + 1) in
              if upper \<le> length (entryColumns mat)
              then Inr (find (\<lambda>i. entryColumns mat ! i = column) [lower..<upper])
              else Inl MemoryFault)
           else Inl MemoryFault))"

text \<open>The conversion of a Python integer to a C \<open>size_t\<close> argument.\<close>

definition to_size_t :: "int \<Rightarrow> error + nat" where
  "to_size_t i =
     (if i < 0 then Inl (OverflowError ''can't convert negative value to size_t'')
      else if i \<ge> 2 ^ 64 then Inl (OverflowError ''Python int too large to convert to C size_t'')
      else Inr (nat i))"

text \<open>
  \<^verbatim>\<open>
  cdef get_unsafe(self, Py_ssize_t i, Py_ssize_t j):
      cdef size_t index
      CMR_CALL(CMRchrmatFindEntry(self._mat, i, j, &index))
      if index == SIZE_MAX:
          return Integer(0)
      return Integer(self._mat.entryValues[index])
  \<close>
\<close>

definition get_unsafe :: "CMR_CHRMAT \<Rightarrow> nat \<Rightarrow> nat \<Rightarrow> error + int" where
  "get_unsafe mat i j =
     (case CMRchrmatFindEntry (Some mat) i j of
        Inl e \<Rightarrow> Inl e
      | Inr None \<Rightarrow> Inr 0
      | Inr (Some index) \<Rightarrow>
          (case c_read (Some (entryValues mat)) index of
             Inl e \<Rightarrow> Inl e
           | Inr v \<Rightarrow> Inr (sint v)))"

section \<open>Children of a 3-sum node\<close>

text \<open>
  The pattern that occurs five times in \<open>ThreeSumNode._children\<close>:
  \<^verbatim>\<open>
  CMR_CALL(CMRchrmatFindEntry(matF, r, c, &index))
  if index == SIZE_MAX:
      epsilon = Integer(0)
  else:
      epsilon = Integer(matV.entryValues[index])
  \<close>
  with the matrix \<open>matF\<close> that is searched and the matrix \<open>matV\<close> whose values are read.
  \<open>r\<close> and \<open>c\<close> are Python integers, converted to \<open>size_t\<close> for the call.
\<close>

definition find_epsilon ::
  "CMR_CHRMAT option \<Rightarrow> CMR_CHRMAT option \<Rightarrow> int \<Rightarrow> int \<Rightarrow> error + int" where
  "find_epsilon matF matV r c =
     (case to_size_t r of
        Inl e \<Rightarrow> Inl e
      | Inr r' \<Rightarrow>
          (case to_size_t c of
             Inl e \<Rightarrow> Inl e
           | Inr c' \<Rightarrow>
               (case CMRchrmatFindEntry matF r' c' of
                  Inl e \<Rightarrow> Inl e
                | Inr None \<Rightarrow> Inr 0
                | Inr (Some index) \<Rightarrow>
                    (case c_read (map_option entryValues matV) index of
                       Inl e \<Rightarrow> Inl e
                     | Inr v \<Rightarrow> Inr (sint v)))))"

text \<open>
  \<open>ElementKey((s1, seq1[i1], s2, seq2[i2]), composition=True)\<close> as a Python value;
  the two subscripts are Python subscripts and can raise IndexError.
\<close>

definition composed_key ::
  "int \<Rightarrow> pyval list \<Rightarrow> int \<Rightarrow> int \<Rightarrow> pyval list \<Rightarrow> int \<Rightarrow> error + pyval" where
  "composed_key s1 seq1 i1 s2 seq2 i2 =
     (case py_getitem seq1 i1 of
        Inl e \<Rightarrow> Inl e
      | Inr label1 \<Rightarrow>
          (case py_getitem seq2 i2 of
             Inl e \<Rightarrow> Inl e
           | Inr label2 \<Rightarrow>
               (case ElementKey_init (PTuple [PInt s1, label1, PInt s2, label2]) True of
                  Inl e \<Rightarrow> Inl e
                | Inr k \<Rightarrow> Inr (as_pyval k))))"

text \<open>
  The keys of the first child, lines 673 to 708 of the later revision. Both branches
  take all row keys and all but the last column key from the child's parent elements.
\<close>

definition child1_keys ::
  "DecompositionNode \<Rightarrow> CMR_MATROID_DEC \<Rightarrow> pyval list \<Rightarrow> pyval list \<Rightarrow>
   error + (pyval list \<times> pyval list)" where
  "child1_keys self child1_dec rk ck =
     (let child1_nrows = int (CMRmatroiddecNumRows child1_dec);
          child1_ncols = int (CMRmatroiddecNumColumns child1_dec);
          mat1 = CMRmatroiddecGetMatrix child1_dec in
      case keys_of_elements self (CMRmatroiddecRowsParent child1_dec) 0 (nat child1_nrows) of
        Inl e \<Rightarrow> Inl e
      | Inr child1_row_keys \<Rightarrow>
          (case keys_of_elements self (CMRmatroiddecColumnsParent child1_dec) 0
                  (nat (child1_ncols - 1)) of
             Inl e \<Rightarrow> Inl e
           | Inr child1_column_keys \<Rightarrow>
               (if CMRmatroiddecThreeSumConcentratedRank (self_dec self) then
                  (case find_epsilon mat1 mat1 (child1_nrows - 2) (child1_ncols - 1) of
                     Inl e \<Rightarrow> Inl e
                   | Inr epsilon1 \<Rightarrow>
                       (case find_epsilon mat1 mat1 (child1_nrows - 1) (child1_ncols - 1) of
                          Inl e \<Rightarrow> Inl e
                        | Inr epsilon2 \<Rightarrow>
                            (case composed_key epsilon1 rk (child1_nrows - 2)
                                    epsilon2 rk (child1_nrows - 1) of
                               Inl e \<Rightarrow> Inl e
                             | Inr k \<Rightarrow> Inr (child1_row_keys, child1_column_keys @ [k]))))
                else
                  (case find_epsilon mat1 mat1 (child1_nrows - 1) (child1_ncols - 1) of
                     Inl e \<Rightarrow> Inl e
                   | Inr epsilon1 \<Rightarrow>
                       (case composed_key 1 ck (child1_ncols - 1)
                               epsilon1 rk (child1_nrows - 1) of
                          Inl e \<Rightarrow> Inl e
                        | Inr k \<Rightarrow> Inr (child1_row_keys, child1_column_keys @ [k]))))))"

text \<open>
  The keys of the second child, lines 714 to 748. The entries are searched in the second
  child's matrix \<open>mat2\<close>; the values are read from \<open>mat1.entryValues\<close>, as the source
  has it.
\<close>

definition child2_keys ::
  "DecompositionNode \<Rightarrow> CMR_MATROID_DEC \<Rightarrow> CMR_MATROID_DEC \<Rightarrow> pyval list \<Rightarrow> pyval list \<Rightarrow>
   error + (pyval list \<times> pyval list)" where
  "child2_keys self child1_dec child2_dec rk ck =
     (let child2_nrows = CMRmatroiddecNumRows child2_dec;
          child2_ncols = CMRmatroiddecNumColumns child2_dec;
          mat1 = CMRmatroiddecGetMatrix child1_dec;
          mat2 = CMRmatroiddecGetMatrix child2_dec in
      if CMRmatroiddecThreeSumConcentratedRank (self_dec self) then
        (case keys_of_elements self (CMRmatroiddecRowsParent child2_dec) 1 child2_nrows of
           Inl e \<Rightarrow> Inl e
         | Inr child2_row_keys \<Rightarrow>
             (case find_epsilon mat2 mat1 0 0 of
                Inl e \<Rightarrow> Inl e
              | Inr epsilon1 \<Rightarrow>
                  (case find_epsilon mat2 mat1 0 1 of
                     Inl e \<Rightarrow> Inl e
                   | Inr epsilon2 \<Rightarrow>
                       (case composed_key epsilon1 ck 0 epsilon2 ck 1 of
                          Inl e \<Rightarrow> Inl e
                        | Inr k \<Rightarrow>
                            (case keys_of_elements self (CMRmatroiddecColumnsParent child2_dec)
                                    0 child2_ncols of
                               Inl e \<Rightarrow> Inl e
                             | Inr child2_column_keys \<Rightarrow>
                                 Inr (k # child2_row_keys, child2_column_keys))))))
      else
        (case keys_of_elements self (CMRmatroiddecRowsParent child2_dec) 0 child2_nrows of
           Inl e \<Rightarrow> Inl e
         | Inr child2_row_keys \<Rightarrow>
             (case find_epsilon mat2 mat1 0 0 of
                Inl e \<Rightarrow> Inl e
              | Inr epsilon1 \<Rightarrow>
                  (case keys_of_elements self (CMRmatroiddecColumnsParent child2_dec)
                          1 child2_ncols of
                     Inl e \<Rightarrow> Inl e
                   | Inr child2_column_keys \<Rightarrow>
                       (case composed_key 1 ck 1 epsilon1 rk 0 of
                          Inl e \<Rightarrow> Inl e
                        | Inr k \<Rightarrow> Inr (child2_row_keys, k # child2_column_keys))))))"

text \<open>
  \<^verbatim>\<open>
  def _children(self):
      if self.nchildren() != 2:
          raise ValueError("ThreeSumNode has exactly two children")
      cdef CMR_MATROID_DEC *child1_dec = CMRmatroiddecChild(self._dec, 0)
      ... (parent rows, parent columns and matrix of child1_dec) ...
      cdef CMR_MATROID_DEC *child2_dec = CMRmatroiddecChild(self._dec, 1)
      ... (parent rows, parent columns and matrix of child2_dec) ...
      row_keys = self.row_keys()
      column_keys = self.column_keys()
      if row_keys is not None and column_keys is not None:
          ... child1_row_keys, child1_column_keys ...
          child1 = create_DecompositionNode(child1_dec, root=self._root or self,
                                            row_keys=child1_row_keys,
                                            column_keys=child1_column_keys)
          ... child2_row_keys, child2_column_keys ...
          child2 = create_DecompositionNode(child2_dec, root=self._root or self,
                                            row_keys=child2_row_keys,
                                            column_keys=child2_column_keys)
      else:
          child1 = create_DecompositionNode(child1_dec, root=self._root or self)
          child2 = create_DecompositionNode(child2_dec, root=self._root or self)
      return (child1, child2)
  \<close>
  The accessors at the top dereference both child handles before anything else.
\<close>

definition ThreeSumNode_children ::
  "dec_types \<Rightarrow> DecompositionNode \<Rightarrow>
   error + (DecompositionNode option \<times> DecompositionNode option)" where
  "ThreeSumNode_children T self =
     (if nchildren self \<noteq> 2 then Inl (ValueError ''ThreeSumNode has exactly two children'')
      else
        (case (CMRmatroiddecChild (self_dec self) 0, CMRmatroiddecChild (self_dec self) 1) of
           (Some child1_dec, Some child2_dec) \<Rightarrow>
             (case (row_keys self, column_keys self) of
                (Some rk, Some ck) \<Rightarrow>
                  (case child1_keys self child1_dec rk ck of
                     Inl e \<Rightarrow> Inl e
                   | Inr (child1_row_keys, child1_column_keys) \<Rightarrow>
                       (case create_DecompositionNode T (Some child1_dec)
                               (Some (root_or_self self))
                               (Some child1_row_keys) (Some child1_column_keys) of
                          Inl e \<Rightarrow> Inl e
                        | Inr child1 \<Rightarrow>
                            (case child2_keys self child1_dec child2_dec rk ck of
                               Inl e \<Rightarrow> Inl e
                             | Inr (child2_row_keys, child2_column_keys) \<Rightarrow>
                                 (case create_DecompositionNode T (Some child2_dec)
                                         (Some (root_or_self self))
                                         (Some child2_row_keys) (Some child2_column_keys) of
                                    Inl e \<Rightarrow> Inl e
                                  | Inr child2 \<Rightarrow> Inr (child1, child2)))))
              | _ \<Rightarrow>
                  (case create_DecompositionNode T (Some child1_dec)
                          (Some (root_or_self self)) None None of
                     Inl e \<Rightarrow> Inl e
                   | Inr child1 \<Rightarrow>
                       (case create_DecompositionNode T (Some child2_dec)
                               (Some (root_or_self self)) None None of
                          Inl e \<Rightarrow> Inl e
                        | Inr child2 \<Rightarrow> Inr (child1, child2))))
         | _ \<Rightarrow> Inl MemoryFault))"

text \<open>The method \<open>_children\<close> as dispatched on the class of the node.\<close>

definition children ::
  "dec_types \<Rightarrow> DecompositionNode \<Rightarrow> error + DecompositionNode option list" where
  "children T self =
     (if self_class self = ThreeSumNode then
        (case ThreeSumNode_children T self of
           Inl e \<Rightarrow> Inl e
         | Inr (child1, child2) \<Rightarrow> Inr [child1, child2])
      else DecompositionNode_children T self)"

section \<open>The earlier revision: seymour_decomposition.pyx\<close>

text \<open>
  The handle of the earlier revision (\<open>CMR_DEC\<close>), by what its accessors return.
  \<open>CMRdecIsSum\<close> gives the \<open>k\<close> of a \<open>k\<close>-sum (0 otherwise) and \<open>CMRdecIsSpecialLeaf\<close>
  the special type (0 for none); parent rows and columns are arrays of \<open>size_t\<close>.
\<close>

datatype CMR_DEC = CMR_DEC
  (CMRdecIsSum: int)
  (CMRdecIsGraphicLeaf: bool)
  (CMRdecIsCographicLeaf: bool)
  (CMRdecIsSpecialLeaf: int)
  (CMRdecIsSeriesParallelReduction: bool)
  (CMRdecIsUnknown: bool)
  (CMRdecNumRows: nat)
  (CMRdecNumColumns: nat)
  (CMRdecGetMatrix: "CMR_CHRMAT option")
  (CMRdecRowsParent: "nat list option")
  (CMRdecColumnsParent: "nat list option")
  (CMRdecChildren: "CMR_DEC option list")

definition CMRdecNumChildren :: "CMR_DEC \<Rightarrow> nat" where
  "CMRdecNumChildren d = length (CMRdecChildren d)"

definition CMRdecChild :: "CMR_DEC \<Rightarrow> nat \<Rightarrow> CMR_DEC option" where
  "CMRdecChild d i = (if i < length (CMRdecChildren d) then CMRdecChildren d ! i else None)"

record DecompositionNode_pyx =
  pyx_class :: node_class
  pyx_dec :: CMR_DEC
  pyx_root :: "CMR_DEC option"

text \<open>
  \<^verbatim>\<open>
  cdef _class(CMR_DEC *dec):
      k = CMRdecIsSum(dec, NULL, NULL)
      if k == 1:
          return OneSumNode
      if k == 2:
          return TwoSumNode
      if k == 3:
          return ThreeSumNode
      if CMRdecIsGraphicLeaf(dec):
          if CMRdecIsCographicLeaf(dec):
              return PlanarNode
          return GraphicNode
      if CMRdecIsCographicLeaf(dec):
          return CographicNode
      if CMRdecIsSpecialLeaf(dec, NULL):
          return SpecialLeafNode
      if CMRdecIsSeriesParallelReduction(dec):
          return SeriesParallelReductionNode
      if CMRdecIsUnknown(dec):
          return UnknownNode
      return ThreeConnectedIrregularNode
  \<close>
\<close>

definition dec_class_pyx :: "CMR_DEC \<Rightarrow> node_class" where
  "dec_class_pyx d =
     (let k = CMRdecIsSum d in
      if k = 1 then OneSumNode
      else if k = 2 then TwoSumNode
      else if k = 3 then ThreeSumNode
      else if CMRdecIsGraphicLeaf d then
        (if CMRdecIsCographicLeaf d then PlanarNode else GraphicNode)
      else if CMRdecIsCographicLeaf d then CographicNode
      else if CMRdecIsSpecialLeaf d \<noteq> 0 then SpecialLeafNode
      else if CMRdecIsSeriesParallelReduction d then SeriesParallelReductionNode
      else if CMRdecIsUnknown d then UnknownNode
      else ThreeConnectedIrregularNode)"

text \<open>
  \<^verbatim>\<open>
  cdef create_DecompositionNode(CMR_DEC *dec, root=None):
      if dec == NULL:
          return None
      cdef DecompositionNode result = <DecompositionNode> _class(dec)()
      result._set_dec(dec, root)
      return result
  \<close>
\<close>

definition create_DecompositionNode_pyx ::
  "CMR_DEC option \<Rightarrow> CMR_DEC option \<Rightarrow> DecompositionNode_pyx option" where
  "create_DecompositionNode_pyx dec_ptr root_arg =
     (case dec_ptr of
        None \<Rightarrow> None
      | Some d \<Rightarrow> Some \<lparr>pyx_class = dec_class_pyx d, pyx_dec = d, pyx_root = root_arg\<rparr>)"

text \<open>
  \<^verbatim>\<open>
  def parent_rows_and_columns(self):
      cdef size_t *parent_rows = CMRdecRowsParent(self._dec)
      cdef size_t *parent_columns = CMRdecColumnsParent(self._dec)
      if parent_rows == NULL:
          parent_rows_tuple = None
      else:
          parent_rows_tuple = tuple(parent_rows[i] for i in range(CMRdecNumRows(self._dec)))
      if parent_columns == NULL:
          parent_columns_tuple = None
      else:
          parent_columns_tuple = tuple(parent_columns[i] for i in range(CMRdecNumColumns(self._dec)))
      return parent_rows_tuple, parent_columns_tuple
  \<close>
\<close>

type_synonym parent_key = "nat list option \<times> nat list option"

definition read_array :: "nat list option \<Rightarrow> nat \<Rightarrow> error + nat list option" where
  "read_array p n =
     (case p of
        None \<Rightarrow> Inr None
      | Some xs \<Rightarrow>
          (case mapM (c_read (Some xs)) [0..<n] of
             Inl e \<Rightarrow> Inl e
           | Inr ys \<Rightarrow> Inr (Some ys)))"

definition parent_rows_and_columns_pyx :: "DecompositionNode_pyx \<Rightarrow> error + parent_key" where
  "parent_rows_and_columns_pyx self =
     (case read_array (CMRdecRowsParent (pyx_dec self)) (CMRdecNumRows (pyx_dec self)) of
        Inl e \<Rightarrow> Inl e
      | Inr parent_rows_tuple \<Rightarrow>
          (case read_array (CMRdecColumnsParent (pyx_dec self))
                  (CMRdecNumColumns (pyx_dec self)) of
             Inl e \<Rightarrow> Inl e
           | Inr parent_columns_tuple \<Rightarrow> Inr (parent_rows_tuple, parent_columns_tuple)))"

text \<open>
  Python's \<open><\<close> on two such keys. Tuples are compared at the first position where
  they differ; there, two tuples of integers are compared lexicographically, and
  \<open>None\<close> against a tuple raises TypeError.
\<close>

definition py_component_lt :: "nat list option \<Rightarrow> nat list option \<Rightarrow> error + bool" where
  "py_component_lt a b =
     (case (a, b) of
        (Some xs, Some ys) \<Rightarrow> Inr (xs < ys)
      | _ \<Rightarrow> Inl (TypeError ''not supported between instances''))"

definition py_key_lt :: "parent_key \<Rightarrow> parent_key \<Rightarrow> error + bool" where
  "py_key_lt k k' =
     (if fst k \<noteq> fst k' then py_component_lt (fst k) (fst k')
      else if snd k \<noteq> snd k' then py_component_lt (snd k) (snd k')
      else Inr False)"

text \<open>
  \<open>sorted(nodes, key=...)\<close> on nodes paired with their keys. The builtin sort is stable;
  on keys that can all be compared with each other it returns the stable sort by the
  key. The sequence of comparisons the builtin makes is not modelled: the model raises
  TypeError as soon as two of the keys cannot be compared.
\<close>

definition py_sorted :: "('a \<times> parent_key) list \<Rightarrow> error + 'a list" where
  "py_sorted xs =
     (if list_all (\<lambda>x. list_all (\<lambda>y. \<not> isl (py_key_lt (snd x) (snd y))) xs) xs
      then Inr (map fst (sort_key snd xs))
      else Inl (TypeError ''not supported between instances''))"

text \<open>
  \<^verbatim>\<open>
  def _children(self):
      return tuple(sorted((create_DecompositionNode(CMRdecChild(self._dec, index),
                                                    self._root or self)
                           for index in range(CMRdecNumChildren(self._dec))),
                          key=lambda node: node.parent_rows_and_columns()))
  \<close>
  A NULL child makes \<open>create_DecompositionNode\<close> return \<open>None\<close>, and the key function
  raises AttributeError on it. The earlier revision has no other \<open>_children\<close>: the class
  \<open>ThreeSumNode\<close> inherits this one.
\<close>

definition node_with_key ::
  "DecompositionNode_pyx option \<Rightarrow> error + (DecompositionNode_pyx \<times> parent_key)" where
  "node_with_key n =
     (case n of
        None \<Rightarrow> Inl AttributeError
      | Some node \<Rightarrow>
          (case parent_rows_and_columns_pyx node of
             Inl e \<Rightarrow> Inl e
           | Inr k \<Rightarrow> Inr (node, k)))"

definition children_pyx :: "DecompositionNode_pyx \<Rightarrow> error + DecompositionNode_pyx list" where
  "children_pyx self =
     (let owner = (case pyx_root self of None \<Rightarrow> pyx_dec self | Some r \<Rightarrow> r);
          nodes = map (\<lambda>index. create_DecompositionNode_pyx
                                 (CMRdecChild (pyx_dec self) index) (Some owner))
                      [0..<CMRdecNumChildren (pyx_dec self)]
      in case mapM node_with_key nodes of
           Inl e \<Rightarrow> Inl e
         | Inr keyed \<Rightarrow> py_sorted keyed)"

section \<open>Parent rows and columns of a node (later revision)\<close>

text \<open>
  \<^verbatim>\<open>
  def parent_rows_and_columns(self):
      cdef CMR_ELEMENT *parent_rows = CMRmatroiddecRowsParent(self._dec)
      cdef CMR_ELEMENT *parent_columns = CMRmatroiddecColumnsParent(self._dec)
      if parent_rows == NULL or all(parent_rows[i] == 0 for i in range(self.nrows())):
          parent_rows_tuple = None
      else:
          if self.row_keys() is not None:
              parent_rows_tuple = tuple(self.row_keys())
          else:
              parent_rows_tuple = tuple(CMRelementToRowIndex(parent_rows[i])
                                        for i in range(self.nrows()))
      (the same for the columns)
      return parent_rows_tuple, parent_columns_tuple
  \<close>
  \<open>all\<close> stops at the first element that is not 0.
\<close>

fun all_zero :: "int list option \<Rightarrow> nat list \<Rightarrow> error + bool" where
  "all_zero p [] = Inr True"
| "all_zero p (i # is) =
     (case c_read p i of
        Inl e \<Rightarrow> Inl e
      | Inr element \<Rightarrow> if element = 0 then all_zero p is else Inr False)"

definition parent_tuple ::
  "int list option \<Rightarrow> nat \<Rightarrow> pyval list option \<Rightarrow> (int \<Rightarrow> nat) \<Rightarrow> error + pyval list option" where
  "parent_tuple p n keys to_index =
     (if p = None then Inr None
      else
        (case all_zero p [0..<n] of
           Inl e \<Rightarrow> Inl e
         | Inr True \<Rightarrow> Inr None
         | Inr False \<Rightarrow>
             (case keys of
                Some ks \<Rightarrow> Inr (Some ks)
              | None \<Rightarrow>
                  (case mapM (c_read p) [0..<n] of
                     Inl e \<Rightarrow> Inl e
                   | Inr elements \<Rightarrow>
                       Inr (Some (map (\<lambda>element. PInt (int (to_index element))) elements))))))"

definition parent_rows_and_columns ::
  "DecompositionNode \<Rightarrow> error + (pyval list option \<times> pyval list option)" where
  "parent_rows_and_columns self =
     (case parent_tuple (CMRmatroiddecRowsParent (self_dec self)) (nrows self)
             (row_keys self) CMRelementToRowIndex of
        Inl e \<Rightarrow> Inl e
      | Inr parent_rows_tuple \<Rightarrow>
          (case parent_tuple (CMRmatroiddecColumnsParent (self_dec self)) (ncols self)
                  (column_keys self) CMRelementToColumnIndex of
             Inl e \<Rightarrow> Inl e
           | Inr parent_columns_tuple \<Rightarrow> Inr (parent_rows_tuple, parent_columns_tuple)))"

section \<open>Example data\<close>

text \<open>
  An assignment of pairwise distinct type tags for the examples: the sums are 1, 2, 3,
  an irregular node is \<open>-1\<close>, an unknown node is 0, the special leaves are below
  \<open>-1\<close>. The tag 6 is none of the ten tags that \<open>_class\<close> compares with; it stands
  for the library's tag of a node that is graphic and cographic.
\<close>

definition example_types :: dec_types where
  "example_types =
     \<lparr>TYPE_ONE_SUM = 1, TYPE_TWO_SUM = 2, TYPE_THREE_SUM = 3, TYPE_GRAPH = 4,
      TYPE_COGRAPH = 5, TYPE_SERIES_PARALLEL = 7, TYPE_PIVOTS = 8, TYPE_SUBMATRIX = 9,
      TYPE_IRREGULAR = - 1, TYPE_UNKNOWN = 0\<rparr>"

definition example_planar_tag :: int where
  "example_planar_tag = 6"

text \<open>
  The 2-sum of the doctest of \<open>TwoSumNode.block_matrix_form\<close> (\<open>certificate2\<close>): an
  8 by 8 node without keys whose children are, in the order of the external structure,
  a 5 by 4 node on the parent rows 4, 5, 6, 7, 0 and parent columns 0, 1, 2, 3 and a
  4 by 5 node on the parent rows 0, 1, 2, 3 and parent columns 0, 4, 5, 6, 7. The
  matrices play no part and are left out.
\<close>

definition two_sum_child0 :: CMR_MATROID_DEC where
  "two_sum_child0 =
     CMR_MATROID_DEC 4 5 4 None (Some [- 5, - 6, - 7, - 8, - 1]) (Some [1, 2, 3, 4]) []
       False False"

definition two_sum_child1 :: CMR_MATROID_DEC where
  "two_sum_child1 =
     CMR_MATROID_DEC 4 4 5 None (Some [- 1, - 2, - 3, - 4]) (Some [1, 5, 6, 7, 8]) []
       False False"

definition two_sum_dec :: CMR_MATROID_DEC where
  "two_sum_dec =
     CMR_MATROID_DEC 2 8 8 None None None [Some two_sum_child0, Some two_sum_child1]
       False False"

definition two_sum_example :: DecompositionNode where
  "two_sum_example =
     \<lparr>self_class = TwoSumNode, self_dec = two_sum_dec, self_root = None,
      self_row_keys = None, self_column_keys = None\<rparr>"

text \<open>The same decomposition as a 2-sum and as a 3-sum node of the earlier revision.\<close>

definition two_sum_child0_pyx :: CMR_DEC where
  "two_sum_child0_pyx =
     CMR_DEC 0 True False 0 False False 5 4 None (Some [4, 5, 6, 7, 0]) (Some [0, 1, 2, 3]) []"

definition two_sum_child1_pyx :: CMR_DEC where
  "two_sum_child1_pyx =
     CMR_DEC 0 True False 0 False False 4 5 None (Some [0, 1, 2, 3]) (Some [0, 4, 5, 6, 7]) []"

definition sum_example_pyx :: "int \<Rightarrow> DecompositionNode_pyx" where
  "sum_example_pyx k =
     (let d = CMR_DEC k False False 0 False False 8 8 None None None
                [Some two_sum_child0_pyx, Some two_sum_child1_pyx]
      in \<lparr>pyx_class = dec_class_pyx d, pyx_dec = d, pyx_root = None\<rparr>)"

section \<open>Sparse matrices: construction from a dictionary\<close>

text \<open>
  Assignments to C variables: a Python integer stored into a \<open>char\<close> or a \<open>size_t\<close>
  raises OverflowError when it does not fit; a store through a pointer with a Python
  integer as index is a fault outside the array.
\<close>

definition to_char :: "int \<Rightarrow> error + 8 word" where
  "to_char v =
     (if - 128 \<le> v \<and> v \<le> 127 then Inr (word_of_int v)
      else Inl (OverflowError ''value too large to convert to char''))"

definition c_index :: "'a list \<Rightarrow> int \<Rightarrow> error + 'a" where
  "c_index xs i = (if 0 \<le> i \<and> i < int (length xs) then Inr (xs ! nat i) else Inl MemoryFault)"

definition c_write :: "'a list \<Rightarrow> int \<Rightarrow> 'a \<Rightarrow> error + 'a list" where
  "c_write xs i v =
     (if 0 \<le> i \<and> i < int (length xs) then Inr (xs[nat i := v]) else Inl MemoryFault)"

text \<open>
  \<open>CMRchrmatCreate(cmr, &self._mat, nrows, ncols, len(d))\<close> of the external library
  allocates \<open>nrows + 1\<close> row slices and \<open>len(d)\<close> entries and initialises none of them:
  the contents after the call are the parameters \<open>g_slice\<close>, \<open>g_columns\<close>,
  \<open>g_values\<close>.
\<close>

definition CMRchrmatCreate ::
  "nat \<Rightarrow> nat \<Rightarrow> nat \<Rightarrow> (nat \<Rightarrow> nat) \<Rightarrow> (nat \<Rightarrow> nat) \<Rightarrow> (nat \<Rightarrow> 8 word) \<Rightarrow> CMR_CHRMAT" where
  "CMRchrmatCreate n_rows n_cols n_nonzeros g_slice g_columns g_values =
     \<lparr>numRows = n_rows, numColumns = n_cols, numNonzeros = n_nonzeros,
      rowSlice = map (\<lambda>i. g_slice i mod 2 ^ 64) [0..<n_rows + 1],
      entryColumns = map g_columns [0..<n_nonzeros],
      entryValues = map g_values [0..<n_nonzeros]\<rparr>"

text \<open>
  \<open>CMRchrmatSortNonzeros\<close> of the external library, by its contract: the entries of
  each row are put in the order of their columns; what lies behind the last row slice
  stays.
\<close>

definition CMRchrmatSortNonzeros :: "CMR_CHRMAT \<Rightarrow> CMR_CHRMAT" where
  "CMRchrmatSortNonzeros m =
     (let es = zip (entryColumns m) (entryValues m);
          sorted_es =
            concat (map (\<lambda>r. sort_key fst
                               (take (rowSlice m ! (r + 1) - rowSlice m ! r)
                                  (drop (rowSlice m ! r) es)))
                        [0..<numRows m]);
          all_es = sorted_es @ drop (length sorted_es) es
      in m\<lparr>entryColumns := map fst all_es, entryValues := map snd all_es\<rparr>)"

text \<open>
  The dictionary \<open>d\<close> maps \<open>(row, col)\<close> to the coefficient; \<open>d.items()\<close> is the list
  of its items in insertion order.
  \<^verbatim>\<open>
      for (row, col), coeff in d.items():
          if coeff:
              self._mat.rowSlice[row + 1] += 1
  \<close>
  The addition is C arithmetic on \<open>size_t\<close>.
\<close>

type_synonym py_dict = "((int \<times> int) \<times> int) list"

fun count_rows :: "py_dict \<Rightarrow> nat list \<Rightarrow> error + nat list" where
  "count_rows [] rs = Inr rs"
| "count_rows (((row, col), coeff) # d) rs =
     (if coeff \<noteq> 0 then
        (case c_index rs (row + 1) of
           Inl e \<Rightarrow> Inl e
         | Inr v \<Rightarrow>
             (case c_write rs (row + 1) ((v + 1) mod 2 ^ 64) of
                Inl e \<Rightarrow> Inl e
              | Inr rs' \<Rightarrow> count_rows d rs'))
      else count_rows d rs)"

text \<open>
  \<^verbatim>\<open>
      for (row, col), coeff in d.items():
          if coeff:
              index = self._mat.rowSlice[row]
              self._mat.entryColumns[index] = col
              self._mat.entryValues[index] = coeff
              self._mat.rowSlice[row] = index + 1
  \<close>
  \<open>index\<close> is a Python integer; each right-hand side is converted before the store.
\<close>

fun place_entries ::
  "py_dict \<Rightarrow> nat list \<times> nat list \<times> 8 word list \<Rightarrow>
   error + (nat list \<times> nat list \<times> 8 word list)" where
  "place_entries [] st = Inr st"
| "place_entries (((row, col), coeff) # d) (rs, cols, vals) =
     (if coeff \<noteq> 0 then
        (case c_index rs row of
           Inl e \<Rightarrow> Inl e
         | Inr index \<Rightarrow>
             (case to_size_t col of
                Inl e \<Rightarrow> Inl e
              | Inr col' \<Rightarrow>
                  (case c_write cols (int index) col' of
                     Inl e \<Rightarrow> Inl e
                   | Inr cols' \<Rightarrow>
                       (case to_char coeff of
                          Inl e \<Rightarrow> Inl e
                        | Inr v \<Rightarrow>
                            (case c_write vals (int index) v of
                               Inl e \<Rightarrow> Inl e
                             | Inr vals' \<Rightarrow>
                                 (case to_size_t (int index + 1) of
                                    Inl e \<Rightarrow> Inl e
                                  | Inr next_index \<Rightarrow>
                                      (case c_write rs row next_index of
                                         Inl e \<Rightarrow> Inl e
                                       | Inr rs' \<Rightarrow>
                                           place_entries d (rs', cols', vals'))))))))
      else place_entries d (rs, cols, vals))"

text \<open>
  \<^verbatim>\<open>
  cdef _init_from_dict(self, dict d, int nrows, int ncols):
      if cmr == NULL:
          CMRcreateEnvironment(&cmr)
      CMR_CALL(CMRchrmatCreate(cmr, &self._mat, nrows, ncols, len(d)))
      for row in range(nrows):
          self._mat.rowSlice[row] = 0
      for (row, col), coeff in d.items():
          ...
      for row in range(nrows):
          self._mat.rowSlice[row + 1] += self._mat.rowSlice[row]
      for (row, col), coeff in d.items():
          ...
      for row in reversed(range(nrows)):
          self._mat.rowSlice[row + 1] = self._mat.rowSlice[row]
      self._mat.rowSlice[0] = 0
      CMR_CALL(CMRchrmatSortNonzeros(cmr, self._mat))
      self.set_immutable()
  \<close>
  The loops over \<open>range(nrows)\<close> stay inside the \<open>nrows + 1\<close> row slices that were
  allocated. The two calls of the library are taken to return \<open>CMR_OKAY\<close>.
\<close>

definition clear_slices :: "nat \<Rightarrow> nat list \<Rightarrow> nat list" where
  "clear_slices n_rows rs = fold (\<lambda>row rs. rs[row := 0]) [0..<n_rows] rs"

definition sum_slices :: "nat \<Rightarrow> nat list \<Rightarrow> nat list" where
  "sum_slices n_rows rs =
     fold (\<lambda>row rs. rs[row + 1 := (rs ! (row + 1) + rs ! row) mod 2 ^ 64]) [0..<n_rows] rs"

definition shift_slices :: "nat \<Rightarrow> nat list \<Rightarrow> nat list" where
  "shift_slices n_rows rs =
     (fold (\<lambda>row rs. rs[row + 1 := rs ! row]) (rev [0..<n_rows]) rs)[0 := 0]"

definition init_from_dict ::
  "(nat \<Rightarrow> nat) \<Rightarrow> (nat \<Rightarrow> nat) \<Rightarrow> (nat \<Rightarrow> 8 word) \<Rightarrow> py_dict \<Rightarrow> nat \<Rightarrow> nat \<Rightarrow>
   error + CMR_CHRMAT" where
  "init_from_dict g_slice g_columns g_values d n_rows n_cols =
     (let mat = CMRchrmatCreate n_rows n_cols (length d) g_slice g_columns g_values;
          rs1 = clear_slices n_rows (rowSlice mat)
      in case count_rows d rs1 of
           Inl e \<Rightarrow> Inl e
         | Inr rs2 \<Rightarrow>
             (case place_entries d (sum_slices n_rows rs2, entryColumns mat, entryValues mat) of
                Inl e \<Rightarrow> Inl e
              | Inr (rs4, cols, vals) \<Rightarrow>
                  Inr (CMRchrmatSortNonzeros
                         (mat\<lparr>rowSlice := shift_slices n_rows rs4,
                              entryColumns := cols, entryValues := vals\<rparr>))))"

text \<open>
  The number of items of \<open>d\<close> with a coefficient other than 0 whose row satisfies \<open>P\<close>.
\<close>

definition count_nonzero :: "(int \<Rightarrow> bool) \<Rightarrow> py_dict \<Rightarrow> nat" where
  "count_nonzero P d = length (filter (\<lambda>x. snd x \<noteq> 0 \<and> P (fst (fst x))) d)"

text \<open>The exception of a coefficient that does not fit a \<open>char\<close>.\<close>

definition char_overflow :: error where
  "char_overflow = OverflowError ''value too large to convert to char''"

section \<open>The graphicness test and its time limit\<close>

text \<open>The error codes of the external library that matter here.\<close>

datatype CMR_ERROR = CMR_OKAY | CMR_ERROR_TIMEOUT | CMR_ERROR_OTHER

text \<open>
  Modelled from the spec: the helper \<open>CMR_CALL\<close>, which turns the error code of a call
  of the external library into an exception, is declared outside the files at hand. By
  the spec the external test "may fail with a distinguished time limit exceeded
  condition", and the doctest of \<open>is_graphic\<close> shows it as
  \<open>RuntimeError: Time limit exceeded\<close>; every other error code raises a RuntimeError
  with another message.
\<close>

definition CMR_CALL :: "CMR_ERROR \<Rightarrow> error + unit" where
  "CMR_CALL code =
     (case code of
        CMR_OKAY \<Rightarrow> Inr ()
      | CMR_ERROR_TIMEOUT \<Rightarrow> Inl (RuntimeError ''Time limit exceeded'')
      | CMR_ERROR_OTHER \<Rightarrow> Inl (RuntimeError ''CMR error''))"

text \<open>
  \<^verbatim>\<open>
  def is_graphic(self, *, time_limit=60.0, certificate=False):
      cdef bint result
      ...
      if certificate:
          sig_on()
          CMR_CALL(CMRtestGraphicMatrix(cmr, self._mat, &result, &graph, &forest_edges,
                                      &coforest_edges, &submatrix, &stats, time_limit))
          sig_off()
          # FIXME: this segfaults despite the sig_on/sig_off
      else:
          sig_on()
          CMR_CALL(CMRtestGraphicMatrix(cmr, self._mat, &result, NULL, NULL,
                                        NULL, NULL, &stats, time_limit))
          sig_off()
      if certificate:
          raise NotImplementedError
      return result
  \<close>
  The external test is a parameter: from the matrix and the time limit it gives its
  error code and its answer. \<open>result\<close> is a C \<open>int\<close> (\<open>cdef bint\<close>) that nothing
  initialises: \<open>garbage\<close> is what its four bytes hold when the test is called. The test
  stores its answer through \<open>&result\<close> as a C \<open>bool\<close>, that is, into one byte (the lowest
  byte of the \<open>int\<close> on a little-endian machine), and \<open>return result\<close> gives \<open>True\<close>
  for every \<open>int\<close> other than 0.

  With \<open>certificate=True\<close> the test is called with the addresses of the four
  certificate variables, and the source notes at this call that it crashes
  (\<open>FIXME: this segfaults despite the sig_on/sig_off\<close>), so this path ends in
  \<open>MemoryFault\<close>.
\<close>

definition store_bool :: "32 word \<Rightarrow> bool \<Rightarrow> 32 word" where
  "store_bool w b = or (and w (not 255)) (if b then 1 else 0)"

definition is_graphic ::
  "32 word \<Rightarrow> (CMR_CHRMAT \<Rightarrow> 'time \<Rightarrow> CMR_ERROR \<times> bool) \<Rightarrow>
   Matrix_cmr_chr_sparse \<Rightarrow> 'time \<Rightarrow> bool \<Rightarrow> error + bool" where
  "is_graphic garbage CMRtestGraphicMatrix self time_limit certificate =
     (if certificate then Inl MemoryFault
      else
        (case CMRtestGraphicMatrix (matrix_mat self) time_limit of
           (code, answer) \<Rightarrow>
             (case CMR_CALL code of
                Inl e \<Rightarrow> Inl e
              | Inr _ \<Rightarrow> Inr (store_bool garbage answer \<noteq> 0))))"

text \<open>
  The 3-sum node of the doctest of \<open>ThreeSumNode._children\<close> with the strategy
  \<open>Wide_Wide\<close>: a 6 by 6 node with the row keys \<open>(0, 1, 2, 3, a, 5)\<close> and the column
  keys \<open>(4, b, c, d, e, f)\<close>, taken as plain labels. Its children are the 4 by 5
  matrices the doctest prints; the first child lies on the parent rows 0, 1, 4, 3 and
  the parent columns 1, 2, 3, 4, the second on the parent rows 0, 2, 3, 5 and, from its
  second column on, the parent columns 3, 0, 4, 5. The parent element of the first
  child's last column and of the second child's first column is never read and is 0.
\<close>

definition wide_mat1 :: CMR_CHRMAT where
  "wide_mat1 =
     \<lparr>numRows = 4, numColumns = 5, numNonzeros = 12, rowSlice = [0, 3, 6, 9, 12],
      entryColumns = [2, 3, 4, 0, 1, 2, 1, 3, 4, 0, 2, 4],
      entryValues = [1, - 1, - 1, 1, 1, 1, 1, 1, 1, - 1, - 1, 1]\<rparr>"

definition wide_mat2 :: CMR_CHRMAT where
  "wide_mat2 =
     \<lparr>numRows = 4, numColumns = 5, numNonzeros = 12, rowSlice = [0, 3, 5, 9, 12],
      entryColumns = [0, 2, 3, 2, 4, 0, 1, 3, 4, 0, 1, 4],
      entryValues = [1, 1, - 1, 1, 1, - 1, - 1, 1, 1, - 1, - 1, 1]\<rparr>"

definition wide_child1 :: CMR_MATROID_DEC where
  "wide_child1 =
     CMR_MATROID_DEC 4 4 5 (Some wide_mat1) (Some [- 1, - 2, - 5, - 4]) (Some [2, 3, 4, 5, 0])
       [] False False"

definition wide_child2 :: CMR_MATROID_DEC where
  "wide_child2 =
     CMR_MATROID_DEC 4 4 5 (Some wide_mat2) (Some [- 1, - 3, - 4, - 6]) (Some [0, 4, 1, 5, 6])
       [] False False"

definition wide_example :: DecompositionNode where
  "wide_example =
     \<lparr>self_class = ThreeSumNode,
      self_dec = CMR_MATROID_DEC 3 6 6 None None None [Some wide_child1, Some wide_child2]
                   False True,
      self_root = None,
      self_row_keys = Some [PInt 0, PInt 1, PInt 2, PInt 3, PStr ''a'', PInt 5],
      self_column_keys = Some [PInt 4, PStr ''b'', PStr ''c'', PStr ''d'', PStr ''e'', PStr ''f'']\<rparr>"

text \<open>
  The 3-sum node of the same doctest with the strategy \<open>Mixed_Mixed\<close>: row keys
  \<open>(0, .., 5)\<close>, column keys \<open>(a, .., f)\<close>, a 4 by 5 child on the parent rows 0 to 3 and
  parent columns 0 to 3, and a 5 by 4 child on the parent rows 2 to 5 (from its second
  row on) and the parent columns 0, 3, 4, 5. The example takes the first row of the
  first child's matrix as a parameter: \<open>[1, 0, 1, 1, 0]\<close> in the doctest.
\<close>

definition mixed_mat1 :: "8 word \<Rightarrow> CMR_CHRMAT" where
  "mixed_mat1 s =
     \<lparr>numRows = 4, numColumns = 5, numNonzeros = 12, rowSlice = [0, 3, 6, 9, 12],
      entryColumns = [0, 2, 3, 1, 2, 3, 0, 2, 4, 1, 3, 4],
      entryValues = [s, s, s, 1, 1, 1, 1, 1, 1, - 1, - 1, 1]\<rparr>"

definition mixed_mat2 :: CMR_CHRMAT where
  "mixed_mat2 =
     \<lparr>numRows = 5, numColumns = 4, numNonzeros = 12, rowSlice = [0, 2, 5, 8, 10, 12],
      entryColumns = [0, 1, 0, 2, 3, 1, 2, 3, 0, 2, 1, 3],
      entryValues = [1, 1, 1, 1, 1, - 1, 1, 1, 1, 1, - 1, 1]\<rparr>"

definition mixed_child1 :: "8 word \<Rightarrow> CMR_MATROID_DEC" where
  "mixed_child1 s =
     CMR_MATROID_DEC 4 4 5 (Some (mixed_mat1 s)) (Some [- 1, - 2, - 3, - 4])
       (Some [1, 2, 3, 4, 0]) [] False False"

definition mixed_child2 :: CMR_MATROID_DEC where
  "mixed_child2 =
     CMR_MATROID_DEC 4 5 4 (Some mixed_mat2) (Some [0, - 3, - 4, - 5, - 6]) (Some [1, 4, 5, 6])
       [] False False"

definition mixed_example :: "8 word \<Rightarrow> DecompositionNode" where
  "mixed_example s =
     \<lparr>self_class = ThreeSumNode,
      self_dec = CMR_MATROID_DEC 3 6 6 None None None
                   [Some (mixed_child1 s), Some mixed_child2] True False,
      self_root = None,
      self_row_keys = Some [PInt 0, PInt 1, PInt 2, PInt 3, PInt 4, PInt 5],
      self_column_keys = Some [PStr ''a'', PStr ''b'', PStr ''c'', PStr ''d'', PStr ''e'', PStr ''f'']\<rparr>"

text \<open>
  The children the doctest shows for the two examples: \<open>(0, 1, a, 3)\<close> and
  \<open>(b, c, d, e, +3+e)\<close>, \<open>(0, 2, 3, 5)\<close> and \<open>(+b+0, d, 4, e, f)\<close> for \<open>Wide_Wide\<close>;
  \<open>(0, 1, 2, 3)\<close> and \<open>(a, b, c, d, +2+3)\<close> for the first child of \<open>Mixed_Mixed\<close>. The
  second child of \<open>Mixed_Mixed\<close> has the row keys \<open>(s a s b, 2, 3, 4, 5)\<close> for a sign
  \<open>s\<close> and the column keys \<open>(a, d, e, f)\<close>.
\<close>

definition wide_expected_child1 :: DecompositionNode where
  "wide_expected_child1 =
     \<lparr>self_class = GraphicNode, self_dec = wide_child1,
      self_root = Some (self_dec wide_example),
      self_row_keys = Some [PKey {|PInt 0|}, PKey {|PInt 1|}, PKey {|PStr ''a''|},
                            PKey {|PInt 3|}],
      self_column_keys = Some [PKey {|PStr ''b''|}, PKey {|PStr ''c''|},
                               PKey {|PStr ''d''|}, PKey {|PStr ''e''|},
                               PKey {|PTuple [PInt 1, PStr ''e''],
                                      PTuple [PInt 1, PInt 3]|}]\<rparr>"

definition wide_expected_child2 :: DecompositionNode where
  "wide_expected_child2 =
     \<lparr>self_class = GraphicNode, self_dec = wide_child2,
      self_root = Some (self_dec wide_example),
      self_row_keys = Some [PKey {|PInt 0|}, PKey {|PInt 2|}, PKey {|PInt 3|},
                            PKey {|PInt 5|}],
      self_column_keys = Some [PKey {|PTuple [PInt 1, PStr ''b''],
                                      PTuple [PInt 1, PInt 0]|},
                               PKey {|PStr ''d''|}, PKey {|PInt 4|},
                               PKey {|PStr ''e''|}, PKey {|PStr ''f''|}]\<rparr>"

definition mixed_expected_child1 :: "8 word \<Rightarrow> DecompositionNode" where
  "mixed_expected_child1 s =
     \<lparr>self_class = GraphicNode, self_dec = mixed_child1 s,
      self_root = Some (self_dec (mixed_example s)),
      self_row_keys = Some [PKey {|PInt 0|}, PKey {|PInt 1|}, PKey {|PInt 2|},
                            PKey {|PInt 3|}],
      self_column_keys = Some [PKey {|PStr ''a''|}, PKey {|PStr ''b''|},
                               PKey {|PStr ''c''|}, PKey {|PStr ''d''|},
                               PKey {|PTuple [PInt 1, PInt 2],
                                      PTuple [PInt 1, PInt 3]|}]\<rparr>"

definition mixed_expected_child2 :: "8 word \<Rightarrow> int \<Rightarrow> DecompositionNode" where
  "mixed_expected_child2 s sign =
     \<lparr>self_class = GraphicNode, self_dec = mixed_child2,
      self_root = Some (self_dec (mixed_example s)),
      self_row_keys = Some [PKey {|PTuple [PInt sign, PStr ''a''],
                                   PTuple [PInt sign, PStr ''b'']|},
                            PKey {|PInt 2|}, PKey {|PInt 3|}, PKey {|PInt 4|},
                            PKey {|PInt 5|}],
      self_column_keys = Some [PKey {|PStr ''a''|}, PKey {|PStr ''d''|},
                               PKey {|PStr ''e''|}, PKey {|PStr ''f''|}]\<rparr>"

section \<open>Permutation normal form (PALP)\<close>

text \<open>Sequencing of steps that can raise: the first exception ends the computation.\<close>

definition bnd :: "error + 'a \<Rightarrow> ('a \<Rightarrow> error + 'b) \<Rightarrow> error + 'b" where
  "bnd m f = (case m of Inl e \<Rightarrow> Inl e | Inr x \<Rightarrow> f x)"

text \<open>
  \<open>xs[i] = v\<close> on a Python list, \<open>range(a, b)\<close>, and the assignment of a Python integer
  to a variable declared \<open>cdef int\<close>.
\<close>

definition py_setitem :: "'a list \<Rightarrow> int \<Rightarrow> 'a \<Rightarrow> error + 'a list" where
  "py_setitem xs i v =
     (if 0 \<le> i \<and> i < int (length xs) then Inr (xs[nat i := v])
      else if i < 0 \<and> - int (length xs) \<le> i then Inr (xs[nat (int (length xs) + i) := v])
      else Inl IndexError)"

definition py_range :: "int \<Rightarrow> int \<Rightarrow> int list" where
  "py_range a b = [a..b - 1]"

definition to_cint :: "int \<Rightarrow> error + int" where
  "to_cint v =
     (if - (2 ^ 31) \<le> v \<and> v < 2 ^ 31 then Inr v
      else Inl (OverflowError ''value too large to convert to int''))"

text \<open>
  A dictionary with integer keys, in insertion order: \<open>d[k]\<close> (KeyError when the key is
  missing), \<open>d[k] = v\<close>, \<open>del d[k]\<close> and \<open>{k: d[k] for k in d if k < n}\<close>.
\<close>

type_synonym 'v py_int_dict = "(int \<times> 'v) list"

definition d_get :: "'v py_int_dict \<Rightarrow> int \<Rightarrow> error + 'v" where
  "d_get d k = (case map_of d k of None \<Rightarrow> Inl KeyError | Some v \<Rightarrow> Inr v)"

fun d_set :: "'v py_int_dict \<Rightarrow> int \<Rightarrow> 'v \<Rightarrow> 'v py_int_dict" where
  "d_set [] k v = [(k, v)]"
| "d_set ((k', v') # d) k v = (if k' = k then (k, v) # d else (k', v') # d_set d k v)"

definition d_del :: "'v py_int_dict \<Rightarrow> int \<Rightarrow> error + 'v py_int_dict" where
  "d_del d k =
     (if k \<in> fst ` set d then Inr (filter (\<lambda>kv. fst kv \<noteq> k) d) else Inl KeyError)"

definition d_below :: "'v py_int_dict \<Rightarrow> int \<Rightarrow> 'v py_int_dict" where
  "d_below d n = filter (\<lambda>kv. fst kv < n) d"

text \<open>
  Modelled from the spec: the permutation group elements and the matrix methods of the
  library are outside the files at hand. A permutation of \<open>{1, .., n}\<close> is the list of
  its images, counted from 0, so that \<open>g(i + 1) - 1\<close> is \<open>papp g i\<close>; an integer outside
  the domain is returned as it is. \<open>g._transpose_left(j, k)\<close> is the product of the
  transposition \<open>(j, k)\<close> with \<open>g\<close>: the images of \<open>j\<close> and \<open>k\<close> change places. \<open>g(xs)\<close>
  on a list is \<open>[xs[g(i + 1) - 1] for i in range(n)]\<close>. \<open>PM[i, j]\<close> is subscripting by
  row and column. \<open>PM.with_permuted_rows_and_columns(g, h)\<close> is the matrix whose entry
  \<open>(i, j)\<close> is \<open>PM[g(i + 1) - 1, h(j + 1) - 1]\<close>: "the row/column maps applied to the
  original matrix".
\<close>

type_synonym perm = "int list"

definition one :: "int \<Rightarrow> perm" where
  "one n = py_range 0 n"

definition papp :: "perm \<Rightarrow> int \<Rightarrow> int" where
  "papp g i = (if 0 \<le> i \<and> i < int (length g) then g ! nat i else i)"

definition transpose_left :: "perm \<Rightarrow> int \<Rightarrow> int \<Rightarrow> perm" where
  "transpose_left g j k =
     (if j = k then g
      else (g[nat (j - 1) := papp g (k - 1)])[nat (k - 1) := papp g (j - 1)])"

definition perm_list :: "perm \<Rightarrow> 'a list \<Rightarrow> error + 'a list" where
  "perm_list g xs = mapM (\<lambda>i. py_getitem xs (papp g i)) (py_range 0 (int (length g)))"

type_synonym int_matrix = "int list list"

definition mget :: "int_matrix \<Rightarrow> int \<Rightarrow> int \<Rightarrow> error + int" where
  "mget PM i j = bnd (py_getitem PM i) (\<lambda>row. py_getitem row j)"

definition with_permuted_rows_and_columns ::
  "int_matrix \<Rightarrow> perm \<Rightarrow> perm \<Rightarrow> error + int_matrix" where
  "with_permuted_rows_and_columns PM g h =
     mapM (\<lambda>i. mapM (\<lambda>j. mget PM (papp g i) (papp h j)) (py_range 0 (int (length h))))
          (py_range 0 (int (length g)))"

text \<open>
  \<^verbatim>\<open>
  def index_of_max(iterable):
      # returns the index of max of any iterable
      return max(enumerate(iterable), key=lambda x: x[1])[0]
  \<close>
  \<open>max\<close> returns the first of the largest items and raises ValueError on nothing.
\<close>

fun max_from :: "int \<Rightarrow> int \<Rightarrow> int \<Rightarrow> int list \<Rightarrow> int" where
  "max_from best_i best i [] = best_i"
| "max_from best_i best i (x # xs) =
     (if best < x then max_from i x (i + 1) xs else max_from best_i best (i + 1) xs)"

definition index_of_max :: "int list \<Rightarrow> error + int" where
  "index_of_max xs =
     (case xs of
        [] \<Rightarrow> Inl (ValueError ''max() arg is an empty sequence'')
      | x # xs' \<Rightarrow> Inr (max_from 0 x 1 xs'))"

text \<open>
  Lines 83 to 87: the column permutation for row 0.
  \<^verbatim>\<open>
  for j in range(n_v):
      m = index_of_max(PM[0, i] for i in range(j, n_v))
      if m > 0:
          permutations[0][1] = (<PermutationGroupElement> permutations[0][1])._transpose_left(j + 1, m + j + 1)
  first_row = list(PM[0])
  \<close>
\<close>

fun first_row_loop :: "int_matrix \<Rightarrow> int \<Rightarrow> int list \<Rightarrow> perm \<Rightarrow> error + perm" where
  "first_row_loop PM n_v [] g = Inr g"
| "first_row_loop PM n_v (j # js) g =
     bnd (mapM (\<lambda>i. mget PM 0 i) (py_range j n_v)) (\<lambda>vals.
     bnd (index_of_max vals) (\<lambda>m.
       first_row_loop PM n_v js
         (if m > 0 then transpose_left g (j + 1) (m + j + 1) else g)))"

text \<open>
  Lines 102 to 116, the loop over \<open>i\<close> for row \<open>k\<close>: \<open>g\<close> is \<open>permutations[n_s][1]\<close>,
  \<open>g0\<close> is \<open>permutations[0][1]\<close>. The result is \<open>g\<close> and \<open>d\<close> when the loop ends or breaks.
  \<^verbatim>\<open>
  for i in range(1, n_v):
      max_element = PM[k, permutations[n_s][1](i + 1) - 1]
      m = i
      for j in range(i + 1, n_v):
          element = PM[k, permutations[n_s][1](j + 1) - 1]
          if element > max_element:
              max_element = element
              m = j
      if m > i:
          permutations[n_s][1] = permutations[n_s][1]._transpose_left(i + 1, m + 1)
      if d == 0:
          d = (PM[k, permutations[n_s][1](i+1) - 1]
               - permutations[0][1](first_row)[i])
          if d < 0:
              break
  \<close>
\<close>

fun find_max :: "int_matrix \<Rightarrow> int \<Rightarrow> perm \<Rightarrow> int list \<Rightarrow> int \<times> int \<Rightarrow> error + (int \<times> int)" where
  "find_max PM k g [] (max_element, m) = Inr (max_element, m)"
| "find_max PM k g (j # js) (max_element, m) =
     bnd (mget PM k (papp g j)) (\<lambda>x.
     bnd (to_cint x) (\<lambda>element.
       if element > max_element then find_max PM k g js (element, j)
       else find_max PM k g js (max_element, m)))"

fun sort_row ::
  "int_matrix \<Rightarrow> int \<Rightarrow> int \<Rightarrow> perm \<Rightarrow> int list \<Rightarrow> int list \<Rightarrow> perm \<times> int \<Rightarrow>
   error + (perm \<times> int)" where
  "sort_row PM k n_v g0 first_row [] (g, d) = Inr (g, d)"
| "sort_row PM k n_v g0 first_row (i # is) (g, d) =
     bnd (mget PM k (papp g i)) (\<lambda>x.
     bnd (to_cint x) (\<lambda>max_element.
     bnd (find_max PM k g (py_range (i + 1) n_v) (max_element, i)) (\<lambda>(max_element', m).
       let g' = (if m > i then transpose_left g (i + 1) (m + 1) else g) in
       if d = 0 then
         bnd (mget PM k (papp g' i)) (\<lambda>y.
         bnd (perm_list g0 first_row) (\<lambda>permuted.
         bnd (py_getitem permuted i) (\<lambda>z.
         bnd (to_cint (y - z)) (\<lambda>d'.
           if d' < 0 then Inr (g', d')
           else sort_row PM k n_v g0 first_row is (g', d')))))
       else sort_row PM k n_v g0 first_row is (g', d))))"

text \<open>
  Lines 90 to 130, one round of the loop over \<open>k\<close>. The state is the dictionary
  \<open>permutations\<close> (its values are the pairs of a row and a column permutation), \<open>n_s\<close>
  and \<open>first_row\<close>.
  \<^verbatim>\<open>
  for k in range(1, n_f):
      permutations[n_s] = [S_f.one(), S_v.one()]
      m = index_of_max(PM[k, permutations[n_s][1](j+1) - 1] for j in range(n_v))
      if m > 0:
          permutations[n_s][1] = permutations[n_s][1]._transpose_left(1, m + 1)
      d = PM[k, permutations[n_s][1](1) - 1] - permutations[0][1](first_row)[0]
      if d < 0:
          continue
      for i in range(1, n_v): ...
      if d < 0:
          del permutations[n_s]
          continue
      permutations[n_s][0] = permutations[n_s][0]._transpose_left(1, k + 1)
      if d == 0:
          n_s += 1
      else:
          first_row = list(PM[k])
          permutations = {0: permutations[n_s]}
          n_s = 1
  \<close>
\<close>

type_synonym perm_dict = "(perm \<times> perm) py_int_dict"

definition compare_row ::
  "int_matrix \<Rightarrow> int \<Rightarrow> int \<Rightarrow> int \<Rightarrow> perm_dict \<times> int \<times> int list \<Rightarrow>
   error + (perm_dict \<times> int \<times> int list)" where
  "compare_row PM n_v n_f k st =
     (case st of (permutations, n_s, first_row) \<Rightarrow>
        let permutations1 = d_set permutations n_s (one n_f, one n_v) in
        bnd (mapM (\<lambda>j. mget PM k (papp (one n_v) j)) (py_range 0 n_v)) (\<lambda>vals.
        bnd (index_of_max vals) (\<lambda>m.
          let g = (if m > 0 then transpose_left (one n_v) 1 (m + 1) else one n_v);
              permutations2 = d_set permutations1 n_s (one n_f, g) in
          bnd (mget PM k (papp g 0)) (\<lambda>x.
          bnd (d_get permutations2 0) (\<lambda>e0.
          bnd (perm_list (snd e0) first_row) (\<lambda>permuted.
          bnd (py_getitem permuted 0) (\<lambda>z.
          bnd (to_cint (x - z)) (\<lambda>d.
            if d < 0 then Inr (permutations2, n_s, first_row)
            else
              bnd (sort_row PM k n_v (snd e0) first_row (py_range 1 n_v) (g, d)) (\<lambda>(g', d').
                let permutations3 = d_set permutations2 n_s (one n_f, g') in
                if d' < 0 then
                  bnd (d_del permutations3 n_s) (\<lambda>permutations4.
                    Inr (permutations4, n_s, first_row))
                else
                  let e = (transpose_left (one n_f) 1 (k + 1), g') in
                  if d' = 0 then Inr (d_set permutations3 n_s e, n_s + 1, first_row)
                  else
                    bnd (py_getitem PM k) (\<lambda>row.
                      Inr ([(0, e)], 1, row)))))))))))"

fun compare_rows ::
  "int_matrix \<Rightarrow> int \<Rightarrow> int \<Rightarrow> int list \<Rightarrow> perm_dict \<times> int \<times> int list \<Rightarrow>
   error + (perm_dict \<times> int \<times> int list)" where
  "compare_rows PM n_v n_f [] st = Inr st"
| "compare_rows PM n_v n_f (k # ks) st =
     bnd (compare_row PM n_v n_f k st) (compare_rows PM n_v n_f ks)"

text \<open>
  Lines 141 to 147: the symmetry blocks of the first row \<open>b\<close>.
  \<^verbatim>\<open>
  cdef list S = list(range(1, n_v + 1))
  for i in range(1, n_v):
      if b[i-1] == b[i]:
          S[i] = S[i-1]
          S[S[i]-1] += 1
      else:
          S[i] = i + 1
  \<close>
\<close>

definition join_block :: "int list \<Rightarrow> int \<Rightarrow> error + int list" where
  "join_block S i =
     bnd (py_getitem S (i - 1)) (\<lambda>v.
     bnd (py_setitem S i v) (\<lambda>S1.
     bnd (py_getitem S1 i) (\<lambda>t.
     bnd (py_getitem S1 (t - 1)) (\<lambda>u.
       py_setitem S1 (t - 1) (u + 1)))))"

fun symmetry_blocks :: "int list \<Rightarrow> int list \<Rightarrow> int list \<Rightarrow> error + int list" where
  "symmetry_blocks b [] S = Inr S"
| "symmetry_blocks b (i # is) S =
     bnd (py_getitem b (i - 1)) (\<lambda>x.
     bnd (py_getitem b i) (\<lambda>y.
       if x = y then bnd (join_block S i) (symmetry_blocks b is)
       else bnd (py_setitem S i (i + 1)) (symmetry_blocks b is)))"

text \<open>
  Lines 169 to 209, the loop over the rows \<open>s\<close> that can become row \<open>l\<close>, for the
  permutation pair \<open>pk = permutations[k]\<close>. The state is \<open>permutations_bar\<close>, \<open>n_p\<close>,
  \<open>ccf\<close>, \<open>cf\<close>, \<open>l_r\<close> and \<open>n_s\<close>.
  \<^verbatim>\<open>
  for s in range(l, n_f):
      for j in range(1, S[0]):
          v0 = PM[permutations_bar[n_p][0](s+1) - 1, permutations_bar[n_p][1](1) - 1]
          vj = PM[permutations_bar[n_p][0](s+1) - 1, permutations_bar[n_p][1](j+1) - 1]
          if v0 < vj:
              permutations_bar[n_p][1] = permutations_bar[n_p][1]._transpose_left(1, j + 1)
      if ccf == 0:
          l_r[0] = PM[permutations_bar[n_p][0](s+1) - 1, permutations_bar[n_p][1](1) - 1]
          if s != l:
              permutations_bar[n_p][0] = permutations_bar[n_p][0]._transpose_left(l + 1, s + 1)
          n_p += 1
          ccf = 1
          permutations_bar[n_p] = list(permutations[k])
      else:
          d1 = PM[permutations_bar[n_p][0](s+1) - 1, permutations_bar[n_p][1](1) - 1]
          d = d1 - l_r[0]
          if d < 0:
              continue
          elif d==0:
              if s != l:
                  permutations_bar[n_p][0] = permutations_bar[n_p][0]._transpose_left(l + 1, s + 1)
              n_p += 1
              permutations_bar[n_p] = list(permutations[k])
          else:
              l_r[0] = d1
              if s != l:
                  permutations_bar[n_p][0] = permutations_bar[n_p][0]._transpose_left(l + 1, s + 1)
              cf = 0
              permutations_bar = {0: list(permutations_bar[n_p])}
              n_p = 1
              permutations_bar[n_p] = list(permutations[k])
              n_s = k + 1
  \<close>
\<close>

fun block_max ::
  "int_matrix \<Rightarrow> int \<Rightarrow> int \<Rightarrow> int list \<Rightarrow> perm \<Rightarrow> error + perm" where
  "block_max PM row c [] g = Inr g"
| "block_max PM row c (j # js) g =
     bnd (mget PM row (papp g c)) (\<lambda>x.
     bnd (to_cint x) (\<lambda>vc.
     bnd (mget PM row (papp g j)) (\<lambda>y.
     bnd (to_cint y) (\<lambda>vj.
       block_max PM row c js
         (if vc < vj then transpose_left g (c + 1) (j + 1) else g)))))"

type_synonym search_state = "perm_dict \<times> int \<times> int \<times> int \<times> int list \<times> int"

definition move_row :: "perm \<times> perm \<Rightarrow> int \<Rightarrow> int \<Rightarrow> perm \<times> perm" where
  "move_row e l s = (if s \<noteq> l then (transpose_left (fst e) (l + 1) (s + 1), snd e) else e)"

definition row_candidate ::
  "int_matrix \<Rightarrow> int \<Rightarrow> int list \<Rightarrow> perm \<times> perm \<Rightarrow> int \<Rightarrow> int \<Rightarrow> search_state \<Rightarrow>
   error + search_state" where
  "row_candidate PM l S pk k s st =
     (case st of (permutations_bar, n_p, ccf, cf, l_r, n_s) \<Rightarrow>
        bnd (py_getitem S 0) (\<lambda>S0.
        bnd (d_get permutations_bar n_p) (\<lambda>e.
        bnd (block_max PM (papp (fst e) s) 0 (py_range 1 S0) (snd e)) (\<lambda>g.
          let e1 = (fst e, g); pb1 = d_set permutations_bar n_p e1 in
          if ccf = 0 then
            bnd (mget PM (papp (fst e1) s) (papp g 0)) (\<lambda>x.
            bnd (py_setitem l_r 0 x) (\<lambda>l_r'.
              Inr (d_set (d_set pb1 n_p (move_row e1 l s)) (n_p + 1) pk,
                   n_p + 1, 1, cf, l_r', n_s)))
          else
            bnd (mget PM (papp (fst e1) s) (papp g 0)) (\<lambda>x.
            bnd (to_cint x) (\<lambda>d1.
            bnd (py_getitem l_r 0) (\<lambda>r.
            bnd (to_cint (d1 - r)) (\<lambda>d.
              if d < 0 then Inr (pb1, n_p, ccf, cf, l_r, n_s)
              else if d = 0 then
                Inr (d_set (d_set pb1 n_p (move_row e1 l s)) (n_p + 1) pk,
                     n_p + 1, ccf, cf, l_r, n_s)
              else
                bnd (py_setitem l_r 0 d1) (\<lambda>l_r'.
                  Inr (d_set [(0, move_row e1 l s)] 1 pk, 1, ccf, 0, l_r', k + 1))))))))))"

fun row_candidates ::
  "int_matrix \<Rightarrow> int \<Rightarrow> int list \<Rightarrow> perm \<times> perm \<Rightarrow> int \<Rightarrow> int list \<Rightarrow> search_state \<Rightarrow>
   error + search_state" where
  "row_candidates PM l S pk k [] st = Inr st"
| "row_candidates PM l S pk k (s # ss) st =
     bnd (row_candidate PM l S pk k s st) (row_candidates PM l S pk k ss)"

text \<open>
  Lines 221 to 250, the body of \<open>while s > 0\<close> after \<open>s -= 1\<close>, for the column \<open>c\<close> whose
  symmetry block ends before \<open>h\<close>.
  \<^verbatim>\<open>
  for j in range(c + 1, h):
      vc = PM[permutations_bar[s][0](l+1) - 1, permutations_bar[s][1](c+1) - 1]
      vj = PM[permutations_bar[s][0](l+1) - 1, permutations_bar[s][1](j+1) - 1]
      if vc < vj:
          permutations_bar[s][1] = permutations_bar[s][1]._transpose_left(c + 1, j + 1)
  if ccf == 0:
      l_r[c] = PM[permutations_bar[s][0](l+1) - 1, permutations_bar[s][1](c+1) - 1]
      ccf = 1
  else:
      d1 = PM[permutations_bar[s][0](l+1) - 1, permutations_bar[s][1](c+1) - 1]
      d = d1 - l_r[c]
      if d < 0:
          n_p -= 1
          if s < n_p:
              permutations_bar[s] = list(permutations_bar[n_p])
      elif d > 0:
          l_r[c] = d1
          cf = 0
          n_p = s + 1
          n_s = k + 1
  \<close>
\<close>

definition column_candidate ::
  "int_matrix \<Rightarrow> int \<Rightarrow> int \<Rightarrow> int \<Rightarrow> int \<Rightarrow> int \<Rightarrow> search_state \<Rightarrow> error + search_state" where
  "column_candidate PM l c h k s st =
     (case st of (permutations_bar, n_p, ccf, cf, l_r, n_s) \<Rightarrow>
        bnd (d_get permutations_bar s) (\<lambda>e.
        bnd (block_max PM (papp (fst e) l) c (py_range (c + 1) h) (snd e)) (\<lambda>g.
          let pb1 = d_set permutations_bar s (fst e, g) in
          if ccf = 0 then
            bnd (mget PM (papp (fst e) l) (papp g c)) (\<lambda>x.
            bnd (py_setitem l_r c x) (\<lambda>l_r'.
              Inr (pb1, n_p, 1, cf, l_r', n_s)))
          else
            bnd (mget PM (papp (fst e) l) (papp g c)) (\<lambda>x.
            bnd (to_cint x) (\<lambda>d1.
            bnd (py_getitem l_r c) (\<lambda>r.
            bnd (to_cint (d1 - r)) (\<lambda>d.
              if d < 0 then
                (if s < n_p - 1 then
                   bnd (d_get pb1 (n_p - 1)) (\<lambda>e'.
                     Inr (d_set pb1 s e', n_p - 1, ccf, cf, l_r, n_s))
                 else Inr (pb1, n_p - 1, ccf, cf, l_r, n_s))
              else if d > 0 then
                bnd (py_setitem l_r c d1) (\<lambda>l_r'.
                  Inr (pb1, s + 1, ccf, 0, l_r', k + 1))
              else Inr (pb1, n_p, ccf, cf, l_r, n_s))))))))"

fun column_candidates ::
  "int_matrix \<Rightarrow> int \<Rightarrow> int \<Rightarrow> int \<Rightarrow> int \<Rightarrow> int list \<Rightarrow> search_state \<Rightarrow> error + search_state" where
  "column_candidates PM l c h k [] st = Inr st"
| "column_candidates PM l c h k (s # ss) st =
     bnd (column_candidate PM l c h k s st) (column_candidates PM l c h k ss)"

text \<open>
  Lines 212 to 250, the loop over the columns \<open>c\<close>. The \<open>while\<close> loop runs \<open>s\<close> from the
  \<open>n_p\<close> at its start down to 0, whatever becomes of \<open>n_p\<close> meanwhile.
  \<^verbatim>\<open>
  for c in range(1, n_v):
      h = S[c]
      ccf = cf
      if h < c + 1:
          h = S[h - 1]
      s = n_p
      while s > 0:
          s -= 1
          ...
  \<close>
\<close>

fun columns_loop ::
  "int_matrix \<Rightarrow> int \<Rightarrow> int list \<Rightarrow> int \<Rightarrow> int list \<Rightarrow> search_state \<Rightarrow> error + search_state" where
  "columns_loop PM l S k [] st = Inr st"
| "columns_loop PM l S k (c # cs) st =
     (case st of (permutations_bar, n_p, ccf, cf, l_r, n_s) \<Rightarrow>
        bnd (py_getitem S c) (\<lambda>h0.
        bnd (if h0 < c + 1 then py_getitem S (h0 - 1) else Inr h0) (\<lambda>h.
        bnd (column_candidates PM l c h k (rev (py_range 0 n_p))
               (permutations_bar, n_p, cf, cf, l_r, n_s))
            (columns_loop PM l S k cs))))"

text \<open>
  Lines 161 to 258, one round of the loop over \<open>k\<close>; the state is \<open>permutations\<close>,
  \<open>n_s\<close>, \<open>cf\<close> and \<open>l_r\<close>.
  \<^verbatim>\<open>
  for k in range(n_s_bar - 1, -1, -1):
      n_p = 0
      ccf = cf
      permutations_bar = {0: list(permutations[k])}
      for s in range(l, n_f): ...
      for c in range(1, n_v): ...
      if (n_s - 1) > k:
          permutations[k] = list(permutations[n_s - 1])
      n_s -= 1
      for s in range(n_p):
          permutations[n_s] = list(permutations_bar[s])
          n_s += 1
      cf = n_s
  \<close>
\<close>

fun copy_back :: "perm_dict \<Rightarrow> int list \<Rightarrow> perm_dict \<times> int \<Rightarrow> error + (perm_dict \<times> int)" where
  "copy_back permutations_bar [] (permutations, n_s) = Inr (permutations, n_s)"
| "copy_back permutations_bar (s # ss) (permutations, n_s) =
     bnd (d_get permutations_bar s) (\<lambda>e.
       copy_back permutations_bar ss (d_set permutations n_s e, n_s + 1))"

definition refine_candidate ::
  "int_matrix \<Rightarrow> int \<Rightarrow> int \<Rightarrow> int \<Rightarrow> int list \<Rightarrow> int \<Rightarrow>
   perm_dict \<times> int \<times> int \<times> int list \<Rightarrow> error + (perm_dict \<times> int \<times> int \<times> int list)" where
  "refine_candidate PM n_v n_f l S k st =
     (case st of (permutations, n_s, cf, l_r) \<Rightarrow>
        bnd (d_get permutations k) (\<lambda>pk.
        bnd (row_candidates PM l S pk k (py_range l n_f) ([(0, pk)], 0, cf, cf, l_r, n_s))
          (\<lambda>st1.
        bnd (columns_loop PM l S k (py_range 1 n_v) st1)
          (\<lambda>(permutations_bar, n_p, ccf, cf', l_r', n_s').
        bnd (if n_s' - 1 > k
             then bnd (d_get permutations (n_s' - 1)) (\<lambda>e. Inr (d_set permutations k e))
             else Inr permutations) (\<lambda>permutations1.
        bnd (copy_back permutations_bar (py_range 0 n_p) (permutations1, n_s' - 1))
          (\<lambda>(permutations2, n_s'').
            Inr (permutations2, n_s'', n_s'', l_r')))))))"

fun refine_candidates ::
  "int_matrix \<Rightarrow> int \<Rightarrow> int \<Rightarrow> int \<Rightarrow> int list \<Rightarrow> int list \<Rightarrow>
   perm_dict \<times> int \<times> int \<times> int list \<Rightarrow> error + (perm_dict \<times> int \<times> int \<times> int list)" where
  "refine_candidates PM n_v n_f l S [] st = Inr st"
| "refine_candidates PM n_v n_f l S (k # ks) st =
     bnd (refine_candidate PM n_v n_f l S k st) (refine_candidates PM n_v n_f l S ks)"

text \<open>
  Lines 262 to 279: the symmetry blocks after row \<open>l\<close> is fixed, \<open>M\<close> being that row.
  \<^verbatim>\<open>
  while c < n_v:
      s = S[c] + 1
      S[c] = c + 1
      c += 1
      while c < (s - 1):
          if M[c] == M[c - 1]:
              S[c] = S[c - 1]
              S[S[c] - 1] += 1
          else:
              S[c] = c + 1
          c += 1
  \<close>
  \<open>inner\<close> says whether control is in the inner loop.
\<close>

function update_blocks ::
  "int list \<Rightarrow> int \<Rightarrow> bool \<Rightarrow> int \<Rightarrow> int \<Rightarrow> int list \<Rightarrow> error + int list" where
  "update_blocks M n_v inner s c S =
     (if inner then
        (if c < s - 1 then
           (case py_getitem M c of
              Inl e \<Rightarrow> Inl e
            | Inr x \<Rightarrow>
                (case py_getitem M (c - 1) of
                   Inl e \<Rightarrow> Inl e
                 | Inr y \<Rightarrow>
                     (case (if x = y then join_block S c else py_setitem S c (c + 1)) of
                        Inl e \<Rightarrow> Inl e
                      | Inr S' \<Rightarrow> update_blocks M n_v True s (c + 1) S')))
         else update_blocks M n_v False s c S)
      else
        (if c < n_v then
           (case py_getitem S c of
              Inl e \<Rightarrow> Inl e
            | Inr v \<Rightarrow>
                (case py_setitem S c (c + 1) of
                   Inl e \<Rightarrow> Inl e
                 | Inr S' \<Rightarrow> update_blocks M n_v True (v + 1) (c + 1) S'))
         else Inr S))"
  by pat_completeness auto

termination update_blocks
proof (relation "measures [\<lambda>(M, n_v, inner, s, c, S). nat (max n_v (int (length M)) - c),
                           \<lambda>(M, n_v, inner, s, c, S). if inner then 1 else 0]",
       goal_cases)
  case 1
  show ?case by simp
next
  case (2 M n_v inner s c S x y S')
  from 2(3) have "c < int (length M)"
    by (auto simp: py_getitem_def split: if_splits)
  then show ?case by auto
next
  case (3 M n_v inner s c S)
  then show ?case by auto
next
  case (4 M n_v inner s c S v S')
  then show ?case by auto
qed

text \<open>
  Lines 154 to 279, one round of the loop over \<open>l\<close>; the state is \<open>permutations\<close> and
  \<open>S\<close>.
  \<^verbatim>\<open>
  for l in range(1, n_f - 1):
      n_s = len(permutations)
      n_s_bar = n_s
      cf = 0
      l_r = [0]*n_v
      for k in range(n_s_bar - 1, -1, -1): ...
      permutations = {k: permutations[k] for k in permutations if k < n_s}
      if S != list(range(1, n_v + 1)):
          c = 0
          M = tuple(PM[permutations[0][0](l+1) - 1, permutations[0][1](j+1) - 1]
                    for j in range(n_v))
          while c < n_v: ...
  \<close>
\<close>

definition permuted_row :: "int_matrix \<Rightarrow> perm_dict \<Rightarrow> int \<Rightarrow> int \<Rightarrow> error + int list" where
  "permuted_row PM permutations l n_v =
     mapM (\<lambda>j. bnd (d_get permutations 0) (\<lambda>e. mget PM (papp (fst e) l) (papp (snd e) j)))
          (py_range 0 n_v)"

definition fix_row ::
  "int_matrix \<Rightarrow> int \<Rightarrow> int \<Rightarrow> int \<Rightarrow> perm_dict \<times> int list \<Rightarrow> error + (perm_dict \<times> int list)" where
  "fix_row PM n_v n_f l st =
     (case st of (permutations, S) \<Rightarrow>
        let n_s = int (length permutations) in
        bnd (refine_candidates PM n_v n_f l S (rev (py_range 0 n_s))
               (permutations, n_s, 0, replicate (nat n_v) 0))
          (\<lambda>(permutations1, n_s', cf, l_r).
            let permutations2 = d_below permutations1 n_s' in
            if S \<noteq> py_range 1 (n_v + 1) then
              bnd (permuted_row PM permutations2 l n_v) (\<lambda>M.
              bnd (update_blocks M n_v False 0 0 S) (\<lambda>S'.
                Inr (permutations2, S')))
            else Inr (permutations2, S)))"

fun fix_rows ::
  "int_matrix \<Rightarrow> int \<Rightarrow> int \<Rightarrow> int list \<Rightarrow> perm_dict \<times> int list \<Rightarrow>
   error + (perm_dict \<times> int list)" where
  "fix_rows PM n_v n_f [] st = Inr st"
| "fix_rows PM n_v n_f (l # ls) st = bnd (fix_row PM n_v n_f l st) (fix_rows PM n_v n_f ls)"

text \<open>
  The function \<open>_palp_PM_max\<close>, on the vertex-facet pairing matrix \<open>PM\<close> (a list of rows
  of one length); the result is \<open>PM_max\<close> together with \<open>permutations\<close>, of which
  \<open>check=False\<close> returns the first only.
  \<^verbatim>\<open>
  cdef int n_v = PM.ncols()
  cdef int n_f = PM.nrows()
  cdef int n_s = 1
  cdef dict permutations = {0: [S_f.one(), S_v.one()]}
  (lines 83 to 87)
  for k in range(1, n_f): ...
  permutations = {k: permutations[k] for k in permutations if k < n_s}
  cdef tuple b = tuple(PM[permutations[0][0](1) - 1, permutations[0][1](j+1) - 1]
                       for j in range(n_v))
  (lines 141 to 147)
  for l in range(1, n_f - 1): ...
  PM_max = PM.with_permuted_rows_and_columns(*permutations[0])
  \<close>
\<close>

definition ncols_of :: "int_matrix \<Rightarrow> int" where
  "ncols_of PM = (case PM of [] \<Rightarrow> 0 | row # _ \<Rightarrow> int (length row))"

definition palp_PM_max :: "int_matrix \<Rightarrow> error + (int_matrix \<times> perm_dict)" where
  "palp_PM_max PM =
     (let n_v = ncols_of PM; n_f = int (length PM) in
      bnd (first_row_loop PM n_v (py_range 0 n_v) (one n_v)) (\<lambda>g.
      bnd (py_getitem PM 0) (\<lambda>first_row.
      bnd (compare_rows PM n_v n_f (py_range 1 n_f) ([(0, (one n_f, g))], 1, first_row))
        (\<lambda>(permutations, n_s, first_row').
          let permutations1 = d_below permutations n_s in
          bnd (permuted_row PM permutations1 0 n_v) (\<lambda>b.
          bnd (symmetry_blocks b (py_range 1 n_v) (py_range 1 (n_v + 1))) (\<lambda>S.
          bnd (fix_rows PM n_v n_f (py_range 1 (n_f - 1)) (permutations1, S))
            (\<lambda>(permutations2, S').
              bnd (d_get permutations2 0) (\<lambda>e.
              bnd (with_permuted_rows_and_columns PM (fst e) (snd e)) (\<lambda>PM_max.
                Inr (PM_max, permutations2))))))))))"

definition normal_form :: "int_matrix \<Rightarrow> error + int_matrix" where
  "normal_form PM = bnd (palp_PM_max PM) (\<lambda>r. Inr (fst r))"

text \<open>
  Examples. \<open>quad\<close> is the vertex-facet pairing matrix of the lattice quadrangle with
  the vertices \<open>(2, 1)\<close>, \<open>(2, 0)\<close>, \<open>(0, 0)\<close>, \<open>(0, 2)\<close>, in this order, and the
  facets through the vertices 0 and 3, 1 and 2, 0 and 1, 2 and 3, in this order: the
  entry \<open>(i, j)\<close> is the lattice distance of vertex \<open>j\<close> from facet \<open>i\<close>. \<open>quad'\<close> is
  the same with the vertices in the order \<open>(0, 0)\<close>, \<open>(2, 0)\<close>, \<open>(2, 1)\<close>, \<open>(0, 2)\<close>:
  columns 0 and 2 have changed places.
\<close>

definition quad :: int_matrix where
  "quad = [[0, 2, 4, 0], [1, 0, 0, 2], [0, 0, 2, 2], [2, 2, 0, 0]]"

definition quad' :: int_matrix where
  "quad' = [[4, 2, 0, 0], [0, 0, 1, 2], [2, 0, 0, 2], [0, 2, 2, 0]]"

section \<open>Properties\<close>

subsection \<open>Element keys\<close>

lemma ElementKey_init_composed:
  "ElementKey_init (PTuple [s1, l1, s2, l2]) True =
     Inr \<lparr>self_key = {|PTuple [s1, l1], PTuple [s2, l2]|}, self_composition = True\<rparr>"
  by (simp add: ElementKey_init_def)

lemma ElementKey_init_simple:
  "ElementKey_init l False = Inr \<lparr>self_key = {|l|}, self_composition = False\<rparr>"
  by (simp add: ElementKey_init_def)

lemma fdoubleton_eq_iff:
  "({|a, b|} = {|c, d|}) = (a = c \<and> b = d \<or> a = d \<and> b = c)"
proof -
  have "({|a, b|} = {|c, d|}) = (fset {|a, b|} = fset {|c, d|})"
    by (simp only: fset_inject)
  also have "\<dots> = ({a, b} = {c, d})" by simp
  also have "\<dots> = (a = c \<and> b = d \<or> a = d \<and> b = c)" by (rule doubleton_eq_iff)
  finally show ?thesis .
qed

text \<open>
  Claim C5: equality and hash of element keys depend only on the set of labels, and a
  composed key built from \<open>(sign1, label1, sign2, label2)\<close> equals the one built from
  the swapped order \<open>(sign2, label2, sign1, label1)\<close>.

  \<open>ElementKey.__eq__\<close> does not get as far as comparing anything. The keys built from
  \<open>(1, a, -1, 7)\<close> and from \<open>(-1, 7, 1, a)\<close> hold one and the same frozenset, and \<open>==\<close>
  on them raises AttributeError, as it does on any two element keys.
\<close>

theorem ElementKey_eq_raises:
  "ElementKey_init (PTuple [PInt 1, PStr ''a'', PInt (- 1), PStr ''7'']) True =
     Inr \<lparr>self_key = {|PTuple [PInt 1, PStr ''a''], PTuple [PInt (- 1), PStr ''7'']|},
          self_composition = True\<rparr>
   \<and> ElementKey_init (PTuple [PInt (- 1), PStr ''7'', PInt 1, PStr ''a'']) True =
     Inr \<lparr>self_key = {|PTuple [PInt (- 1), PStr ''7''], PTuple [PInt 1, PStr ''a'']|},
          self_composition = True\<rparr>
   \<and> {|PTuple [PInt 1, PStr ''a''], PTuple [PInt (- 1), PStr ''7'']|} =
       {|PTuple [PInt (- 1), PStr ''7''], PTuple [PInt 1, PStr ''a'']|}
   \<and> ElementKey_eq
       \<lparr>self_key = {|PTuple [PInt 1, PStr ''a''], PTuple [PInt (- 1), PStr ''7'']|},
        self_composition = True\<rparr>
       (Inl \<lparr>self_key = {|PTuple [PInt (- 1), PStr ''7''], PTuple [PInt 1, PStr ''a'']|},
             self_composition = True\<rparr>) = Inl AttributeError
   \<and> ElementKey_eq k (Inl k') = Inl AttributeError
   \<and> ElementKey_eq k (Inl k) = Inl AttributeError"
  by (simp add: ElementKey_init_composed ElementKey_eq_def fdoubleton_eq_iff)

subsection \<open>Assignment of keys\<close>



lemma keys_ne_list_tuple:
  "new_keys = None \<or> stored_list h \<noteq> new_list h \<Longrightarrow> keys_ne h stored new_keys = Inr True"
  by (cases new_keys) (auto simp: keys_ne_def)











text \<open>
  Two cases in which keys of the same value are refused. A tuple of two element keys
  that are equal in value to the keys held, but are other objects (as every call of
  \<open>ElementKey(...)\<close> makes them): comparing the first pair raises AttributeError. And a
  list given where the node holds a tuple of the same integers: ValueError.
\<close>

lemma set_row_keys_equal_element_keys:
  "set_row_keys
     \<lparr>stored_list = False, new_list = False, same_object = (\<lambda>p. False)\<rparr>
     \<lparr>self_class = GraphicNode,
      self_dec = CMR_MATROID_DEC 7 2 1 None None None [] False False,
      self_root = None, self_row_keys = Some [PKey {|PInt 0|}, PKey {|PInt 1|}],
      self_column_keys = None\<rparr>
     (Some [PKey {|PInt 0|}, PKey {|PInt 1|}]) = Inl AttributeError"
  by (simp add: set_row_keys_def keys_ne_def)

lemma set_row_keys_list_for_tuple:
  "set_row_keys
     \<lparr>stored_list = False, new_list = True, same_object = (\<lambda>p. p = [0] \<or> p = [1])\<rparr>
     \<lparr>self_class = GraphicNode,
      self_dec = CMR_MATROID_DEC 7 2 1 None None None [] False False,
      self_root = None, self_row_keys = Some [PInt 0, PInt 1],
      self_column_keys = None\<rparr>
     (Some [PInt 0, PInt 1]) = Inl (ValueError ''inconsistent row keys'')"
  by (simp add: set_row_keys_def keys_ne_def)

subsection \<open>Materialised matrix of a node\<close>

text \<open>
  Claim C10. \<open>matrix()\<close> returns \<open>None\<close>, and raises nothing, exactly when the handle
  holds no matrix; when the handle holds a matrix, the result is the sparse matrix over
  that very matrix, of its dimensions, that keeps a reference to the owner of the handle
  (the node's root, or the node itself when it is the root).
\<close>

theorem matrix_None_iff_no_matrix:
  "(matrix self = None) = (CMRmatroiddecGetMatrix (self_dec self) = None)
   \<and> (\<forall>mat. CMRmatroiddecGetMatrix (self_dec self) = Some mat \<longrightarrow>
        matrix self =
          Some \<lparr>parent_nrows = numRows mat, parent_ncols = numColumns mat, matrix_mat = mat,
                matrix_root = Some (case self_root self of None \<Rightarrow> self_dec self | Some r \<Rightarrow> r)\<rparr>)"
  by (auto simp: matrix_def root_or_self_def split: option.splits)

theorem matrix_None_iff_no_matrix_witness:
  "matrix \<lparr>self_class = GraphicNode,
           self_dec = CMR_MATROID_DEC 7 3 2 None None None [] False False,
           self_root = None, self_row_keys = None, self_column_keys = None\<rparr> = None
   \<and> matrix \<lparr>self_class = GraphicNode,
           self_dec = CMR_MATROID_DEC 7 1 1
             (Some \<lparr>numRows = 1, numColumns = 1, numNonzeros = 1, rowSlice = [0, 1],
                    entryColumns = [0], entryValues = [1]\<rparr>) None None [] False False,
           self_root = Some (CMR_MATROID_DEC 1 2 2 None None None [] False False),
           self_row_keys = None, self_column_keys = None\<rparr>
     = Some \<lparr>parent_nrows = 1, parent_ncols = 1,
             matrix_mat = \<lparr>numRows = 1, numColumns = 1, numNonzeros = 1, rowSlice = [0, 1],
                    entryColumns = [0], entryValues = [1]\<rparr>,
             matrix_root = Some (CMR_MATROID_DEC 1 2 2 None None None [] False False)\<rparr>"
  using matrix_None_iff_no_matrix
    [of "\<lparr>self_class = GraphicNode,
           self_dec = CMR_MATROID_DEC 7 3 2 None None None [] False False,
           self_root = None, self_row_keys = None, self_column_keys = None\<rparr>"]
    matrix_None_iff_no_matrix
    [of "\<lparr>self_class = GraphicNode,
           self_dec = CMR_MATROID_DEC 7 1 1
             (Some \<lparr>numRows = 1, numColumns = 1, numNonzeros = 1, rowSlice = [0, 1],
                    entryColumns = [0], entryValues = [1]\<rparr>) None None [] False False,
           self_root = Some (CMR_MATROID_DEC 1 2 2 None None None [] False False),
           self_row_keys = None, self_column_keys = None\<rparr>"]
  by simp

subsection \<open>Order of the children\<close>

lemma mapM_Inr_iff: "(mapM f xs = Inr ys) = (map f xs = map Inr ys)"
proof (induction xs arbitrary: ys)
  case Nil
  then show ?case by auto
next
  case (Cons x xs)
  show ?case
  proof (cases "f x")
    case (Inl e)
    then show ?thesis by (cases ys) auto
  next
    case (Inr y)
    note fx = this
    show ?thesis
    proof (cases "mapM f xs")
      case (Inl e)
      with Cons.IH have "\<And>zs. map f xs \<noteq> map Inr zs" by auto
      with Inl fx show ?thesis by (cases ys) auto
    next
      case (Inr zs)
      with Cons.IH have "map f xs = map Inr zs" by auto
      with Inr fx show ?thesis by (cases ys) (auto simp: inj_map_eq_map)
    qed
  qed
qed

lemma set_row_keys_dec: "set_row_keys h n k = Inr n' \<Longrightarrow> self_dec n' = self_dec n"
  by (auto simp: set_row_keys_def split: if_splits option.splits sum.splits)

lemma set_column_keys_dec: "set_column_keys h n k = Inr n' \<Longrightarrow> self_dec n' = self_dec n"
  by (auto simp: set_column_keys_def split: if_splits option.splits sum.splits)

lemma create_DecompositionNode_dec:
  assumes "create_DecompositionNode T (Some d) r rk ck = Inr c"
  shows "map_option self_dec c = Some d"
  using assms
  by (auto simp: create_DecompositionNode_def Let_def
      split: option.splits sum.splits if_splits
      dest!: set_row_keys_dec set_column_keys_dec)

lemma create_child_node_dec:
  assumes "create_child_node T self i = Inr c"
  shows "map_option self_dec c = CMRmatroiddecChild (self_dec self) i
         \<and> i < length (CMRmatroiddecChildren (self_dec self))"
  using assms
  by (auto simp: create_child_node_def CMRmatroiddecChild_def
      split: option.splits sum.splits if_splits
      dest!: create_DecompositionNode_dec)

lemma DecompositionNode_children_order:
  assumes "DecompositionNode_children T self = Inr cs"
  shows "map (map_option self_dec) cs = CMRmatroiddecChildren (self_dec self)"
proof -
  let ?ds = "CMRmatroiddecChildren (self_dec self)"
  from assms have m: "map (create_child_node T self) [0..<length ?ds] = map Inr cs"
    by (simp add: DecompositionNode_children_def mapM_Inr_iff nchildren_def
        CMRmatroiddecNumChildren_def)
  then have len: "length cs = length ?ds"
    by (metis length_map length_upt minus_nat.diff_0)
  show ?thesis
  proof (rule nth_equalityI)
    show "length (map (map_option self_dec) cs) = length ?ds" using len by simp
  next
    fix i assume "i < length (map (map_option self_dec) cs)"
    then have i: "i < length ?ds" using len by simp
    from m i have "create_child_node T self i = Inr (cs ! i)"
      by (metis (no_types, lifting) add_0 len length_map nth_map nth_upt length_upt minus_nat.diff_0)
    then have "map_option self_dec (cs ! i) = CMRmatroiddecChild (self_dec self) i"
      by (rule create_child_node_dec [THEN conjunct1])
    with i len show "map (map_option self_dec) cs ! i = ?ds ! i"
      by (simp add: CMRmatroiddecChild_def)
  qed
qed

lemma ThreeSumNode_children_order:
  assumes "ThreeSumNode_children T self = Inr (c1, c2)"
  shows "[map_option self_dec c1, map_option self_dec c2] = CMRmatroiddecChildren (self_dec self)"
proof -
  let ?ds = "CMRmatroiddecChildren (self_dec self)"
  from assms have n2: "length ?ds = 2"
    by (auto simp: ThreeSumNode_children_def nchildren_def CMRmatroiddecNumChildren_def
        split: if_splits)
  from assms n2 obtain d1 d2 where d: "?ds ! 0 = Some d1" "?ds ! 1 = Some d2"
    by (auto simp: ThreeSumNode_children_def CMRmatroiddecChild_def
        split: if_splits option.splits)
  from assms n2 d have "map_option self_dec c1 = Some d1 \<and> map_option self_dec c2 = Some d2"
    by (auto simp: ThreeSumNode_children_def CMRmatroiddecChild_def nchildren_def
        CMRmatroiddecNumChildren_def
        split: if_splits option.splits sum.splits prod.splits
        dest!: create_DecompositionNode_dec)
  moreover from n2 d have "?ds = [Some d1, Some d2]"
    by (cases ?ds; cases "tl ?ds") (auto simp: )
  ultimately show ?thesis by simp
qed

lemma children_order:
  assumes "children T self = Inr cs"
  shows "map (map_option self_dec) cs = CMRmatroiddecChildren (self_dec self)"
  using assms
  by (auto simp: children_def split: if_splits sum.splits prod.splits
      dest: DecompositionNode_children_order ThreeSumNode_children_order)

lemma py_key_lt_is_less:
  assumes "py_key_lt k k' = Inr b"
  shows "b = (k < k')"
proof (cases "fst k = fst k'")
  case False
  with assms obtain xs ys where xy: "fst k = Some xs" "fst k' = Some ys" "b = (xs < ys)"
    by (auto simp: py_key_lt_def py_component_lt_def split: option.splits)
  with False have "xs \<noteq> ys" by auto
  then have "(k < k') = (xs < ys)"
    using xy by (cases k; cases k') (auto simp: less_prod_def less_le_not_le)
  with xy show ?thesis by simp
next
  case True
  note feq = this
  show ?thesis
  proof (cases "snd k = snd k'")
    case True
    with feq have "k = k'" by (simp add: prod_eq_iff)
    with assms show ?thesis by (simp add: py_key_lt_def)
  next
    case False
    with assms feq obtain xs ys where xy: "snd k = Some xs" "snd k' = Some ys" "b = (xs < ys)"
      by (auto simp: py_key_lt_def py_component_lt_def split: option.splits)
    then have "(k < k') = (xs < ys)"
      using feq by (cases k; cases k') (auto simp: less_prod_def)
    with xy show ?thesis by simp
  qed
qed

lemma py_sorted_Inr:
  assumes "py_sorted xs = Inr ys"
  shows "ys = map fst (sort_key snd xs)"
    and "\<forall>x\<in>set xs. \<forall>y\<in>set xs. \<not> isl (py_key_lt (snd x) (snd y))"
  using assms by (auto simp: py_sorted_def list_all_iff split: if_splits)

lemma node_with_key_Inr:
  "node_with_key n = Inr (node, k) \<Longrightarrow>
     n = Some node \<and> parent_rows_and_columns_pyx node = Inr k"
  by (auto simp: node_with_key_def split: option.splits sum.splits)

lemma create_DecompositionNode_pyx_Some:
  "create_DecompositionNode_pyx p r = Some n \<Longrightarrow> p = Some (pyx_dec n)"
  by (auto simp: create_DecompositionNode_pyx_def split: option.splits)

lemma children_pyx_sorted:
  assumes "children_pyx self = Inr cs"
  shows "\<exists>ks. map parent_rows_and_columns_pyx cs = map Inr ks
              \<and> sorted ks
              \<and> sorted_wrt (\<lambda>a b. py_key_lt b a = Inr False) ks
              \<and> mset (map (\<lambda>c. Some (pyx_dec c)) cs) = mset (CMRdecChildren (pyx_dec self))"
proof -
  let ?ds = "CMRdecChildren (pyx_dec self)"
  let ?owner = "(case pyx_root self of None \<Rightarrow> pyx_dec self | Some r \<Rightarrow> r)"
  let ?nodes = "map (\<lambda>index. create_DecompositionNode_pyx (CMRdecChild (pyx_dec self) index)
                         (Some ?owner)) [0..<length ?ds]"
  from assms obtain keyed where
    keyed: "mapM node_with_key ?nodes = Inr keyed" and srt: "py_sorted keyed = Inr cs"
    by (auto simp: children_pyx_def Let_def CMRdecNumChildren_def split: sum.splits)
  from keyed have m: "map node_with_key ?nodes = map Inr keyed"
    by (simp add: mapM_Inr_iff)
  then have "length (map node_with_key ?nodes) = length (map Inr keyed :: (error + _) list)"
    by (rule arg_cong)
  then have len: "length keyed = length ?ds"
    by simp
  have nk: "node_with_key (?nodes ! i) = Inr (keyed ! i)" if "i < length ?ds" for i
  proof -
    from that have "map node_with_key ?nodes ! i = node_with_key (?nodes ! i)"
      by (simp del: upt_Suc)
    moreover from that len have "map Inr keyed ! i = (Inr (keyed ! i) :: error + _)"
      by simp
    ultimately show ?thesis using m by simp
  qed
  have key_ok: "parent_rows_and_columns_pyx (fst x) = Inr (snd x)" if "x \<in> set keyed" for x
  proof -
    from that obtain i where i: "i < length keyed" "keyed ! i = x"
      by (auto simp: in_set_conv_nth)
    with nk [of i] len have "node_with_key (?nodes ! i) = Inr (fst x, snd x)" by simp
    then show ?thesis by (rule node_with_key_Inr [THEN conjunct2])
  qed
  have decs: "map (\<lambda>x. Some (pyx_dec (fst x))) keyed = ?ds"
  proof (rule nth_equalityI)
    show "length (map (\<lambda>x. Some (pyx_dec (fst x))) keyed) = length ?ds" using len by simp
  next
    fix i assume "i < length (map (\<lambda>x. Some (pyx_dec (fst x))) keyed)"
    then have i: "i < length ?ds" using len by simp
    from nk [OF i] have "node_with_key (?nodes ! i) = Inr (fst (keyed ! i), snd (keyed ! i))"
      by simp
    then have "?nodes ! i = Some (fst (keyed ! i))" by (rule node_with_key_Inr [THEN conjunct1])
    with i have "CMRdecChild (pyx_dec self) i = Some (pyx_dec (fst (keyed ! i)))"
      by (simp add: create_DecompositionNode_pyx_Some del: upt_Suc)
    with i have "?ds ! i = Some (pyx_dec (fst (keyed ! i)))"
      by (simp add: CMRdecChild_def)
    with i len show "map (\<lambda>x. Some (pyx_dec (fst x))) keyed ! i = ?ds ! i" by simp
  qed
  let ?sk = "sort_key snd keyed"
  let ?ks = "map snd ?sk"
  from srt have cs: "cs = map fst ?sk"
    and cmp: "\<forall>x\<in>set keyed. \<forall>y\<in>set keyed. \<not> isl (py_key_lt (snd x) (snd y))"
    by (auto dest: py_sorted_Inr)
  have 1: "map parent_rows_and_columns_pyx cs = map Inr ?ks"
    using key_ok by (simp add: cs)
  have 2: "sorted ?ks" by (rule sorted_sort_key)
  have 3: "sorted_wrt (\<lambda>a b. py_key_lt b a = Inr False) ?ks"
  proof -
    have "py_key_lt b a = Inr False" if "a \<in> set ?ks" "b \<in> set ?ks" "a \<le> b" for a b
    proof -
      from that cmp have "\<not> isl (py_key_lt b a)" by auto
      then obtain r where r: "py_key_lt b a = Inr r" by (cases "py_key_lt b a") auto
      then have "r = (b < a)" by (rule py_key_lt_is_less)
      with that r show ?thesis by auto
    qed
    then show ?thesis
      using 2 by (rule sorted_wrt_mono_rel)
  qed
  have "mset (map (\<lambda>c. Some (pyx_dec c)) cs) = mset (map (\<lambda>x. Some (pyx_dec (fst x))) ?sk)"
    by (simp add: cs comp_def)
  also have "\<dots> = mset (map (\<lambda>x. Some (pyx_dec (fst x))) keyed)"
    by simp
  finally have 4: "mset (map (\<lambda>c. Some (pyx_dec c)) cs) = mset ?ds"
    using decs by simp
  from 1 2 3 4 show ?thesis by blast
qed

lemma two_sum_example_children:
  "children example_types two_sum_example =
     Inr [Some \<lparr>self_class = GraphicNode, self_dec = two_sum_child0,
                 self_root = Some two_sum_dec, self_row_keys = None, self_column_keys = None\<rparr>,
          Some \<lparr>self_class = GraphicNode, self_dec = two_sum_child1,
                 self_root = Some two_sum_dec, self_row_keys = None, self_column_keys = None\<rparr>]"
  by (simp add: children_def DecompositionNode_children_def nchildren_def
      CMRmatroiddecNumChildren_def create_child_node_def CMRmatroiddecChild_def
      row_keys_def column_keys_def create_DecompositionNode_def dec_class_def
      root_or_self_def upt_rec [of 0] upt_rec [of 1] upt_rec [of 2]
      two_sum_example_def two_sum_dec_def two_sum_child0_def two_sum_child1_def
      example_types_def)

lemma two_sum_child0_parent_rows_and_columns:
  "parent_rows_and_columns
     \<lparr>self_class = GraphicNode, self_dec = two_sum_child0,
      self_root = Some two_sum_dec, self_row_keys = None, self_column_keys = None\<rparr>
   = Inr (Some [PInt 4, PInt 5, PInt 6, PInt 7, PInt 0], Some [PInt 0, PInt 1, PInt 2, PInt 3])"
  by (simp add: parent_rows_and_columns_def parent_tuple_def nrows_def ncols_def
      row_keys_def column_keys_def c_read_def CMRelementToRowIndex_def
      CMRelementToColumnIndex_def two_sum_child0_def upt_rec [of _ 5] upt_rec [of _ 4])

lemma two_sum_child1_parent_rows_and_columns:
  "parent_rows_and_columns
     \<lparr>self_class = GraphicNode, self_dec = two_sum_child1,
      self_root = Some two_sum_dec, self_row_keys = None, self_column_keys = None\<rparr>
   = Inr (Some [PInt 0, PInt 1, PInt 2, PInt 3], Some [PInt 0, PInt 4, PInt 5, PInt 6, PInt 7])"
  by (simp add: parent_rows_and_columns_def parent_tuple_def nrows_def ncols_def
      row_keys_def column_keys_def c_read_def CMRelementToRowIndex_def
      CMRelementToColumnIndex_def two_sum_child1_def upt_rec [of _ 5] upt_rec [of _ 4])

lemma three_sum_example_pyx_children:
  "children_pyx (sum_example_pyx 3) =
     Inr [\<lparr>pyx_class = GraphicNode, pyx_dec = two_sum_child1_pyx,
           pyx_root = Some (pyx_dec (sum_example_pyx 3))\<rparr>,
          \<lparr>pyx_class = GraphicNode, pyx_dec = two_sum_child0_pyx,
           pyx_root = Some (pyx_dec (sum_example_pyx 3))\<rparr>]"
  by code_simp

text \<open>
  Claim C4, as the code has it. In the later revision the children of every node, of a
  3-sum node as of any other, are returned in the order of the external structure: the
  child at position \<open>i\<close> wraps the child handle of index \<open>i\<close>. In the earlier revision
  (seymour_decomposition.pyx) the children of every node, of a 3-sum node too, are the
  wrapped child handles sorted by the tuple of parent rows and parent columns: no later
  child's tuple is smaller, by Python's comparison, than an earlier child's.
\<close>

theorem children_order_by_revision:
  "(\<forall>cs. children T self = Inr cs \<longrightarrow>
       map (map_option self_dec) cs = CMRmatroiddecChildren (self_dec self))
   \<and> (\<forall>cs. children_pyx self_pyx = Inr cs \<longrightarrow>
       (\<exists>ks. map parent_rows_and_columns_pyx cs = map Inr ks
             \<and> sorted ks
             \<and> sorted_wrt (\<lambda>a b. py_key_lt b a = Inr False) ks
             \<and> mset (map (\<lambda>c. Some (pyx_dec c)) cs) = mset (CMRdecChildren (pyx_dec self_pyx))))"
  using children_order children_pyx_sorted by blast

theorem children_order_by_revision_witness:
  "map (map_option self_dec)
     [Some \<lparr>self_class = GraphicNode, self_dec = two_sum_child0,
             self_root = Some two_sum_dec, self_row_keys = None, self_column_keys = None\<rparr>,
      Some \<lparr>self_class = GraphicNode, self_dec = two_sum_child1,
             self_root = Some two_sum_dec, self_row_keys = None, self_column_keys = None\<rparr>]
     = CMRmatroiddecChildren (self_dec two_sum_example)
   \<and> (\<exists>ks. map parent_rows_and_columns_pyx
               [\<lparr>pyx_class = GraphicNode, pyx_dec = two_sum_child1_pyx,
                 pyx_root = Some (pyx_dec (sum_example_pyx 3))\<rparr>,
                \<lparr>pyx_class = GraphicNode, pyx_dec = two_sum_child0_pyx,
                 pyx_root = Some (pyx_dec (sum_example_pyx 3))\<rparr>] = map Inr ks
           \<and> sorted ks
           \<and> sorted_wrt (\<lambda>a b. py_key_lt b a = Inr False) ks
           \<and> mset (map (\<lambda>c. Some (pyx_dec c))
                 [\<lparr>pyx_class = GraphicNode, pyx_dec = two_sum_child1_pyx,
                   pyx_root = Some (pyx_dec (sum_example_pyx 3))\<rparr>,
                  \<lparr>pyx_class = GraphicNode, pyx_dec = two_sum_child0_pyx,
                   pyx_root = Some (pyx_dec (sum_example_pyx 3))\<rparr>])
               = mset (CMRdecChildren (pyx_dec (sum_example_pyx 3))))"
proof -
  note t = children_order_by_revision
    [of example_types two_sum_example "sum_example_pyx 3"]
  from t two_sum_example_children three_sum_example_pyx_children show ?thesis
    by blast
qed

text \<open>
  Claim C4 as stated fails in the later revision: the 2-sum node of the doctest returns
  its children in the order of the external structure, first the child on the parent
  rows \<open>(4, 5, 6, 7, 0)\<close>, then the child on the parent rows \<open>(0, 1, 2, 3)\<close>, whose
  tuple is the smaller one.
\<close>

theorem children_sorted_counterexample:
  "children example_types two_sum_example =
     Inr [Some \<lparr>self_class = GraphicNode, self_dec = two_sum_child0,
                 self_root = Some two_sum_dec, self_row_keys = None, self_column_keys = None\<rparr>,
          Some \<lparr>self_class = GraphicNode, self_dec = two_sum_child1,
                 self_root = Some two_sum_dec, self_row_keys = None, self_column_keys = None\<rparr>]
   \<and> self_class two_sum_example = TwoSumNode
   \<and> parent_rows_and_columns
        \<lparr>self_class = GraphicNode, self_dec = two_sum_child0,
         self_root = Some two_sum_dec, self_row_keys = None, self_column_keys = None\<rparr>
      = Inr (Some [PInt 4, PInt 5, PInt 6, PInt 7, PInt 0],
             Some [PInt 0, PInt 1, PInt 2, PInt 3])
   \<and> parent_rows_and_columns
        \<lparr>self_class = GraphicNode, self_dec = two_sum_child1,
         self_root = Some two_sum_dec, self_row_keys = None, self_column_keys = None\<rparr>
      = Inr (Some [PInt 0, PInt 1, PInt 2, PInt 3],
             Some [PInt 0, PInt 4, PInt 5, PInt 6, PInt 7])
   \<and> py_key_lt (Some [0, 1, 2, 3], Some [0, 4, 5, 6, 7])
                (Some [4, 5, 6, 7, 0], Some [0, 1, 2, 3]) = Inr True"
proof -
  have "self_class two_sum_example = TwoSumNode"
    by (simp add: two_sum_example_def)
  moreover have "py_key_lt (Some [0, 1, 2, 3], Some [0, 4, 5, 6, 7])
                (Some [4, 5, 6, 7, 0], Some [0, 1, 2, 3]) = Inr True"
    by (simp add: py_key_lt_def py_component_lt_def)
  ultimately show ?thesis
    by (simp only: two_sum_example_children two_sum_child0_parent_rows_and_columns
        two_sum_child1_parent_rows_and_columns simp_thms)
qed

subsection \<open>Classification of handles\<close>

text \<open>
  Claim C3 against the later revision. Unless the tags of a graphic and of a cographic
  node coincide, \<open>_class\<close> returns \<open>PlanarNode\<close> for no handle: the test for the
  cographic tag sits under the test for the graphic tag, on the same value. For a tag it
  matches with nothing, \<open>_class\<close> raises nothing and returns \<open>None\<close>; the node is not
  created because calling \<open>None\<close> raises TypeError in \<open>create_DecompositionNode\<close>.
  The classifier of the earlier revision, on the predicates of the library, does return
  \<open>PlanarNode\<close> for a leaf that is graphic and cographic.
\<close>

theorem dec_class_never_Planar:
  "(TYPE_GRAPH T \<noteq> TYPE_COGRAPH T \<longrightarrow> dec_class T d \<noteq> Some PlanarNode)
   \<and> (dec_class T d = None \<longrightarrow>
        create_DecompositionNode T (Some d) r rk ck =
          Inl (TypeError ''NoneType object is not callable''))
   \<and> (CMRdecIsSum d' \<notin> {1, 2, 3} \<and> CMRdecIsGraphicLeaf d' \<and> CMRdecIsCographicLeaf d' \<longrightarrow>
        dec_class_pyx d' = PlanarNode)"
  by (auto simp: dec_class_def create_DecompositionNode_def dec_class_pyx_def Let_def)

theorem dec_class_never_Planar_witness:
  "dec_class example_types
     (CMR_MATROID_DEC example_planar_tag 3 2 None None None [] False False) \<noteq> Some PlanarNode
   \<and> dec_class example_types
     (CMR_MATROID_DEC (TYPE_GRAPH example_types) 3 2 None None None [] False False)
       = Some GraphicNode
   \<and> create_DecompositionNode example_types
       (Some (CMR_MATROID_DEC example_planar_tag 3 2 None None None [] False False))
       None None None = Inl (TypeError ''NoneType object is not callable'')
   \<and> dec_class_pyx (CMR_DEC 0 True True 0 False False 3 2 None None None []) = PlanarNode"
proof -
  note t = dec_class_never_Planar
    [of example_types "CMR_MATROID_DEC example_planar_tag 3 2 None None None [] False False"
        None None None "CMR_DEC 0 True True 0 False False 3 2 None None None []"]
  have a: "TYPE_GRAPH example_types \<noteq> TYPE_COGRAPH example_types"
    by (simp add: example_types_def)
  have b: "dec_class example_types
     (CMR_MATROID_DEC example_planar_tag 3 2 None None None [] False False) = None"
    by (simp add: dec_class_def example_types_def example_planar_tag_def)
  have c: "dec_class example_types
     (CMR_MATROID_DEC (TYPE_GRAPH example_types) 3 2 None None None [] False False)
       = Some GraphicNode"
    by (simp add: dec_class_def example_types_def)
  from t a b c show ?thesis by simp
qed

subsection \<open>Time limit of the graphicness test\<close>



text \<open>
  After a test that answered \<open>False\<close>, \<open>is_graphic\<close> returns \<open>True\<close> when \<open>result\<close> held
  256 before the call: the test clears the lowest byte only.
\<close>

lemma is_graphic_garbage:
  "is_graphic 256 (\<lambda>mat t. (CMR_OKAY, False)) self time_limit False = Inr True"
  by (simp add: is_graphic_def CMR_CALL_def store_bool_def)

subsection \<open>Construction of a sparse matrix\<close>

lemma count_nonzero_Cons:
  "count_nonzero P (x # d) = (if snd x \<noteq> 0 \<and> P (fst (fst x)) then 1 else 0) + count_nonzero P d"
  by (simp add: count_nonzero_def)

lemma count_nonzero_Nil: "count_nonzero P [] = 0"
  by (simp add: count_nonzero_def)

lemma count_nonzero_mono:
  "(\<And>r. P r \<Longrightarrow> Q r) \<Longrightarrow> count_nonzero P d \<le> count_nonzero Q d"
  by (induction d) (auto simp: count_nonzero_Cons count_nonzero_Nil)

lemma count_nonzero_split:
  "(\<And>r. \<not> (P r \<and> Q r)) \<Longrightarrow>
     count_nonzero P d + count_nonzero Q d = count_nonzero (\<lambda>r. P r \<or> Q r) d"
  by (induction d) (auto simp: count_nonzero_Cons count_nonzero_Nil)

lemma count_nonzero_le_length: "count_nonzero P d \<le> length d"
  by (simp add: count_nonzero_def)

lemma count_lt_Suc:
  "count_nonzero (\<lambda>r. r + 1 = int (Suc k)) d + count_nonzero (\<lambda>r. r < int k) d
     = count_nonzero (\<lambda>r. r < int (Suc k)) d"
proof -
  have "count_nonzero (\<lambda>r. r + 1 = int (Suc k)) d + count_nonzero (\<lambda>r. r < int k) d
        = count_nonzero (\<lambda>r. r + 1 = int (Suc k) \<or> r < int k) d"
    by (rule count_nonzero_split) auto
  also have "(\<lambda>r. r + 1 = int (Suc k) \<or> r < int k) = (\<lambda>r. r < int (Suc k))"
    by (rule ext) auto
  finally show ?thesis .
qed

lemma count_lt_ge:
  "count_nonzero (\<lambda>r. r < int k) d + count_nonzero (\<lambda>r. int k \<le> r) d \<le> length d"
proof -
  have "count_nonzero (\<lambda>r. r < int k) d + count_nonzero (\<lambda>r. int k \<le> r) d
        = count_nonzero (\<lambda>r. r < int k \<or> int k \<le> r) d"
    by (rule count_nonzero_split) auto
  then show ?thesis by (simp add: count_nonzero_le_length)
qed

lemma clear_slices_Suc: "clear_slices (Suc n) rs = (clear_slices n rs)[n := 0]"
  by (simp add: clear_slices_def)

lemma length_clear_slices: "length (clear_slices n rs) = length rs"
  by (induction n) (simp_all add: clear_slices_Suc, simp add: clear_slices_def)

lemma clear_slices_nth:
  "k < length rs \<Longrightarrow> clear_slices n rs ! k = (if k < n then 0 else rs ! k)"
proof (induction n)
  case 0
  then show ?case by (simp add: clear_slices_def)
next
  case (Suc n)
  then have "clear_slices n rs ! k = (if k < n then 0 else rs ! k)" by simp
  moreover have "(clear_slices n rs)[n := 0] ! k = (if k = n then 0 else clear_slices n rs ! k)"
    using Suc.prems by (simp add: nth_list_update length_clear_slices)
  ultimately show ?case
    by (cases "k = n") (simp_all add: clear_slices_Suc less_Suc_eq)
qed

lemma sum_slices_Suc:
  "sum_slices (Suc m) rs =
     (sum_slices m rs)[m + 1 := (sum_slices m rs ! (m + 1) + sum_slices m rs ! m) mod 2 ^ 64]"
  by (simp add: sum_slices_def)

lemma length_sum_slices: "length (sum_slices m rs) = length rs"
  by (induction m) (simp_all add: sum_slices_Suc, simp add: sum_slices_def)

lemma sum_slices_bound:
  assumes "0 < K \<Longrightarrow> rs ! 0 \<le> B 0"
    and "\<And>k. Suc k < K \<Longrightarrow> rs ! Suc k + B k \<le> B (Suc k)"
    and "K \<le> length rs"
  shows "(\<forall>k\<le>m. k < K \<longrightarrow> sum_slices m rs ! k \<le> B k)
         \<and> (\<forall>k. m < k \<and> k < length rs \<longrightarrow> sum_slices m rs ! k = rs ! k)"
proof (induction m)
  case 0
  with assms(1) show ?case by (auto simp: sum_slices_def)
next
  case (Suc m)
  let ?S = "sum_slices m rs"
  have len: "length ?S = length rs" by (rule length_sum_slices)
  show ?case
  proof (intro conjI allI impI)
    fix k assume k: "k \<le> Suc m" "k < K"
    show "sum_slices (Suc m) rs ! k \<le> B k"
    proof (cases "k = Suc m")
      case False
      with k Suc show ?thesis by (simp add: sum_slices_Suc)
    next
      case True
      with k assms(3) have in_range: "Suc m < length rs" by simp
      from True k have mK: "m < K" by simp
      have "sum_slices (Suc m) rs ! k = (?S ! Suc m + ?S ! m) mod 2 ^ 64"
        using True in_range len by (simp add: sum_slices_Suc)
      also have "\<dots> \<le> ?S ! Suc m + ?S ! m" by (rule mod_less_eq_dividend)
      also have "?S ! Suc m = rs ! Suc m" using Suc in_range by simp
      also have "?S ! m \<le> B m" using Suc mK by simp
      also have "rs ! Suc m + B m \<le> B (Suc m)" using True k assms(2) by simp
      finally show ?thesis using True by simp
    qed
  next
    fix k assume "Suc m < k \<and> k < length rs"
    with Suc show "sum_slices (Suc m) rs ! k = rs ! k"
      by (simp add: sum_slices_Suc)
  qed
qed

lemma count_rows_bound:
  assumes "\<forall>x\<in>set d. snd x \<noteq> 0 \<longrightarrow> 0 \<le> fst (fst x) \<and> fst (fst x) < int n_rows"
    and "length rs = n_rows + 1"
  shows "\<exists>rs2. count_rows d rs = Inr rs2 \<and> length rs2 = n_rows + 1
           \<and> (\<forall>k\<le>n_rows. rs2 ! k \<le> rs ! k + count_nonzero (\<lambda>r. r + 1 = int k) d)"
  using assms
proof (induction d arbitrary: rs)
  case Nil
  then show ?case by (simp add: count_nonzero_Nil)
next
  case (Cons x d)
  obtain row col coeff where x: "x = ((row, col), coeff)" by (cases x) auto
  show ?case
  proof (cases "coeff = 0")
    case True
    from Cons.IH [of rs] Cons.prems True x show ?thesis
      by (simp add: count_nonzero_Cons)
  next
    case False
    with Cons.prems x have row: "0 \<le> row" "row < int n_rows" by auto
    let ?i = "nat (row + 1)"
    let ?rs' = "rs[?i := (rs ! ?i + 1) mod 2 ^ 64]"
    from row Cons.prems have i: "?i < length rs" "?i \<le> n_rows" by auto
    have step: "count_rows (x # d) rs = count_rows d ?rs'"
      using False x row Cons.prems(2) by (simp add: c_index_def c_write_def)
    from Cons.IH [of ?rs'] Cons.prems obtain rs2 where
      rs2: "count_rows d ?rs' = Inr rs2" "length rs2 = n_rows + 1"
        "\<forall>k\<le>n_rows. rs2 ! k \<le> ?rs' ! k + count_nonzero (\<lambda>r. r + 1 = int k) d"
      by auto
    have "rs2 ! k \<le> rs ! k + count_nonzero (\<lambda>r. r + 1 = int k) (x # d)" if k: "k \<le> n_rows" for k
    proof -
      from rs2 k have a: "rs2 ! k \<le> ?rs' ! k + count_nonzero (\<lambda>r. r + 1 = int k) d" by simp
      have "((rs ! ?i + 1) mod 2 ^ 64 :: nat) \<le> rs ! ?i + 1" by (rule mod_less_eq_dividend)
      then have b: "?rs' ! k \<le> rs ! k + (if k = ?i then 1 else 0)"
        using i k Cons.prems(2) by (auto simp: nth_list_update)
      have c: "(k = ?i) = (row + 1 = int k)" using row by auto
      from a b c show ?thesis using False x by (auto simp: count_nonzero_Cons)
    qed
    with step rs2 show ?thesis by auto
  qed
qed

lemma to_char_cases:
  "to_char v = (if - 128 \<le> v \<and> v \<le> 127 then Inr (word_of_int v) else Inl char_overflow)"
  by (simp add: to_char_def char_overflow_def)

lemma place_entries_overflow_isl:
  assumes "\<exists>x\<in>set d. snd x < - 128 \<or> 127 < snd x"
  shows "isl (place_entries d st)"
  using assms
proof (induction d arbitrary: st)
  case Nil
  then show ?case by simp
next
  case (Cons x d)
  obtain row col coeff where x: "x = ((row, col), coeff)" by (cases x) auto
  obtain rs cols vals where st: "st = (rs, cols, vals)" by (cases st) auto
  show ?case
  proof (cases "coeff < - 128 \<or> 127 < coeff")
    case True
    then have "coeff \<noteq> 0" "to_char coeff = Inl char_overflow"
      by (auto simp: to_char_cases)
    then show ?thesis unfolding x st
      by (simp split: sum.splits)
  next
    case False
    with Cons.prems x have "\<exists>y\<in>set d. snd y < - 128 \<or> 127 < snd y" by auto
    then have "\<And>st'. isl (place_entries d st')" by (rule Cons.IH)
    then show ?thesis unfolding x st
      by (simp split: sum.splits)
  qed
qed

lemma place_entries_result:
  assumes "\<forall>x\<in>set d. 0 \<le> fst (fst x) \<and> fst (fst x) < int n_rows
                      \<and> 0 \<le> snd (fst x) \<and> snd (fst x) < 2 ^ 64"
    and "length rs = n_rows + 1" and "length cols = n" and "length vals = n"
    and "n < 2 ^ 64"
    and "\<forall>r<n_rows. rs ! r + count_nonzero (\<lambda>r'. int r \<le> r') d \<le> n"
  shows "case place_entries d (rs, cols, vals) of
           Inl e \<Rightarrow> e = char_overflow \<and> (\<exists>x\<in>set d. snd x < - 128 \<or> 127 < snd x)
         | Inr (rs', cols', vals') \<Rightarrow>
             (\<forall>x\<in>set d. - 128 \<le> snd x \<and> snd x \<le> 127)
             \<and> length rs' = n_rows + 1 \<and> length cols' = n \<and> length vals' = n"
  using assms
proof (induction d arbitrary: rs cols vals)
  case Nil
  then show ?case by simp
next
  case (Cons x d)
  obtain row col coeff where x: "x = ((row, col), coeff)" by (cases x) auto
  from Cons.prems(1) have wf_d:
    "\<forall>x\<in>set d. 0 \<le> fst (fst x) \<and> fst (fst x) < int n_rows
                      \<and> 0 \<le> snd (fst x) \<and> snd (fst x) < 2 ^ 64"
    by simp
  from Cons.prems(1) x have row: "0 \<le> row" "row < int n_rows" and col: "0 \<le> col" "col < 2 ^ 64"
    by auto
  show ?case
  proof (cases "coeff = 0")
    case True
    have J: "\<forall>r<n_rows. rs ! r + count_nonzero (\<lambda>r'. int r \<le> r') d \<le> n"
      using Cons.prems(6) True x by (simp add: count_nonzero_Cons)
    have step0: "place_entries (x # d) (rs, cols, vals) = place_entries d (rs, cols, vals)"
      using True x by simp
    have all_x: "(\<forall>y\<in>set (x # d). - 128 \<le> snd y \<and> snd y \<le> 127)
                   = (\<forall>y\<in>set d. - 128 \<le> snd y \<and> snd y \<le> 127)"
      using True x by simp
    have ex_x: "(\<exists>y\<in>set (x # d). snd y < - 128 \<or> 127 < snd y)
                  = (\<exists>y\<in>set d. snd y < - 128 \<or> 127 < snd y)"
      using True x by auto
    show ?thesis
      unfolding step0 all_x ex_x by (rule Cons.IH [OF wf_d Cons.prems(2,3,4,5) J])
  next
    case False
    let ?r = "nat row"
    let ?index = "rs ! ?r"
    from row have r: "?r < n_rows" "int ?r = row" by auto
    from Cons.prems(6) r have "?index + count_nonzero (\<lambda>r'. int ?r \<le> r') (x # d) \<le> n"
      by blast
    with False x r have idx: "?index + 1 + count_nonzero (\<lambda>r'. int ?r \<le> r') d \<le> n"
      by (simp add: count_nonzero_Cons)
    then have idx_lt: "?index < n" by simp
    with Cons.prems(5) have idx64: "int ?index + 1 < 2 ^ 64" by simp
    show ?thesis
    proof (cases "- 128 \<le> coeff \<and> coeff \<le> 127")
      case False
      then have "to_char coeff = Inl char_overflow" by (simp add: to_char_cases)
      with \<open>coeff \<noteq> 0\<close> row col idx_lt Cons.prems(2,3,4)
      have "place_entries (x # d) (rs, cols, vals) = Inl char_overflow"
        unfolding x by (simp add: c_index_def c_write_def to_size_t_def)
      moreover from False x have "\<exists>y\<in>set (x # d). snd y < - 128 \<or> 127 < snd y"
        by auto
      ultimately show ?thesis by simp
    next
      case True
      let ?rs' = "rs[?r := ?index + 1]"
      let ?cols' = "cols[?index := nat col]"
      let ?vals' = "vals[?index := word_of_int coeff]"
      have step: "place_entries (x # d) (rs, cols, vals) = place_entries d (?rs', ?cols', ?vals')"
        unfolding x using \<open>coeff \<noteq> 0\<close> True row col idx_lt idx64 Cons.prems(2,3,4)
        by (simp add: c_index_def c_write_def to_size_t_def to_char_cases nat_add_distrib)
      have J: "\<forall>r<n_rows. ?rs' ! r + count_nonzero (\<lambda>r'. int r \<le> r') d \<le> n"
      proof (intro allI impI)
        fix q assume q: "q < n_rows"
        show "?rs' ! q + count_nonzero (\<lambda>r'. int q \<le> r') d \<le> n"
        proof (cases "q = ?r")
          case True
          with idx q Cons.prems(2) show ?thesis by simp
        next
          case False
          from Cons.prems(6) q have "rs ! q + count_nonzero (\<lambda>r'. int q \<le> r') (x # d) \<le> n"
            by blast
          then have "rs ! q + count_nonzero (\<lambda>r'. int q \<le> r') d \<le> n"
            by (simp add: count_nonzero_Cons)
          with False show ?thesis by simp
        qed
      qed
      have IH: "case place_entries d (?rs', ?cols', ?vals') of
           Inl e \<Rightarrow> e = char_overflow \<and> (\<exists>x\<in>set d. snd x < - 128 \<or> 127 < snd x)
         | Inr (rs', cols', vals') \<Rightarrow>
             (\<forall>x\<in>set d. - 128 \<le> snd x \<and> snd x \<le> 127)
             \<and> length rs' = n_rows + 1 \<and> length cols' = n \<and> length vals' = n"
        by (rule Cons.IH [OF wf_d _ _ _ Cons.prems(5) J]) (simp_all add: Cons.prems)
      have all_x: "(\<forall>y\<in>set (x # d). - 128 \<le> snd y \<and> snd y \<le> 127)
                   = (\<forall>y\<in>set d. - 128 \<le> snd y \<and> snd y \<le> 127)"
        using True x by simp
      have ex_x: "(\<exists>y\<in>set (x # d). snd y < - 128 \<or> 127 < snd y)
                  = (\<exists>y\<in>set d. snd y < - 128 \<or> 127 < snd y)"
        using True x by auto
      show ?thesis
        unfolding step all_x ex_x by (rule IH)
    qed
  qed
qed

lemma init_from_dict_overflow_isl:
  assumes "\<exists>x\<in>set d. snd x < - 128 \<or> 127 < snd x"
  shows "isl (init_from_dict g1 g2 g3 d n_rows n_cols)"
proof -
  let ?mat = "CMRchrmatCreate n_rows n_cols (length d) g1 g2 g3"
  show ?thesis
  proof (cases "count_rows d (clear_slices n_rows (rowSlice ?mat))")
    case (Inl e)
    then show ?thesis by (simp add: init_from_dict_def Let_def)
  next
    case (Inr rs2)
    from assms have "isl (place_entries d (sum_slices n_rows rs2, entryColumns ?mat, entryValues ?mat))"
      by (rule place_entries_overflow_isl)
    then obtain e where
      "place_entries d (sum_slices n_rows rs2, entryColumns ?mat, entryValues ?mat) = Inl e"
      by (auto simp: isl_def)
    with Inr show ?thesis by (simp add: init_from_dict_def Let_def)
  qed
qed

lemma init_from_dict_result:
  assumes wf: "\<forall>x\<in>set d. 0 \<le> fst (fst x) \<and> fst (fst x) < int n_rows
                      \<and> 0 \<le> snd (fst x) \<and> snd (fst x) < int n_cols"
    and nc: "n_cols < 2 ^ 31" and len: "length d < 2 ^ 64"
  shows "case init_from_dict g1 g2 g3 d n_rows n_cols of
           Inl e \<Rightarrow> e = char_overflow \<and> (\<exists>x\<in>set d. snd x < - 128 \<or> 127 < snd x)
         | Inr m \<Rightarrow> (\<forall>x\<in>set d. - 128 \<le> snd x \<and> snd x \<le> 127)"
proof -
  let ?mat = "CMRchrmatCreate n_rows n_cols (length d) g1 g2 g3"
  let ?rs1 = "clear_slices n_rows (rowSlice ?mat)"
  have len0: "length (rowSlice ?mat) = n_rows + 1"
    by (simp add: CMRchrmatCreate_def)
  then have len1: "length ?rs1 = n_rows + 1" by (simp add: length_clear_slices)
  have zero1: "?rs1 ! k = 0" if "k < n_rows" for k
    using that len0 by (simp add: clear_slices_nth)
  from wf have wf_rows:
    "\<forall>x\<in>set d. snd x \<noteq> 0 \<longrightarrow> 0 \<le> fst (fst x) \<and> fst (fst x) < int n_rows"
    by auto
  from count_rows_bound [OF wf_rows len1] obtain rs2 where
    rs2: "count_rows d ?rs1 = Inr rs2" "length rs2 = n_rows + 1"
      "\<forall>k\<le>n_rows. rs2 ! k \<le> ?rs1 ! k + count_nonzero (\<lambda>r. r + 1 = int k) d"
    by blast
  have at: "rs2 ! k \<le> count_nonzero (\<lambda>r. r + 1 = int k) d" if "k < n_rows" for k
    using rs2(3) zero1 [OF that] that by (metis add_0 less_imp_le)
  let ?B = "\<lambda>k. count_nonzero (\<lambda>r. r < int k) d"
  have b0: "rs2 ! 0 \<le> ?B 0" if "0 < n_rows"
  proof -
    have "count_nonzero (\<lambda>r. r + 1 = int 0) d \<le> ?B 0"
      by (rule count_nonzero_mono) simp
    with at [OF that] show ?thesis by simp
  qed
  have bS: "rs2 ! Suc k + ?B k \<le> ?B (Suc k)" if "Suc k < n_rows" for k
    using at [OF that] count_lt_Suc [of k d] by simp
  have "n_rows \<le> length rs2" using rs2(2) by simp
  from sum_slices_bound [of n_rows rs2 ?B n_rows, OF b0 bS this]
  have rs3: "\<forall>k<n_rows. sum_slices n_rows rs2 ! k \<le> ?B k" by simp
  let ?rs3 = "sum_slices n_rows rs2"
  have J: "\<forall>r<n_rows. ?rs3 ! r + count_nonzero (\<lambda>r'. int r \<le> r') d \<le> length d"
  proof (intro allI impI)
    fix r assume "r < n_rows"
    with rs3 have "?rs3 ! r \<le> ?B r" by simp
    with count_lt_ge [of r d] show "?rs3 ! r + count_nonzero (\<lambda>r'. int r \<le> r') d \<le> length d"
      by simp
  qed
  from wf nc have wf': "\<forall>x\<in>set d. 0 \<le> fst (fst x) \<and> fst (fst x) < int n_rows
                      \<and> 0 \<le> snd (fst x) \<and> snd (fst x) < 2 ^ 64"
    by (auto intro: less_trans)
  have l3: "length ?rs3 = n_rows + 1" using rs2(2) by (simp add: length_sum_slices)
  have lc: "length (entryColumns ?mat) = length d" "length (entryValues ?mat) = length d"
    by (simp_all add: CMRchrmatCreate_def)
  note pe = place_entries_result [OF wf' l3 lc len J]
  show ?thesis
  proof (cases "place_entries d (?rs3, entryColumns ?mat, entryValues ?mat)")
    case (Inl e)
    with pe rs2(1) show ?thesis
      by (simp add: init_from_dict_def Let_def)
  next
    case (Inr st)
    with pe rs2(1) show ?thesis
      by (cases st) (simp add: init_from_dict_def Let_def)
  qed
qed

text \<open>
  Claim C8. Whenever some coefficient of the dictionary lies outside \<open>-128 .. 127\<close>
  the construction fails: no matrix is built, so no value is truncated. When the
  coordinates lie inside the given dimensions (which are C ints, and the dictionary has
  fewer than \<open>2 ^ 64\<close> items), the construction fails exactly when some coefficient
  is out of range, then with \<open>OverflowError: value too large to convert to char\<close>, and
  succeeds for every dictionary whose coefficients are all in range, whatever the
  allocated arrays held before.
\<close>

theorem init_from_dict_overflow:
  "((\<exists>x\<in>set d. snd x < - 128 \<or> 127 < snd x) \<longrightarrow>
       isl (init_from_dict g1 g2 g3 d n_rows n_cols))
   \<and> ((\<forall>x\<in>set d. 0 \<le> fst (fst x) \<and> fst (fst x) < int n_rows
                     \<and> 0 \<le> snd (fst x) \<and> snd (fst x) < int n_cols)
        \<and> n_cols < 2 ^ 31 \<and> length d < 2 ^ 64 \<longrightarrow>
       (case init_from_dict g1 g2 g3 d n_rows n_cols of
          Inl e \<Rightarrow> e = OverflowError ''value too large to convert to char''
                   \<and> (\<exists>x\<in>set d. snd x < - 128 \<or> 127 < snd x)
        | Inr m \<Rightarrow> (\<forall>x\<in>set d. - 128 \<le> snd x \<and> snd x \<le> 127)))"
proof (intro conjI impI)
  assume "\<exists>x\<in>set d. snd x < - 128 \<or> 127 < snd x"
  then show "isl (init_from_dict g1 g2 g3 d n_rows n_cols)"
    by (rule init_from_dict_overflow_isl)
next
  assume "(\<forall>x\<in>set d. 0 \<le> fst (fst x) \<and> fst (fst x) < int n_rows
                     \<and> 0 \<le> snd (fst x) \<and> snd (fst x) < int n_cols)
        \<and> n_cols < 2 ^ 31 \<and> length d < 2 ^ 64"
  then show "case init_from_dict g1 g2 g3 d n_rows n_cols of
          Inl e \<Rightarrow> e = OverflowError ''value too large to convert to char''
                   \<and> (\<exists>x\<in>set d. snd x < - 128 \<or> 127 < snd x)
        | Inr m \<Rightarrow> (\<forall>x\<in>set d. - 128 \<le> snd x \<and> snd x \<le> 127)"
    using init_from_dict_result [of d n_rows n_cols g1 g2 g3, unfolded char_overflow_def]
    by blast
qed

text \<open>
  The two matrices of the class docstring: \<open>[126, 127, 128]\<close> raises OverflowError,
  \<open>[-128, 0, 127]\<close> is built.
\<close>

theorem init_from_dict_overflow_witness:
  "init_from_dict (\<lambda>i. 0) (\<lambda>i. 0) (\<lambda>i. 0) [((0, 0), 126), ((0, 1), 127), ((0, 2), 128)] 1 3
     = Inl (OverflowError ''value too large to convert to char'')
   \<and> \<not> isl (init_from_dict (\<lambda>i. 0) (\<lambda>i. 0) (\<lambda>i. 0)
              [((0, 0), - 128), ((0, 1), 0), ((0, 2), 127)] 1 3)"
proof -
  note a = init_from_dict_overflow
    [of "[((0, 0), 126), ((0, 1), 127), ((0, 2), 128)]" "\<lambda>i. 0" "\<lambda>i. 0" "\<lambda>i. 0" 1 3]
  note b = init_from_dict_overflow
    [of "[((0, 0), - 128), ((0, 1), 0), ((0, 2), 127)]" "\<lambda>i. 0" "\<lambda>i. 0" "\<lambda>i. 0" 1 3]
  have 1: "init_from_dict (\<lambda>i. 0) (\<lambda>i. 0) (\<lambda>i. 0)
             [((0, 0), 126), ((0, 1), 127), ((0, 2), 128)] 1 3
           = Inl (OverflowError ''value too large to convert to char'')"
    using a
    by (cases "init_from_dict (\<lambda>i. 0) (\<lambda>i. 0) (\<lambda>i. 0)
                 [((0, 0), 126), ((0, 1), 127), ((0, 2), 128)] 1 3") simp_all
  have 2: "\<not> isl (init_from_dict (\<lambda>i. 0) (\<lambda>i. 0) (\<lambda>i. 0)
              [((0, 0), - 128), ((0, 1), 0), ((0, 2), 127)] 1 3)"
    using b
    by (cases "init_from_dict (\<lambda>i. 0) (\<lambda>i. 0) (\<lambda>i. 0)
                 [((0, 0), - 128), ((0, 1), 0), ((0, 2), 127)] 1 3") simp_all
  from 1 2 show ?thesis by simp
qed

subsection \<open>Keys of the children of a 3-sum node\<close>

lemma create_DecompositionNode_keys:
  assumes "create_DecompositionNode T (Some d) r (Some rk) (Some ck) = Inr c"
  shows "\<exists>n. c = Some n \<and> self_dec n = d \<and> self_root n = r
             \<and> self_row_keys n = Some rk \<and> self_column_keys n = Some ck"
  using assms
  by (auto simp: create_DecompositionNode_def Let_def set_row_keys_def set_column_keys_def
      split: option.splits sum.splits if_splits)

lemma to_size_t_Inr: "to_size_t i = Inr n \<Longrightarrow> 0 \<le> i \<and> n = nat i"
  by (auto simp: to_size_t_def split: if_splits)

lemma find_epsilon_same:
  assumes "find_epsilon m m r c = Inr eps"
  shows "0 \<le> r \<and> 0 \<le> c \<and> (\<exists>mat. m = Some mat \<and> get_unsafe mat (nat r) (nat c) = Inr eps)"
proof -
  from assms obtain r' c' where rc: "to_size_t r = Inr r'" "to_size_t c = Inr c'"
    by (auto simp: find_epsilon_def split: sum.splits)
  then have nn: "0 \<le> r" "0 \<le> c" "r' = nat r" "c' = nat c"
    by (auto dest: to_size_t_Inr)
  from assms rc obtain mat where mat: "m = Some mat"
    by (cases m) (auto simp: find_epsilon_def CMRchrmatFindEntry_def)
  from assms rc nn mat have "get_unsafe mat (nat r) (nat c) = Inr eps"
    by (auto simp: find_epsilon_def get_unsafe_def split: sum.splits option.splits)
  with nn mat show ?thesis by simp
qed

lemma find_epsilon_other:
  assumes "find_epsilon m m' r c = Inr eps"
  shows "eps = 0 \<or> (\<exists>mat' index. m' = Some mat' \<and> index < length (entryValues mat')
                       \<and> eps = sint (entryValues mat' ! index))"
  using assms
  by (auto simp: find_epsilon_def c_read_def split: sum.splits option.splits if_splits)

lemma py_getitem_nonneg:
  "py_getitem xs i = Inr x \<Longrightarrow> 0 \<le> i \<Longrightarrow> nat i < length xs \<and> x = xs ! nat i"
  by (auto simp: py_getitem_def split: if_splits)

lemma composed_key_Inr:
  assumes "composed_key s1 seq1 i1 s2 seq2 i2 = Inr k"
  shows "\<exists>l1 l2. py_getitem seq1 i1 = Inr l1 \<and> py_getitem seq2 i2 = Inr l2
           \<and> k = PKey {|PTuple [PInt s1, l1], PTuple [PInt s2, l2]|}"
  using assms
  by (auto simp: composed_key_def ElementKey_init_def as_pyval_def split: sum.splits)

lemma child1_keys_wide:
  assumes "child1_keys self d1 rk ck = Inr (rk1, ck1)"
    and "\<not> CMRmatroiddecThreeSumConcentratedRank (self_dec self)"
  shows "keys_of_elements self (CMRmatroiddecRowsParent d1) 0 (CMRmatroiddecNumRows d1) = Inr rk1
    \<and> 0 < CMRmatroiddecNumRows d1 \<and> 0 < CMRmatroiddecNumColumns d1
    \<and> CMRmatroiddecNumRows d1 - 1 < length rk \<and> CMRmatroiddecNumColumns d1 - 1 < length ck
    \<and> (\<exists>own mat1 sign.
          keys_of_elements self (CMRmatroiddecColumnsParent d1) 0
              (CMRmatroiddecNumColumns d1 - 1) = Inr own
          \<and> CMRmatroiddecGetMatrix d1 = Some mat1
          \<and> get_unsafe mat1 (CMRmatroiddecNumRows d1 - 1) (CMRmatroiddecNumColumns d1 - 1)
              = Inr sign
          \<and> ck1 = own @ [PKey {|PTuple [PInt 1, ck ! (CMRmatroiddecNumColumns d1 - 1)],
                                 PTuple [PInt sign, rk ! (CMRmatroiddecNumRows d1 - 1)]|}])"
proof -
  let ?nr = "CMRmatroiddecNumRows d1" and ?nc = "CMRmatroiddecNumColumns d1"
  let ?m = "CMRmatroiddecGetMatrix d1"
  from assms obtain own eps k where
    rows: "keys_of_elements self (CMRmatroiddecRowsParent d1) 0 ?nr = Inr rk1"
    and own: "keys_of_elements self (CMRmatroiddecColumnsParent d1) 0 (nat (int ?nc - 1)) = Inr own"
    and eps: "find_epsilon ?m ?m (int ?nr - 1) (int ?nc - 1) = Inr eps"
    and k: "composed_key 1 ck (int ?nc - 1) eps rk (int ?nr - 1) = Inr k"
    and ck1: "ck1 = own @ [k]"
    by (auto simp: child1_keys_def Let_def split: sum.splits)
  from find_epsilon_same [OF eps] obtain mat1 where
    nn: "0 \<le> int ?nr - 1" "0 \<le> int ?nc - 1" and mat1: "?m = Some mat1"
    and g: "get_unsafe mat1 (nat (int ?nr - 1)) (nat (int ?nc - 1)) = Inr eps"
    by auto
  from nn have pos: "0 < ?nr" "0 < ?nc" by auto
  then have conv: "nat (int ?nr - 1) = ?nr - 1" "nat (int ?nc - 1) = ?nc - 1" by auto
  from composed_key_Inr [OF k] obtain l1 l2 where
    l: "py_getitem ck (int ?nc - 1) = Inr l1" "py_getitem rk (int ?nr - 1) = Inr l2"
       "k = PKey {|PTuple [PInt 1, l1], PTuple [PInt eps, l2]|}"
    by auto
  from py_getitem_nonneg [OF l(1) nn(2)] py_getitem_nonneg [OF l(2) nn(1)] conv
  have idx: "?nc - 1 < length ck" "l1 = ck ! (?nc - 1)" "?nr - 1 < length rk" "l2 = rk ! (?nr - 1)"
    by auto
  from rows pos idx own mat1 g conv ck1 l(3) show ?thesis by auto
qed

lemma child2_keys_wide:
  assumes "child2_keys self d1 d2 rk ck = Inr (rk2, ck2)"
    and "\<not> CMRmatroiddecThreeSumConcentratedRank (self_dec self)"
  shows "keys_of_elements self (CMRmatroiddecRowsParent d2) 0 (CMRmatroiddecNumRows d2) = Inr rk2
    \<and> 1 < length ck \<and> 0 < length rk
    \<and> (\<exists>own sign.
          keys_of_elements self (CMRmatroiddecColumnsParent d2) 1
              (CMRmatroiddecNumColumns d2) = Inr own
          \<and> ck2 = PKey {|PTuple [PInt 1, ck ! 1], PTuple [PInt sign, rk ! 0]|} # own)"
proof -
  from assms obtain own eps k where
    rows: "keys_of_elements self (CMRmatroiddecRowsParent d2) 0 (CMRmatroiddecNumRows d2) = Inr rk2"
    and own: "keys_of_elements self (CMRmatroiddecColumnsParent d2) 1
                (CMRmatroiddecNumColumns d2) = Inr own"
    and k: "composed_key 1 ck 1 eps rk 0 = Inr k"
    and ck2: "ck2 = k # own"
    by (auto simp: child2_keys_def Let_def split: sum.splits)
  from composed_key_Inr [OF k] obtain l1 l2 where
    l: "py_getitem ck 1 = Inr l1" "py_getitem rk 0 = Inr l2"
       "k = PKey {|PTuple [PInt 1, l1], PTuple [PInt eps, l2]|}"
    by auto
  from py_getitem_nonneg [OF l(1)] py_getitem_nonneg [OF l(2)]
  have "1 < length ck" "l1 = ck ! 1" "0 < length rk" "l2 = rk ! 0" by auto
  with rows own ck2 l(3) show ?thesis by auto
qed

lemma ThreeSumNode_children_keyed:
  assumes "ThreeSumNode_children T self = Inr (c1, c2)"
    and "row_keys self = Some rk" and "column_keys self = Some ck"
  shows "\<exists>d1 d2 n1 n2 rk1 ck1 rk2 ck2.
           CMRmatroiddecChildren (self_dec self) = [Some d1, Some d2]
           \<and> c1 = Some n1 \<and> c2 = Some n2
           \<and> self_dec n1 = d1 \<and> self_dec n2 = d2
           \<and> child1_keys self d1 rk ck = Inr (rk1, ck1)
           \<and> child2_keys self d1 d2 rk ck = Inr (rk2, ck2)
           \<and> self_row_keys n1 = Some rk1 \<and> self_column_keys n1 = Some ck1
           \<and> self_row_keys n2 = Some rk2 \<and> self_column_keys n2 = Some ck2"
proof -
  let ?ds = "CMRmatroiddecChildren (self_dec self)"
  from assms(1) have n2: "length ?ds = 2"
    by (auto simp: ThreeSumNode_children_def nchildren_def CMRmatroiddecNumChildren_def
        split: if_splits)
  from assms(1) n2 obtain d1 d2 where d: "?ds ! 0 = Some d1" "?ds ! 1 = Some d2"
    by (auto simp: ThreeSumNode_children_def CMRmatroiddecChild_def
        split: if_splits option.splits)
  from n2 d have ds: "?ds = [Some d1, Some d2]"
    by (cases ?ds; cases "tl ?ds") auto
  then have ch: "CMRmatroiddecChild (self_dec self) 0 = Some d1"
    "CMRmatroiddecChild (self_dec self) 1 = Some d2"
    by (simp_all add: CMRmatroiddecChild_def)
  from assms n2 ch obtain rk1 ck1 rk2 ck2 where
    k1: "child1_keys self d1 rk ck = Inr (rk1, ck1)"
    and c1: "create_DecompositionNode T (Some d1) (Some (root_or_self self))
               (Some rk1) (Some ck1) = Inr c1"
    and k2: "child2_keys self d1 d2 rk ck = Inr (rk2, ck2)"
    and c2: "create_DecompositionNode T (Some d2) (Some (root_or_self self))
               (Some rk2) (Some ck2) = Inr c2"
    by (auto simp: ThreeSumNode_children_def nchildren_def CMRmatroiddecNumChildren_def
        split: sum.splits prod.splits)
  from create_DecompositionNode_keys [OF c1] create_DecompositionNode_keys [OF c2]
    ds k1 k2 show ?thesis by auto
qed

lemmas three_sum_eval =
  ThreeSumNode_children_def child1_keys_def child2_keys_def keys_of_elements_def
  CMRelement_to_key_def CMRelementIsValid_def CMRelementIsRow_def CMRelementToRowIndex_def
  CMRelementToColumnIndex_def py_getitem_def c_read_def ElementKey_init_def as_pyval_def
  find_epsilon_def to_size_t_def CMRchrmatFindEntry_def composed_key_def
  create_DecompositionNode_def dec_class_def set_row_keys_def set_column_keys_def
  nrows_def ncols_def nchildren_def CMRmatroiddecNumChildren_def CMRmatroiddecChild_def
  row_keys_def column_keys_def root_or_self_def example_types_def Let_def

lemma upt_examples: "[0..<4] = [0, 1, 2, 3]" "[Suc 0..<5] = [1, 2, 3, 4]" "[Suc 0..<4] = [1, 2, 3]"
  "[0..<5] = [0, 1, 2, 3, 4]" "[0..<3] = [0, 1, 2]" "[0..<2] = [0, 1]"
  "[9..<12] = [9, 10, 11]" "[6..<9] = [6, 7, 8]" "[3..<6] = [3, 4, 5]" "[2..<5] = [2, 3, 4]"
  by (simp_all add: upt_rec)

lemma wide_example_children:
  "ThreeSumNode_children example_types wide_example =
     Inr (Some wide_expected_child1, Some wide_expected_child2)"
  by (simp add: three_sum_eval wide_example_def wide_child1_def wide_child2_def wide_mat1_def
      wide_mat2_def upt_examples wide_expected_child1_def wide_expected_child2_def)

lemma mixed_example_children:
  "ThreeSumNode_children example_types (mixed_example (- 1)) =
     Inr (Some (mixed_expected_child1 (- 1)), Some (mixed_expected_child2 (- 1) (- 1)))"
  "ThreeSumNode_children example_types (mixed_example 1) =
     Inr (Some (mixed_expected_child1 1), Some (mixed_expected_child2 1 1))"
  by (simp_all add: three_sum_eval mixed_example_def mixed_child1_def mixed_child2_def
      mixed_mat1_def mixed_mat2_def upt_examples mixed_expected_child1_def
      mixed_expected_child2_def)

lemma mixed_mat2_entries:
  "get_unsafe mixed_mat2 0 0 = Inr 1" "get_unsafe mixed_mat2 0 1 = Inr 1"
  by (simp_all add: get_unsafe_def CMRchrmatFindEntry_def mixed_mat2_def c_read_def upt_examples)

lemma wide_mat_entries:
  "get_unsafe wide_mat1 3 4 = Inr 1" "get_unsafe wide_mat2 0 0 = Inr 1"
  by (simp_all add: get_unsafe_def CMRchrmatFindEntry_def wide_mat1_def wide_mat2_def
      c_read_def upt_examples)

text \<open>
  Claim C1, as the code has it, for a 3-sum node with distributed ranks whose row keys
  \<open>R\<close> and column keys \<open>C\<close> are set and whose children are enumerated without an
  error. Child 1 keeps all of its own row keys (the keys of its parent elements) and
  all of its own column keys but the last, which is the composed key
  \<open>(+1, C[n - 1], sign, R[m - 1])\<close> for the \<open>m\<close> rows and \<open>n\<close> columns of child 1, where
  \<open>sign\<close> is the entry of child 1's own matrix in its last row and last column, 0 when
  that entry is absent. Child 2 keeps all of its own row keys and all of its own column
  keys but the first, which is a composed key \<open>(+1, C[1], sign, R[0])\<close>. Which sign the
  code stores for child 2 is left open here.
\<close>

theorem ThreeSumNode_children_wide:
  "ThreeSumNode_children T self = Inr (c1, c2)
   \<and> row_keys self = Some R \<and> column_keys self = Some C
   \<and> \<not> CMRmatroiddecThreeSumConcentratedRank (self_dec self) \<longrightarrow>
   (\<exists>d1 d2 n1 n2 mat1 sign1 sign2 own_rows1 own_columns1 own_rows2 own_columns2.
      CMRmatroiddecChildren (self_dec self) = [Some d1, Some d2]
      \<and> c1 = Some n1 \<and> c2 = Some n2 \<and> self_dec n1 = d1 \<and> self_dec n2 = d2
      \<and> keys_of_elements self (CMRmatroiddecRowsParent d1) 0 (CMRmatroiddecNumRows d1)
          = Inr own_rows1
      \<and> self_row_keys n1 = Some own_rows1
      \<and> keys_of_elements self (CMRmatroiddecColumnsParent d1) 0
          (CMRmatroiddecNumColumns d1 - 1) = Inr own_columns1
      \<and> 0 < CMRmatroiddecNumRows d1 \<and> CMRmatroiddecNumRows d1 - 1 < length R
      \<and> 0 < CMRmatroiddecNumColumns d1 \<and> CMRmatroiddecNumColumns d1 - 1 < length C
      \<and> CMRmatroiddecGetMatrix d1 = Some mat1
      \<and> get_unsafe mat1 (CMRmatroiddecNumRows d1 - 1) (CMRmatroiddecNumColumns d1 - 1)
          = Inr sign1
      \<and> self_column_keys n1 =
          Some (own_columns1 @
                [PKey {|PTuple [PInt 1, C ! (CMRmatroiddecNumColumns d1 - 1)],
                        PTuple [PInt sign1, R ! (CMRmatroiddecNumRows d1 - 1)]|}])
      \<and> keys_of_elements self (CMRmatroiddecRowsParent d2) 0 (CMRmatroiddecNumRows d2)
          = Inr own_rows2
      \<and> self_row_keys n2 = Some own_rows2
      \<and> keys_of_elements self (CMRmatroiddecColumnsParent d2) 1 (CMRmatroiddecNumColumns d2)
          = Inr own_columns2
      \<and> 1 < length C \<and> 0 < length R
      \<and> self_column_keys n2 =
          Some (PKey {|PTuple [PInt 1, C ! 1], PTuple [PInt sign2, R ! 0]|} # own_columns2))"
proof
  assume a: "ThreeSumNode_children T self = Inr (c1, c2)
   \<and> row_keys self = Some R \<and> column_keys self = Some C
   \<and> \<not> CMRmatroiddecThreeSumConcentratedRank (self_dec self)"
  then obtain d1 d2 n1 n2 rk1 ck1 rk2 ck2 where
    b: "CMRmatroiddecChildren (self_dec self) = [Some d1, Some d2]"
       "c1 = Some n1" "c2 = Some n2" "self_dec n1 = d1" "self_dec n2 = d2"
       "child1_keys self d1 R C = Inr (rk1, ck1)"
       "child2_keys self d1 d2 R C = Inr (rk2, ck2)"
       "self_row_keys n1 = Some rk1" "self_column_keys n1 = Some ck1"
       "self_row_keys n2 = Some rk2" "self_column_keys n2 = Some ck2"
  proof -
    from a have a1: "ThreeSumNode_children T self = Inr (c1, c2)"
      and a2: "row_keys self = Some R" and a3: "column_keys self = Some C" by simp_all
    from ThreeSumNode_children_keyed [OF a1 a2 a3] show ?thesis
      by (elim exE conjE) (rule that; assumption)
  qed
  from a have wide: "\<not> CMRmatroiddecThreeSumConcentratedRank (self_dec self)" by simp
  note k1 = child1_keys_wide [OF b(6) wide]
  note k2 = child2_keys_wide [OF b(7) wide]
  from k1 [THEN conjunct2, THEN conjunct2, THEN conjunct2, THEN conjunct2, THEN conjunct2]
  obtain own1 mat1 sign1 where
    o1: "keys_of_elements self (CMRmatroiddecColumnsParent d1) 0
              (CMRmatroiddecNumColumns d1 - 1) = Inr own1"
        "CMRmatroiddecGetMatrix d1 = Some mat1"
        "get_unsafe mat1 (CMRmatroiddecNumRows d1 - 1) (CMRmatroiddecNumColumns d1 - 1)
              = Inr sign1"
        "ck1 = own1 @ [PKey {|PTuple [PInt 1, C ! (CMRmatroiddecNumColumns d1 - 1)],
                              PTuple [PInt sign1, R ! (CMRmatroiddecNumRows d1 - 1)]|}]"
    by (elim exE conjE) (rule that; assumption)
  from k2 [THEN conjunct2, THEN conjunct2, THEN conjunct2]
  obtain own2 sign2 where
    o2: "keys_of_elements self (CMRmatroiddecColumnsParent d2) 1
              (CMRmatroiddecNumColumns d2) = Inr own2"
        "ck2 = PKey {|PTuple [PInt 1, C ! 1], PTuple [PInt sign2, R ! 0]|} # own2"
    by (elim exE conjE) (rule that; assumption)
  have f1: "self_column_keys n1 =
          Some (own1 @
                [PKey {|PTuple [PInt 1, C ! (CMRmatroiddecNumColumns d1 - 1)],
                        PTuple [PInt sign1, R ! (CMRmatroiddecNumRows d1 - 1)]|}])"
    using b(9) o1(4) by simp
  have f2: "self_column_keys n2 =
          Some (PKey {|PTuple [PInt 1, C ! 1], PTuple [PInt sign2, R ! 0]|} # own2)"
    using b(11) o2(2) by simp
  from k1 have g1:
    "keys_of_elements self (CMRmatroiddecRowsParent d1) 0 (CMRmatroiddecNumRows d1) = Inr rk1"
    "0 < CMRmatroiddecNumRows d1" "0 < CMRmatroiddecNumColumns d1"
    "CMRmatroiddecNumRows d1 - 1 < length R" "CMRmatroiddecNumColumns d1 - 1 < length C"
    by simp_all
  from k2 have g2:
    "keys_of_elements self (CMRmatroiddecRowsParent d2) 0 (CMRmatroiddecNumRows d2) = Inr rk2"
    "1 < length C" "0 < length R"
    by simp_all
  from b(1-5) b(8) b(10) f1 f2 g1 g2 o1(1-3) o2(1)
  show "\<exists>d1 d2 n1 n2 mat1 sign1 sign2 own_rows1 own_columns1 own_rows2 own_columns2.
      CMRmatroiddecChildren (self_dec self) = [Some d1, Some d2]
      \<and> c1 = Some n1 \<and> c2 = Some n2 \<and> self_dec n1 = d1 \<and> self_dec n2 = d2
      \<and> keys_of_elements self (CMRmatroiddecRowsParent d1) 0 (CMRmatroiddecNumRows d1)
          = Inr own_rows1
      \<and> self_row_keys n1 = Some own_rows1
      \<and> keys_of_elements self (CMRmatroiddecColumnsParent d1) 0
          (CMRmatroiddecNumColumns d1 - 1) = Inr own_columns1
      \<and> 0 < CMRmatroiddecNumRows d1 \<and> CMRmatroiddecNumRows d1 - 1 < length R
      \<and> 0 < CMRmatroiddecNumColumns d1 \<and> CMRmatroiddecNumColumns d1 - 1 < length C
      \<and> CMRmatroiddecGetMatrix d1 = Some mat1
      \<and> get_unsafe mat1 (CMRmatroiddecNumRows d1 - 1) (CMRmatroiddecNumColumns d1 - 1)
          = Inr sign1
      \<and> self_column_keys n1 =
          Some (own_columns1 @
                [PKey {|PTuple [PInt 1, C ! (CMRmatroiddecNumColumns d1 - 1)],
                        PTuple [PInt sign1, R ! (CMRmatroiddecNumRows d1 - 1)]|}])
      \<and> keys_of_elements self (CMRmatroiddecRowsParent d2) 0 (CMRmatroiddecNumRows d2)
          = Inr own_rows2
      \<and> self_row_keys n2 = Some own_rows2
      \<and> keys_of_elements self (CMRmatroiddecColumnsParent d2) 1 (CMRmatroiddecNumColumns d2)
          = Inr own_columns2
      \<and> 1 < length C \<and> 0 < length R
      \<and> self_column_keys n2 =
          Some (PKey {|PTuple [PInt 1, C ! 1], PTuple [PInt sign2, R ! 0]|} # own_columns2)"
    by (intro exI [of _ d1] exI [of _ d2] exI [of _ n1] exI [of _ n2] exI [of _ mat1]
        exI [of _ sign1] exI [of _ sign2] exI [of _ rk1] exI [of _ own1] exI [of _ rk2]
        exI [of _ own2] conjI) assumption+
qed

lemma wide_own_keys:
  "keys_of_elements wide_example (CMRmatroiddecRowsParent wide_child2) 0 4
     = Inr [PKey {|PInt 0|}, PKey {|PInt 2|}, PKey {|PInt 3|}, PKey {|PInt 5|}]"
  by (simp add: three_sum_eval wide_example_def wide_child2_def upt_examples)

text \<open>The \<open>Wide_Wide\<close> node of the doctest satisfies the hypotheses.\<close>

theorem ThreeSumNode_children_wide_witness:
  "\<exists>d1 d2 n1 n2 mat1 sign1 sign2 own_rows1 own_columns1 own_rows2 own_columns2.
      CMRmatroiddecChildren (self_dec wide_example) = [Some d1, Some d2]
      \<and> Some wide_expected_child1 = Some n1 \<and> Some wide_expected_child2 = Some n2
      \<and> self_dec n1 = d1 \<and> self_dec n2 = d2
      \<and> keys_of_elements wide_example (CMRmatroiddecRowsParent d1) 0 (CMRmatroiddecNumRows d1)
          = Inr own_rows1
      \<and> self_row_keys n1 = Some own_rows1
      \<and> keys_of_elements wide_example (CMRmatroiddecColumnsParent d1) 0
          (CMRmatroiddecNumColumns d1 - 1) = Inr own_columns1
      \<and> 0 < CMRmatroiddecNumRows d1
      \<and> CMRmatroiddecNumRows d1 - 1
          < length [PInt 0, PInt 1, PInt 2, PInt 3, PStr ''a'', PInt 5]
      \<and> 0 < CMRmatroiddecNumColumns d1
      \<and> CMRmatroiddecNumColumns d1 - 1
          < length [PInt 4, PStr ''b'', PStr ''c'', PStr ''d'', PStr ''e'', PStr ''f'']
      \<and> CMRmatroiddecGetMatrix d1 = Some mat1
      \<and> get_unsafe mat1 (CMRmatroiddecNumRows d1 - 1) (CMRmatroiddecNumColumns d1 - 1)
          = Inr sign1
      \<and> self_column_keys n1 =
          Some (own_columns1 @
                [PKey {|PTuple [PInt 1,
                          [PInt 4, PStr ''b'', PStr ''c'', PStr ''d'', PStr ''e'', PStr ''f'']
                            ! (CMRmatroiddecNumColumns d1 - 1)],
                        PTuple [PInt sign1,
                          [PInt 0, PInt 1, PInt 2, PInt 3, PStr ''a'', PInt 5]
                            ! (CMRmatroiddecNumRows d1 - 1)]|}])
      \<and> keys_of_elements wide_example (CMRmatroiddecRowsParent d2) 0 (CMRmatroiddecNumRows d2)
          = Inr own_rows2
      \<and> self_row_keys n2 = Some own_rows2
      \<and> keys_of_elements wide_example (CMRmatroiddecColumnsParent d2) 1
          (CMRmatroiddecNumColumns d2) = Inr own_columns2
      \<and> 1 < length [PInt 4, PStr ''b'', PStr ''c'', PStr ''d'', PStr ''e'', PStr ''f'']
      \<and> 0 < length [PInt 0, PInt 1, PInt 2, PInt 3, PStr ''a'', PInt 5]
      \<and> self_column_keys n2 =
          Some (PKey {|PTuple [PInt 1,
                         [PInt 4, PStr ''b'', PStr ''c'', PStr ''d'', PStr ''e'', PStr ''f''] ! 1],
                       PTuple [PInt sign2,
                         [PInt 0, PInt 1, PInt 2, PInt 3, PStr ''a'', PInt 5] ! 0]|}
                # own_columns2)"
proof -
  have "ThreeSumNode_children example_types wide_example
          = Inr (Some wide_expected_child1, Some wide_expected_child2)
        \<and> row_keys wide_example = Some [PInt 0, PInt 1, PInt 2, PInt 3, PStr ''a'', PInt 5]
        \<and> column_keys wide_example
            = Some [PInt 4, PStr ''b'', PStr ''c'', PStr ''d'', PStr ''e'', PStr ''f'']
        \<and> \<not> CMRmatroiddecThreeSumConcentratedRank (self_dec wide_example)"
    by (simp add: wide_example_children)
       (simp add: row_keys_def column_keys_def wide_example_def)
  then show ?thesis
    by (rule ThreeSumNode_children_wide [THEN mp])
qed

text \<open>
  Claim C1 as stated fails at the \<open>Wide_Wide\<close> node of the doctest: the row keys of
  child 2 are the keys of its four parent rows, the first of them \<open>0\<close> and no composed
  key, and its first column key is not the key of a parent column but the composed key
  \<open>+b+0\<close>, as the doctest prints: \<open>((0, 2, 3, 5), (+b+0, d, 4, e, f))\<close>.
\<close>

theorem ThreeSumNode_children_wide_counterexample:
  "ThreeSumNode_children example_types wide_example =
     Inr (Some wide_expected_child1, Some wide_expected_child2)
   \<and> \<not> CMRmatroiddecThreeSumConcentratedRank (self_dec wide_example)
   \<and> get_unsafe wide_mat2 0 0 = Inr 1
   \<and> keys_of_elements wide_example (CMRmatroiddecRowsParent wide_child2) 0 4
       = Inr [PKey {|PInt 0|}, PKey {|PInt 2|}, PKey {|PInt 3|}, PKey {|PInt 5|}]
   \<and> self_row_keys wide_expected_child2
       = Some [PKey {|PInt 0|}, PKey {|PInt 2|}, PKey {|PInt 3|}, PKey {|PInt 5|}]
   \<and> PKey {|PInt 0|} \<noteq> PKey {|PTuple [PInt 1, PStr ''b''], PTuple [PInt 1, PInt 0]|}
   \<and> self_column_keys wide_expected_child2
       = Some [PKey {|PTuple [PInt 1, PStr ''b''], PTuple [PInt 1, PInt 0]|},
               PKey {|PStr ''d''|}, PKey {|PInt 4|}, PKey {|PStr ''e''|}, PKey {|PStr ''f''|}]"
proof -
  have "\<not> CMRmatroiddecThreeSumConcentratedRank (self_dec wide_example)"
    by (simp add: wide_example_def)
  moreover have "PKey {|PInt 0|} \<noteq> PKey {|PTuple [PInt 1, PStr ''b''], PTuple [PInt 1, PInt 0]|}"
    by (auto simp: fset_eq_iff)
  moreover have "self_row_keys wide_expected_child2
       = Some [PKey {|PInt 0|}, PKey {|PInt 2|}, PKey {|PInt 3|}, PKey {|PInt 5|}]"
    "self_column_keys wide_expected_child2
       = Some [PKey {|PTuple [PInt 1, PStr ''b''], PTuple [PInt 1, PInt 0]|},
               PKey {|PStr ''d''|}, PKey {|PInt 4|}, PKey {|PStr ''e''|}, PKey {|PStr ''f''|}]"
    by (simp_all add: wide_expected_child2_def)
  ultimately show ?thesis
    using wide_example_children wide_mat_entries(2) wide_own_keys by blast
qed

text \<open>
  Claim C2 against the code. The \<open>Mixed_Mixed\<close> node of the doctest, with the first row
  of the first child's matrix negated: the entries \<open>(0, 0)\<close> and \<open>(0, 1)\<close> of the second
  child's own matrix are both \<open>1\<close>, and the composed first row key of the second child
  carries the signs \<open>-1\<close>, \<open>-1\<close>, the values at the same positions of the value array
  of the first child's matrix.
\<close>

theorem ThreeSumNode_children_mixed_sign:
  "ThreeSumNode_children example_types (mixed_example (- 1)) =
     Inr (Some (mixed_expected_child1 (- 1)), Some (mixed_expected_child2 (- 1) (- 1)))
   \<and> CMRmatroiddecThreeSumConcentratedRank (self_dec (mixed_example (- 1)))
   \<and> CMRmatroiddecGetMatrix (self_dec (mixed_expected_child2 (- 1) (- 1))) = Some mixed_mat2
   \<and> get_unsafe mixed_mat2 0 0 = Inr 1
   \<and> get_unsafe mixed_mat2 0 1 = Inr 1
   \<and> self_row_keys (mixed_expected_child2 (- 1) (- 1))
       = Some [PKey {|PTuple [PInt (- 1), PStr ''a''], PTuple [PInt (- 1), PStr ''b'']|},
               PKey {|PInt 2|}, PKey {|PInt 3|}, PKey {|PInt 4|}, PKey {|PInt 5|}]
   \<and> PKey {|PTuple [PInt (- 1), PStr ''a''], PTuple [PInt (- 1), PStr ''b'']|}
       \<noteq> PKey {|PTuple [PInt 1, PStr ''a''], PTuple [PInt 1, PStr ''b'']|}"
proof -
  have "CMRmatroiddecThreeSumConcentratedRank (self_dec (mixed_example (- 1)))"
    by (simp add: mixed_example_def)
  moreover have "CMRmatroiddecGetMatrix (self_dec (mixed_expected_child2 (- 1) (- 1)))
                   = Some mixed_mat2"
    by (simp add: mixed_expected_child2_def mixed_child2_def)
  moreover have "self_row_keys (mixed_expected_child2 (- 1) (- 1))
       = Some [PKey {|PTuple [PInt (- 1), PStr ''a''], PTuple [PInt (- 1), PStr ''b'']|},
               PKey {|PInt 2|}, PKey {|PInt 3|}, PKey {|PInt 4|}, PKey {|PInt 5|}]"
    by (simp add: mixed_expected_child2_def)
  moreover have "PKey {|PTuple [PInt (- 1), PStr ''a''], PTuple [PInt (- 1), PStr ''b'']|}
       \<noteq> PKey {|PTuple [PInt 1, PStr ''a''], PTuple [PInt 1, PStr ''b'']|}"
    by (simp add: fdoubleton_eq_iff)
  ultimately show ?thesis
    using mixed_example_children(1) mixed_mat2_entries by blast
qed

subsection \<open>Permutation normal form\<close>

text \<open>
  The example of the docstring: for the pairing matrix with 3 on the diagonal the
  result is the matrix itself, with the six pairs of permutations that the docstring
  prints: \<open>(1,2,3)\<close>, \<open>(1,3,2)\<close>, \<open>(1,3)\<close>, \<open>(1,2)\<close>, \<open>()\<close>, \<open>(2,3)\<close>, each for the rows
  and for the columns.
\<close>

lemma palp_PM_max_docstring:
  "palp_PM_max [[3, 0, 0], [0, 3, 0], [0, 0, 3]] =
     Inr ([[3, 0, 0], [0, 3, 0], [0, 0, 3]],
          [(0, [1, 2, 0], [1, 2, 0]), (1, [2, 0, 1], [2, 0, 1]),
           (2, [2, 1, 0], [2, 1, 0]), (3, [1, 0, 2], [1, 0, 2]),
           (4, [0, 1, 2], [0, 1, 2]), (5, [0, 2, 1], [0, 2, 1])])"
  by code_simp

text \<open>
  The square, the pairing matrix of the cross polytope of the docstring's first example:
  eight pairs of permutations keep the result.
\<close>

lemma palp_PM_max_square:
  "map_sum id (\<lambda>r. (fst r, length (snd r)))
     (palp_PM_max [[2, 0, 0, 2], [0, 2, 2, 0], [2, 2, 0, 0], [0, 0, 2, 2]]) =
   Inr ([[2, 2, 0, 0], [2, 0, 2, 0], [0, 2, 0, 2], [0, 0, 2, 2]], 8)"
  by code_simp

text \<open>
  Claim C6: the permutation normal form is a canonical form, that is, the normal form
  of a normal form is the same matrix, and a matrix and any matrix that comes from it
  by permuting rows and columns have the same normal form.

  \<open>_palp_PM_max\<close> does not compute such a form. Line 84 looks for the largest of the
  remaining entries of row 0 in the matrix as it was given, \<open>PM[0, i]\<close>, not in the row
  as the exchanges made so far have left it (line 93, for the other rows, reads through
  the permutation), so that row 0 need not end sorted. For \<open>quad\<close> the first row of
  the result is \<open>4 0 2 0\<close>, which is not the largest arrangement \<open>4 2 0 0\<close>; the normal
  form of the result is another matrix; and \<open>quad'\<close>, which is \<open>quad\<close> with columns 0
  and 2 exchanged, has another normal form than \<open>quad\<close>. The smallest case is one row,
  \<open>1 3 2\<close>.
\<close>

theorem palp_PM_max_not_canonical:
  "normal_form quad = Inr [[4, 0, 2, 0], [2, 0, 0, 2], [0, 2, 2, 0], [0, 1, 0, 2]] \<and>
   bnd (normal_form quad) normal_form =
     Inr [[4, 2, 0, 0], [2, 0, 2, 0], [0, 2, 0, 2], [0, 0, 2, 1]] \<and>
   with_permuted_rows_and_columns quad (one 4) [2, 1, 0, 3] = Inr quad' \<and>
   normal_form quad' = Inr [[4, 2, 0, 0], [2, 0, 2, 0], [0, 2, 0, 2], [0, 0, 2, 1]] \<and>
   normal_form [[1, 3, 2]] = Inr [[3, 1, 2]] \<and>
   normal_form [[3, 1, 2]] = Inr [[3, 2, 1]]"
  by code_simp

end
